theory Spec2Isabelle
  imports Complex_Main
begin

section \<open>Errors\<close>

text \<open>
  Every exception the modelled code can raise is a value. \<open>RuntimeError\<close> is raised by
  \<^verbatim>\<open>backward\<close> itself, \<open>AssertionError\<close> by the \<^verbatim>\<open>assert\<close> of \<^verbatim>\<open>__pow__\<close>, \<open>AttributeError\<close> and
  \<open>TypeError\<close> by the interpreter (an attribute of \<^verbatim>\<open>None\<close>, arithmetic on \<^verbatim>\<open>None\<close>),
  \<open>ValueError\<close>, \<open>AxisError\<close> and \<open>IndexError\<close> by the array library (\<open>IndexError\<close> also
  by a Python list indexed out of range), \<open>ZeroDivisionError\<close> by the power \<^verbatim>\<open>0 ** -1\<close> of
  Python numbers, and \<open>RecursionError\<close> by the interpreter when the recursion of
  \<^verbatim>\<open>build_topo\<close> is deeper than it allows. \<open>NotANumber\<close> is no exception: it is the
  result of the one statement that stores \<^verbatim>\<open>None\<close> into an array of floats, which the
  library does without raising, by storing NaN; the arrays here hold real numbers, and the
  model of the run ends there.
\<close>

datatype error =
    RuntimeError
  | ValueError
  | AxisError
  | TypeError
  | AssertionError
  | AttributeError
  | RecursionError
  | IndexError
  | ZeroDivisionError
  | NotANumber

section \<open>The no-grad scope guard (class NoGrad)\<close>

text \<open>
  \<^verbatim>\<open>NoGrad._enabled\<close> is a class attribute: one boolean shared by the whole process,
  \<open>True\<close> while gradient tracking is switched off. Every guard instance carries its own
  attribute \<^verbatim>\<open>prev\<close>, which does not exist before the first \<^verbatim>\<open>__enter__\<close>; it is an option
  here. Both methods take the process-wide switch and return its new value.
\<close>

record NoGrad =
  prev :: "bool option"

definition no_grad :: NoGrad where
  "no_grad = \<lparr>prev = None\<rparr>"

definition NoGrad_enter :: "NoGrad \<Rightarrow> bool \<Rightarrow> NoGrad \<times> bool" where
  "NoGrad_enter g enabled = (g\<lparr>prev := Some enabled\<rparr>, True)"

definition NoGrad_exit :: "NoGrad \<Rightarrow> bool \<Rightarrow> error + bool" where
  "NoGrad_exit g enabled = (case prev g of None \<Rightarrow> Inl AttributeError | Some p \<Rightarrow> Inr p)"

section \<open>Dense arrays: the part of the array library the engine calls\<close>

text \<open>
  An array is its shape and its elements in row-major order. Elements are exact reals:
  rounding, infinities and NaN are outside this model, and a boolean mask is the array of
  its values 0 and 1 (which is what multiplying by it uses). \<open>indices sh\<close> lists the index
  tuples of a shape in row-major order, \<open>elem_at\<close> reads one element and \<open>tabulate\<close> builds
  an array from a function of the index tuple; \<open>elem_at\<close> is only ever applied to index
  tuples inside the shape.

  Broadcasting follows the library's rule: shapes are aligned at their last dimension, a
  dimension of size 1 stretches, anything else must agree, and a mismatch is a
  \<open>ValueError\<close>. An in-place addition \<^verbatim>\<open>a += b\<close> cannot change the shape of \<open>a\<close>: it fails
  when the broadcast shape is not the shape of \<open>a\<close>. Reductions take an optional axis
  (negative axes count from the end, an axis out of range is an \<open>AxisError\<close>); the maximum
  over an empty axis is a \<open>ValueError\<close>.
\<close>

record ndarray =
  shape :: "nat list"
  elems :: "real list"

fun indices :: "nat list \<Rightarrow> nat list list" where
  "indices [] = [[]]"
| "indices (n # ns) = concat (map (\<lambda>i. map ((#) i) (indices ns)) [0..<n])"

definition elem_at :: "ndarray \<Rightarrow> nat list \<Rightarrow> real" where
  "elem_at a idx = (case map_of (zip (indices (shape a)) (elems a)) idx of Some x \<Rightarrow> x | None \<Rightarrow> 0)"

definition tabulate :: "nat list \<Rightarrow> (nat list \<Rightarrow> real) \<Rightarrow> ndarray" where
  "tabulate sh f = \<lparr>shape = sh, elems = map f (indices sh)\<rparr>"

definition ndim :: "ndarray \<Rightarrow> nat" where
  "ndim a = length (shape a)"

definition zeros_like :: "ndarray \<Rightarrow> ndarray" where
  "zeros_like a = tabulate (shape a) (\<lambda>idx. 0)"

definition ones_like :: "ndarray \<Rightarrow> ndarray" where
  "ones_like a = tabulate (shape a) (\<lambda>idx. 1)"

fun broadcast_rev :: "nat list \<Rightarrow> nat list \<Rightarrow> nat list option" where
  "broadcast_rev [] ys = Some ys"
| "broadcast_rev xs [] = Some xs"
| "broadcast_rev (x # xs) (y # ys) =
     (if x = y \<or> y = 1 then map_option ((#) x) (broadcast_rev xs ys)
      else if x = 1 then map_option ((#) y) (broadcast_rev xs ys)
      else None)"

definition broadcast_shapes :: "nat list \<Rightarrow> nat list \<Rightarrow> nat list option" where
  "broadcast_shapes s t = map_option rev (broadcast_rev (rev s) (rev t))"

definition bidx :: "nat list \<Rightarrow> nat list \<Rightarrow> nat list" where
  "bidx s idx = map2 (\<lambda>n i. if n = 1 then 0 else i) s (drop (length idx - length s) idx)"

definition np_binop :: "(real \<Rightarrow> real \<Rightarrow> real) \<Rightarrow> ndarray \<Rightarrow> ndarray \<Rightarrow> error + ndarray" where
  "np_binop f a b =
     (case broadcast_shapes (shape a) (shape b) of
        None \<Rightarrow> Inl ValueError
      | Some sh \<Rightarrow> Inr (tabulate sh (\<lambda>idx. f (elem_at a (bidx (shape a) idx)) (elem_at b (bidx (shape b) idx)))))"

definition np_mul :: "ndarray \<Rightarrow> ndarray \<Rightarrow> error + ndarray" where
  "np_mul = np_binop (*)"

definition np_add :: "ndarray \<Rightarrow> ndarray \<Rightarrow> error + ndarray" where
  "np_add = np_binop (+)"

definition np_eq :: "ndarray \<Rightarrow> ndarray \<Rightarrow> error + ndarray" where
  "np_eq = np_binop (\<lambda>x y. if x = y then 1 else 0)"

definition np_iadd :: "ndarray \<Rightarrow> ndarray \<Rightarrow> error + ndarray" where
  "np_iadd a b =
     (case np_add a b of
        Inl e \<Rightarrow> Inl e
      | Inr c \<Rightarrow> if shape c = shape a then Inr c else Inl ValueError)"

definition normalize_axis :: "int \<Rightarrow> nat \<Rightarrow> error + nat" where
  "normalize_axis ax n =
     (if - int n \<le> ax \<and> ax < int n then Inr (nat (if ax < 0 then ax + int n else ax))
      else Inl AxisError)"

definition reduce_axis :: "(real list \<Rightarrow> real) \<Rightarrow> nat \<Rightarrow> bool \<Rightarrow> ndarray \<Rightarrow> ndarray" where
  "reduce_axis r k keepdims a =
     (if keepdims
      then tabulate ((shape a)[k := 1])
             (\<lambda>idx. r (map (\<lambda>j. elem_at a (idx[k := j])) [0..<shape a ! k]))
      else tabulate (take k (shape a) @ drop (Suc k) (shape a))
             (\<lambda>idx. r (map (\<lambda>j. elem_at a (take k idx @ j # drop k idx)) [0..<shape a ! k])))"

definition reduce_all :: "(real list \<Rightarrow> real) \<Rightarrow> bool \<Rightarrow> ndarray \<Rightarrow> ndarray" where
  "reduce_all r keepdims a =
     \<lparr>shape = (if keepdims then replicate (ndim a) 1 else []), elems = [r (elems a)]\<rparr>"

definition np_sum :: "ndarray \<Rightarrow> int option \<Rightarrow> bool \<Rightarrow> error + ndarray" where
  "np_sum a axis keepdims =
     (case axis of
        None \<Rightarrow> Inr (reduce_all sum_list keepdims a)
      | Some ax \<Rightarrow>
          (case normalize_axis ax (ndim a) of
             Inl e \<Rightarrow> Inl e
           | Inr k \<Rightarrow> Inr (reduce_axis sum_list k keepdims a)))"

definition maximum :: "real list \<Rightarrow> real" where
  "maximum xs = fold max (tl xs) (hd xs)"

definition np_max :: "ndarray \<Rightarrow> int option \<Rightarrow> bool \<Rightarrow> error + ndarray" where
  "np_max a axis keepdims =
     (case axis of
        None \<Rightarrow> if elems a = [] then Inl ValueError else Inr (reduce_all maximum keepdims a)
      | Some ax \<Rightarrow>
          (case normalize_axis ax (ndim a) of
             Inl e \<Rightarrow> Inl e
           | Inr k \<Rightarrow> if shape a ! k = 0 then Inl ValueError
                      else Inr (reduce_axis maximum k keepdims a)))"

definition expand_dims :: "ndarray \<Rightarrow> int \<Rightarrow> error + ndarray" where
  "expand_dims a ax =
     (case normalize_axis ax (Suc (ndim a)) of
        Inl e \<Rightarrow> Inl e
      | Inr k \<Rightarrow> Inr (a\<lparr>shape := take k (shape a) @ 1 # drop k (shape a)\<rparr>))"

definition broadcast_to :: "ndarray \<Rightarrow> nat list \<Rightarrow> error + ndarray" where
  "broadcast_to a sh =
     (if broadcast_shapes (shape a) sh = Some sh
      then Inr (tabulate sh (\<lambda>idx. elem_at a (bidx (shape a) idx)))
      else Inl ValueError)"

text \<open>
  The matrix product of the library: a one-dimensional operand is promoted to a matrix
  (a row on the left, a column on the right) and the added dimension is removed from the
  result; operands with more than two dimensions are stacks of matrices whose leading
  dimensions broadcast; a scalar operand or a mismatch of the inner dimensions is a
  \<open>ValueError\<close>. \<open>np_T\<close> reverses the axes. \<open>np_pow\<close> and \<open>np_scale\<close> are the
  element-wise power and product with a scalar.
\<close>

definition np_T :: "ndarray \<Rightarrow> ndarray" where
  "np_T a = tabulate (rev (shape a)) (\<lambda>idx. elem_at a (rev idx))"

definition np_matmul :: "ndarray \<Rightarrow> ndarray \<Rightarrow> error + ndarray" where
  "np_matmul a b =
     (if ndim a = 0 \<or> ndim b = 0 then Inl ValueError
      else
        let sa = (if ndim a = 1 then 1 # shape a else shape a);
            sb = (if ndim b = 1 then shape b @ [1] else shape b);
            ba = take (length sa - 2) sa;
            bb = take (length sb - 2) sb;
            n = sa ! (length sa - 2);
            k = last sa;
            m = last sb
        in if k \<noteq> sb ! (length sb - 2) then Inl ValueError
           else case broadcast_shapes ba bb of
                  None \<Rightarrow> Inl ValueError
                | Some bs \<Rightarrow>
                    Inr ((tabulate (bs @ [n, m])
                           (\<lambda>idx. sum_list (map
                              (\<lambda>l. elem_at (a\<lparr>shape := sa\<rparr>)
                                       (bidx ba (take (length bs) idx) @ [idx ! length bs, l])
                                   * elem_at (b\<lparr>shape := sb\<rparr>)
                                       (bidx bb (take (length bs) idx) @ [l, idx ! Suc (length bs)]))
                              [0..<k])))
                         \<lparr>shape := bs @ (if ndim a = 1 then [] else [n])
                                       @ (if ndim b = 1 then [] else [m])\<rparr>))"

definition float_pow :: "real \<Rightarrow> real \<Rightarrow> real" where
  "float_pow x c =
     (if c = of_int \<lfloor>c\<rfloor>
      then (if 0 \<le> c then x ^ nat \<lfloor>c\<rfloor> else inverse (x ^ nat (- \<lfloor>c\<rfloor>)))
      else x powr c)"

definition np_pow :: "ndarray \<Rightarrow> real \<Rightarrow> ndarray" where
  "np_pow a c = a\<lparr>elems := map (\<lambda>x. float_pow x c) (elems a)\<rparr>"

definition np_scale :: "ndarray \<Rightarrow> real \<Rightarrow> ndarray" where
  "np_scale a c = a\<lparr>elems := map (\<lambda>x. x * c) (elems a)\<rparr>"

text \<open>
  The other element-wise kernels: exponential, logarithm, quotient and the comparison
  \<^verbatim>\<open>>\<close>, whose result is the array of the values 0 and 1. The logarithm of a number
  that is not positive and the quotient by zero are infinite or NaN in the library, so
  outside the model.
\<close>

definition np_exp :: "ndarray \<Rightarrow> ndarray" where
  "np_exp a = a\<lparr>elems := map exp (elems a)\<rparr>"

definition np_log :: "ndarray \<Rightarrow> ndarray" where
  "np_log a = a\<lparr>elems := map ln (elems a)\<rparr>"

definition np_div :: "ndarray \<Rightarrow> ndarray \<Rightarrow> error + ndarray" where
  "np_div = np_binop (/)"

definition np_gt :: "ndarray \<Rightarrow> ndarray \<Rightarrow> error + ndarray" where
  "np_gt = np_binop (\<lambda>x y. if y < x then 1 else 0)"

text \<open>
  Indexing. \<^verbatim>\<open>a[key]\<close> is the library's: it reads the key against the shape of \<open>a\<close> and
  either raises \<open>IndexError\<close> or selects elements of \<open>a\<close>. What a key selects is a
  \<open>selection\<close>: the shape of the result and, for each element of the result in row-major
  order, the index tuple of \<open>a\<close> it is read from. The reading of keys is not part of the
  engine; the operator \<^verbatim>\<open>__getitem__\<close> below takes it as a parameter. \<open>np_getitem\<close> reads a
  selection and \<open>np_setitem\<close> is the assignment \<^verbatim>\<open>a[key] = values\<close>: the values are
  broadcast to the shape of the selection, and where an element is selected several times
  the last assignment stays.

  \<open>np_take a k idx\<close> is \<^verbatim>\<open>a[:, ..., idx, ..., :]\<close> with the index array at axis \<open>k\<close>, the key
  \<^verbatim>\<open>gather\<close> builds: the axis \<open>k\<close> is replaced by the shape of the index array. An index
  value must be an integer from \<open>-n\<close> to \<open>n - 1\<close> for an axis of length \<open>n\<close>, negative
  values counting from the end; otherwise the library raises \<open>IndexError\<close>. \<open>np_add_at\<close>
  is \<^verbatim>\<open>np.add.at\<close> for the same key: every selected element is increased by every value
  assigned to it. \<open>take_source n k idx j\<close> is the index tuple that the element \<open>j\<close> of such
  a selection is read from, and \<open>py_index\<close> is the index of a Python list or tuple.
\<close>

record selection =
  sel_shape :: "nat list"
  sel_sources :: "nat list list"

definition np_getitem :: "ndarray \<Rightarrow> selection \<Rightarrow> ndarray" where
  "np_getitem a sel = \<lparr>shape = sel_shape sel, elems = map (elem_at a) (sel_sources sel)\<rparr>"

definition np_setitem :: "ndarray \<Rightarrow> selection \<Rightarrow> ndarray \<Rightarrow> error + ndarray" where
  "np_setitem a sel vals =
     (case broadcast_to vals (sel_shape sel) of
        Inl e \<Rightarrow> Inl e
      | Inr v \<Rightarrow>
          Inr (tabulate (shape a)
                 (\<lambda>i. case filter (\<lambda>p. fst p = i) (zip (sel_sources sel) (elems v)) of
                        [] \<Rightarrow> elem_at a i
                      | p # ps \<Rightarrow> snd (last (p # ps)))))"

definition py_index :: "int \<Rightarrow> nat \<Rightarrow> error + nat" where
  "py_index i n =
     (if - int n \<le> i \<and> i < int n then Inr (nat (if i < 0 then i + int n else i))
      else Inl IndexError)"

definition valid_index_values :: "ndarray \<Rightarrow> nat \<Rightarrow> bool" where
  "valid_index_values idx n \<longleftrightarrow>
     list_all (\<lambda>x. x = of_int \<lfloor>x\<rfloor> \<and> - int n \<le> \<lfloor>x\<rfloor> \<and> \<lfloor>x\<rfloor> < int n) (elems idx)"

definition take_source :: "nat \<Rightarrow> nat \<Rightarrow> ndarray \<Rightarrow> nat list \<Rightarrow> nat list" where
  "take_source n k idx j =
     (let r = length (shape idx);
          x = \<lfloor>elem_at idx (take r (drop k j))\<rfloor>
      in take k j @ [nat (if x < 0 then x + int n else x)] @ drop (k + r) j)"

definition np_take :: "ndarray \<Rightarrow> nat \<Rightarrow> ndarray \<Rightarrow> error + ndarray" where
  "np_take a k idx =
     (if valid_index_values idx (shape a ! k)
      then Inr (tabulate (take k (shape a) @ shape idx @ drop (Suc k) (shape a))
                  (\<lambda>j. elem_at a (take_source (shape a ! k) k idx j)))
      else Inl IndexError)"

definition np_add_at :: "ndarray \<Rightarrow> nat \<Rightarrow> ndarray \<Rightarrow> ndarray \<Rightarrow> error + ndarray" where
  "np_add_at a k idx vals =
     (if valid_index_values idx (shape a ! k)
      then (case broadcast_to vals (take k (shape a) @ shape idx @ drop (Suc k) (shape a)) of
              Inl e \<Rightarrow> Inl e
            | Inr v \<Rightarrow>
                Inr (tabulate (shape a)
                       (\<lambda>i. elem_at a i
                              + sum_list (map (elem_at v)
                                  (filter (\<lambda>j. take_source (shape a ! k) k idx j = i)
                                     (indices (shape v)))))))
      else Inl IndexError)"

section \<open>Tensor nodes and the heap\<close>

text \<open>
  Tensors are objects with identity: several nodes may hold the same tensor among their
  \<^verbatim>\<open>_children\<close>, and \<^verbatim>\<open>backward\<close> writes the \<^verbatim>\<open>grad\<close> of nodes it reaches through them. The
  heap is the list of all tensors constructed so far, in the order of construction, and a
  reference is a position in it. The world is the heap with the process-wide switch
  \<^verbatim>\<open>NoGrad._enabled\<close>.

  The closure \<^verbatim>\<open>_backward\<close> of a node is the tag of the operator that built it with the
  variables the closure captured (\<^verbatim>\<open>self\<close>, \<^verbatim>\<open>other\<close>, the exponent, \<^verbatim>\<open>dim\<close> and \<^verbatim>\<open>keepdims\<close>,
  what the key of \<^verbatim>\<open>__getitem__\<close> selects, the axis and the index array of \<^verbatim>\<open>gather\<close>);
  the captured \<^verbatim>\<open>out\<close> is the node that carries the closure. \<open>NoOp\<close> is the
  \<^verbatim>\<open>lambda: None\<close> of the constructor. \<^verbatim>\<open>_children\<close> is a set of tensors, compared by
  identity; it is the list of its members without repetition. The order in which Python
  iterates over the set is not fixed; the theorems about the traversal hold for every heap,
  so for every order of these lists.

  An operand that is not a tensor is a Python number (\<open>Num\<close>) or an array of the array
  library that no tensor wraps (\<open>Raw\<close>). The subscript of \<^verbatim>\<open>__getitem__\<close> is a tensor or
  any other key.
\<close>

type_synonym ref = nat

datatype backward_closure =
    NoOp
  | MulBackward ref ref
  | MatmulBackward ref ref
  | PowBackward ref real
  | MaxBackward ref
  | SumBackward ref "int option" bool
  | AddBackward ref ref
  | GetitemBackward ref selection
  | GatherBackward ref nat ndarray
  | ExpBackward ref
  | LogBackward ref

record Tensor =
  data :: ndarray
  requires_grad :: bool
  grad :: "ndarray option"
  children :: "ref list"
  backward_closure :: backward_closure

record world =
  heap :: "Tensor list"
  nograd :: bool

datatype operand = Num real | Raw ndarray | Ten ref

datatype 'k subscript = KeyTen ref | KeyPy 'k

definition get :: "world \<Rightarrow> ref \<Rightarrow> Tensor" where
  "get w r = heap w ! r"

definition set_grad :: "world \<Rightarrow> ref \<Rightarrow> ndarray \<Rightarrow> world" where
  "set_grad w r g = w\<lparr>heap := (heap w)[r := (heap w ! r)\<lparr>grad := Some g\<rparr>]\<rparr>"

definition set_backward :: "world \<Rightarrow> ref \<Rightarrow> backward_closure \<Rightarrow> world" where
  "set_backward w r c = w\<lparr>heap := (heap w)[r := (heap w ! r)\<lparr>backward_closure := c\<rparr>]\<rparr>"

definition np_scalar :: "real \<Rightarrow> ndarray" where
  "np_scalar c = \<lparr>shape = [], elems = [c]\<rparr>"

subsection \<open>The constructor\<close>

text \<open>
  \<^verbatim>\<open>Tensor.__init__\<close>, given data that is an array already (a Python number is the
  zero-dimensional array \<open>np_scalar\<close>). It returns the reference of the new tensor.
\<close>

definition Tensor_init :: "world \<Rightarrow> ndarray \<Rightarrow> ref list \<Rightarrow> bool \<Rightarrow> ref \<times> world" where
  "Tensor_init w d cs rg =
     (let r = (rg \<and> \<not> nograd w);
          t = \<lparr>data = d,
               requires_grad = r,
               grad = (if r then Some (zeros_like d) else None),
               children = remdups cs,
               backward_closure = NoOp\<rparr>
      in (length (heap w), w\<lparr>heap := heap w @ [t]\<rparr>))"

subsection \<open>Operators\<close>

definition Tensor_mul :: "world \<Rightarrow> ref \<Rightarrow> operand \<Rightarrow> (error + ref) \<times> world" where
  "Tensor_mul w self other =
     (let (other', w1) = (case other of
                            Ten r \<Rightarrow> (r, w)
                          | Num c \<Rightarrow> Tensor_init w (np_scalar c) [] False
                          | Raw d \<Rightarrow> Tensor_init w d [] False);
          rg = (requires_grad (get w1 self) \<or> requires_grad (get w1 other'))
      in case np_mul (data (get w1 self)) (data (get w1 other')) of
           Inl e \<Rightarrow> (Inl e, w1)
         | Inr d \<Rightarrow>
             (let (out, w2) = Tensor_init w1 d [self, other'] rg
              in (Inr out, set_backward w2 out (MulBackward self other'))))"

definition Tensor_neg :: "world \<Rightarrow> ref \<Rightarrow> (error + ref) \<times> world" where
  "Tensor_neg w self = Tensor_mul w self (Num (- 1))"

text \<open>
  \<^verbatim>\<open>__matmul__\<close> reads \<^verbatim>\<open>other.requires_grad\<close> only where \<^verbatim>\<open>self.requires_grad\<close> is false
  (\<^verbatim>\<open>or\<close> does not evaluate its second operand otherwise), and then \<^verbatim>\<open>other.data\<close>. A Python
  number has neither attribute. An array of the library has no \<^verbatim>\<open>requires_grad\<close>, but it has
  a \<^verbatim>\<open>data\<close>, its buffer: where \<^verbatim>\<open>self\<close> requires a gradient the product is computed, and
  then the constructor raises \<open>TypeError\<close> at \<^verbatim>\<open>set(_children)\<close>, since an array cannot be a
  member of a set; no tensor comes to exist.
\<close>

definition Tensor_matmul :: "world \<Rightarrow> ref \<Rightarrow> operand \<Rightarrow> (error + ref) \<times> world" where
  "Tensor_matmul w self other =
     (case other of
        Ten other' \<Rightarrow>
          (let rg = (requires_grad (get w self) \<or> requires_grad (get w other'))
           in case np_matmul (data (get w self)) (data (get w other')) of
                Inl e \<Rightarrow> (Inl e, w)
              | Inr d \<Rightarrow>
                  (let (out, w') = Tensor_init w d [self, other'] rg
                   in (Inr out, set_backward w' out (MatmulBackward self other'))))
      | Raw d' \<Rightarrow>
          (if requires_grad (get w self)
           then (case np_matmul (data (get w self)) d' of
                   Inl e \<Rightarrow> (Inl e, w)
                 | Inr d \<Rightarrow> (Inl TypeError, w))
           else (Inl AttributeError, w))
      | Num c \<Rightarrow> (Inl AttributeError, w))"

definition Tensor_pow :: "world \<Rightarrow> ref \<Rightarrow> operand \<Rightarrow> (error + ref) \<times> world" where
  "Tensor_pow w self other =
     (case other of
        Num c \<Rightarrow>
          (let (out, w') = Tensor_init w (np_pow (data (get w self)) c) [self]
                             (requires_grad (get w self))
           in (Inr out, set_backward w' out (PowBackward self c)))
      | _ \<Rightarrow> (Inl AssertionError, w))"

text \<open>
  \<^verbatim>\<open>__truediv__\<close> is \<^verbatim>\<open>self * other**-1\<close>. For a tensor \<^verbatim>\<open>other**-1\<close> is \<^verbatim>\<open>Tensor.__pow__\<close>; for a
  Python number it is the number's own power, which raises \<open>ZeroDivisionError\<close> for 0;
  for an array it is the element-wise power of the library.
\<close>

definition Tensor_truediv :: "world \<Rightarrow> ref \<Rightarrow> operand \<Rightarrow> (error + ref) \<times> world" where
  "Tensor_truediv w self other =
     (case other of
        Ten other' \<Rightarrow>
          (case Tensor_pow w other' (Num (- 1)) of
             (Inl e, w1) \<Rightarrow> (Inl e, w1)
           | (Inr recip, w1) \<Rightarrow> Tensor_mul w1 self (Ten recip))
      | Num c \<Rightarrow>
          (if c = 0 then (Inl ZeroDivisionError, w)
           else Tensor_mul w self (Num (float_pow c (- 1))))
      | Raw d \<Rightarrow> Tensor_mul w self (Raw (np_pow d (- 1))))"

definition Tensor_rmul :: "world \<Rightarrow> ref \<Rightarrow> operand \<Rightarrow> (error + ref) \<times> world" where
  "Tensor_rmul w self other = Tensor_mul w self other"

definition Tensor_sqrt :: "world \<Rightarrow> ref \<Rightarrow> (error + ref) \<times> world" where
  "Tensor_sqrt w self = Tensor_pow w self (Num (1 / 2))"

definition Tensor_exp :: "world \<Rightarrow> ref \<Rightarrow> (error + ref) \<times> world" where
  "Tensor_exp w self =
     (let (out, w') = Tensor_init w (np_exp (data (get w self))) [self] (requires_grad (get w self))
      in (Inr out, set_backward w' out (ExpBackward self)))"

definition Tensor_log :: "world \<Rightarrow> ref \<Rightarrow> (error + ref) \<times> world" where
  "Tensor_log w self =
     (let (out, w') = Tensor_init w (np_log (data (get w self))) [self] (requires_grad (get w self))
      in (Inr out, set_backward w' out (LogBackward self)))"

text \<open>
  \<^verbatim>\<open>__gt__\<close> asserts that the operand is a number or a tensor, wraps a number in a leaf, and
  returns a leaf holding the comparison: no children, no gradient.
\<close>

definition Tensor_gt :: "world \<Rightarrow> ref \<Rightarrow> operand \<Rightarrow> (error + ref) \<times> world" where
  "Tensor_gt w self other =
     (case other of
        Raw d \<Rightarrow> (Inl AssertionError, w)
      | Ten other' \<Rightarrow>
          (case np_gt (data (get w self)) (data (get w other')) of
             Inl e \<Rightarrow> (Inl e, w)
           | Inr d \<Rightarrow> (let (out, w') = Tensor_init w d [] False in (Inr out, w')))
      | Num c \<Rightarrow>
          (let (other', w1) = Tensor_init w (np_scalar c) [] False
           in case np_gt (data (get w1 self)) (data (get w1 other')) of
                Inl e \<Rightarrow> (Inl e, w1)
              | Inr d \<Rightarrow> (let (out, w2) = Tensor_init w1 d [] False in (Inr out, w2))))"

text \<open>
  \<^verbatim>\<open>__getitem__\<close>. The key of a tensor subscript is the tensor's data. \<open>resolve\<close> is the
  library's reading of a key (an array or any other key) against a shape.
\<close>

definition Tensor_getitem ::
  "(nat list \<Rightarrow> ndarray + 'k \<Rightarrow> error + selection) \<Rightarrow> world \<Rightarrow> ref \<Rightarrow> 'k subscript
     \<Rightarrow> (error + ref) \<times> world" where
  "Tensor_getitem resolve w self key =
     (let key' = (case key of KeyTen r \<Rightarrow> Inl (data (get w r)) | KeyPy k \<Rightarrow> Inr k)
      in case resolve (shape (data (get w self))) key' of
           Inl e \<Rightarrow> (Inl e, w)
         | Inr sel \<Rightarrow>
             (let (out, w') = Tensor_init w (np_getitem (data (get w self)) sel) [self]
                                (requires_grad (get w self))
              in (Inr out, set_backward w' out (GetitemBackward self sel))))"

text \<open>
  \<^verbatim>\<open>gather\<close> wraps an index that is not a tensor in a leaf, puts the index array at position
  \<^verbatim>\<open>dim\<close> of a Python list of as many full slices as the operand has dimensions, and indexes
  the data with it. A Python number wrapped by the constructor is an array of floats, which
  the library refuses as an index; the element type of the other arrays is outside the
  model, and an index array is accepted when its values are integers. Only \<^verbatim>\<open>self\<close> is a
  child of the new node.
\<close>

definition Tensor_gather :: "world \<Rightarrow> ref \<Rightarrow> int \<Rightarrow> operand \<Rightarrow> (error + ref) \<times> world" where
  "Tensor_gather w self axis index =
     (let (index', w1) = (case index of
                            Ten r \<Rightarrow> (r, w)
                          | Num c \<Rightarrow> Tensor_init w (np_scalar c) [] False
                          | Raw d \<Rightarrow> Tensor_init w d [] False)
      in case py_index axis (ndim (data (get w1 self))) of
           Inl e \<Rightarrow> (Inl e, w1)
         | Inr k \<Rightarrow>
             (case (case index of
                      Num c \<Rightarrow> Inl IndexError
                    | _ \<Rightarrow> np_take (data (get w1 self)) k (data (get w1 index'))) of
                Inl e \<Rightarrow> (Inl e, w1)
              | Inr d \<Rightarrow>
                  (let (out, w2) = Tensor_init w1 d [self] (requires_grad (get w1 self))
                   in (Inr out,
                       set_backward w2 out (GatherBackward self k (data (get w1 index')))))))"

definition Tensor_max :: "world \<Rightarrow> ref \<Rightarrow> int option \<Rightarrow> bool \<Rightarrow> (error + ref) \<times> world" where
  "Tensor_max w self axis keepdims =
     (case np_max (data (get w self)) axis keepdims of
        Inl e \<Rightarrow> (Inl e, w)
      | Inr d \<Rightarrow>
          (let (out, w') = Tensor_init w d [self] (requires_grad (get w self))
           in (Inr out, set_backward w' out (MaxBackward self))))"

definition Tensor_sum :: "world \<Rightarrow> ref \<Rightarrow> int option \<Rightarrow> bool \<Rightarrow> (error + ref) \<times> world" where
  "Tensor_sum w self axis keepdims =
     (case np_sum (data (get w self)) axis keepdims of
        Inl e \<Rightarrow> (Inl e, w)
      | Inr d \<Rightarrow>
          (let (out, w') = Tensor_init w d [self] (requires_grad (get w self))
           in (Inr out, set_backward w' out (SumBackward self axis keepdims))))"

text \<open>
  Modelled from the spec: \<^verbatim>\<open>deeplib.add\<close>, which \<^verbatim>\<open>Tensor.__add__\<close> calls and which is not
  among the source files. The spec gives every operator one contract (compute the forward
  result, construct a new node whose parents are the operand nodes and whose
  \<^verbatim>\<open>requiresGrad\<close> is the OR of the operands', attach the local gradient, return the new
  node, mutate no operand) and gives add the forward \<open>A + B\<close>. An operand that is not a
  tensor is wrapped in a leaf that requires no gradient, as \<^verbatim>\<open>__mul__\<close> does.
\<close>

definition deeplib_add :: "world \<Rightarrow> ref \<Rightarrow> operand \<Rightarrow> (error + ref) \<times> world" where
  "deeplib_add w self other =
     (let (other', w1) = (case other of
                            Ten r \<Rightarrow> (r, w)
                          | Num c \<Rightarrow> Tensor_init w (np_scalar c) [] False
                          | Raw d \<Rightarrow> Tensor_init w d [] False);
          rg = (requires_grad (get w1 self) \<or> requires_grad (get w1 other'))
      in case np_add (data (get w1 self)) (data (get w1 other')) of
           Inl e \<Rightarrow> (Inl e, w1)
         | Inr d \<Rightarrow>
             (let (out, w2) = Tensor_init w1 d [self, other'] rg
              in (Inr out, set_backward w2 out (AddBackward self other'))))"

definition Tensor_add :: "world \<Rightarrow> ref \<Rightarrow> operand \<Rightarrow> (error + ref) \<times> world" where
  "Tensor_add w self other = deeplib_add w self other"

text \<open>
  \<^verbatim>\<open>__iadd__\<close> returns \<^verbatim>\<open>self + other\<close>; the statement \<^verbatim>\<open>a += b\<close> binds the name \<^verbatim>\<open>a\<close> to the
  reference it returns.
\<close>

definition Tensor_iadd :: "world \<Rightarrow> ref \<Rightarrow> operand \<Rightarrow> (error + ref) \<times> world" where
  "Tensor_iadd w self other = Tensor_add w self other"

definition Tensor_radd :: "world \<Rightarrow> ref \<Rightarrow> operand \<Rightarrow> (error + ref) \<times> world" where
  "Tensor_radd w self other = Tensor_add w self other"

text \<open>
  \<^verbatim>\<open>__sub__\<close> is \<^verbatim>\<open>self + (-other)\<close>: the negation is \<^verbatim>\<open>Tensor.__neg__\<close> for a tensor, and the
  number's or the array's own negation otherwise.
\<close>

definition Tensor_sub :: "world \<Rightarrow> ref \<Rightarrow> operand \<Rightarrow> (error + ref) \<times> world" where
  "Tensor_sub w self other =
     (case other of
        Ten other' \<Rightarrow>
          (case Tensor_neg w other' of
             (Inl e, w1) \<Rightarrow> (Inl e, w1)
           | (Inr negated, w1) \<Rightarrow> Tensor_add w1 self (Ten negated))
      | Num c \<Rightarrow> Tensor_add w self (Num (- c))
      | Raw d \<Rightarrow> Tensor_add w self (Raw (np_scale d (- 1))))"

text \<open>
  \<^verbatim>\<open>mean\<close> divides the sum by \<^verbatim>\<open>self.data.size\<close>, the number of elements of the operand,
  whatever \<^verbatim>\<open>dim\<close> is. \<^verbatim>\<open>var\<close> takes the mean with \<^verbatim>\<open>keepdims\<close>, squares the difference,
  reads the count (the size, or \<^verbatim>\<open>self.data.shape[dim]\<close>, a tuple indexed by \<^verbatim>\<open>dim\<close>), and
  divides the sum of the squares by it.
\<close>

definition Tensor_mean :: "world \<Rightarrow> ref \<Rightarrow> int option \<Rightarrow> bool \<Rightarrow> (error + ref) \<times> world" where
  "Tensor_mean w self axis keepdims =
     (case Tensor_sum w self axis keepdims of
        (Inl e, w1) \<Rightarrow> (Inl e, w1)
      | (Inr summed, w1) \<Rightarrow>
          Tensor_truediv w1 summed (Num (real (prod_list (shape (data (get w1 self)))))))"

definition Tensor_var ::
  "world \<Rightarrow> ref \<Rightarrow> int option \<Rightarrow> bool \<Rightarrow> bool \<Rightarrow> (error + ref) \<times> world" where
  "Tensor_var w self axis keepdims unbiased =
     (case Tensor_mean w self axis True of
        (Inl e, w1) \<Rightarrow> (Inl e, w1)
      | (Inr mean, w1) \<Rightarrow>
          (case Tensor_sub w1 self (Ten mean) of
             (Inl e, w2) \<Rightarrow> (Inl e, w2)
           | (Inr diff, w2) \<Rightarrow>
               (case Tensor_pow w2 diff (Num 2) of
                  (Inl e, w3) \<Rightarrow> (Inl e, w3)
                | (Inr squared_diff, w3) \<Rightarrow>
                    (case (case axis of
                             None \<Rightarrow> Inr (prod_list (shape (data (get w3 self))))
                           | Some ax \<Rightarrow>
                               (case py_index ax (ndim (data (get w3 self))) of
                                  Inl e \<Rightarrow> Inl e
                                | Inr k \<Rightarrow> Inr (shape (data (get w3 self)) ! k))) of
                       Inl e \<Rightarrow> (Inl e, w3)
                     | Inr n \<Rightarrow>
                         (let count = (if unbiased then int n - 1 else int n)
                          in case Tensor_sum w3 squared_diff axis keepdims of
                               (Inl e, w4) \<Rightarrow> (Inl e, w4)
                             | (Inr summed, w4) \<Rightarrow>
                                 Tensor_truediv w4 summed (Num (of_int count)))))))"

section \<open>The local gradient closures\<close>

subsection \<open>Undoing a broadcast\<close>

text \<open>
  The two loops of the closure of \<^verbatim>\<open>__mul__\<close>:
  \<^verbatim>\<open>while grad_self.ndim > self.grad.ndim: grad_self = grad_self.sum(axis=0)\<close> and
  \<^verbatim>\<open>for i, dim in enumerate(self.grad.shape): if dim == 1: grad_self = grad_self.sum(axis=i, keepdims=True)\<close>.
\<close>

function sum_leading :: "nat \<Rightarrow> ndarray \<Rightarrow> error + ndarray" where
  "sum_leading n g =
     (if n < ndim g
      then (case np_sum g (Some 0) False of Inl e \<Rightarrow> Inl e | Inr g' \<Rightarrow> sum_leading n g')
      else Inr g)"
  by pat_completeness auto
termination
  by (relation "measure (\<lambda>(n, g). ndim g - n)")
     (auto simp: np_sum_def normalize_axis_def reduce_axis_def tabulate_def ndim_def
           split: if_splits)

declare sum_leading.simps [simp del]

fun sum_unit_dims :: "(nat \<times> nat) list \<Rightarrow> ndarray \<Rightarrow> error + ndarray" where
  "sum_unit_dims [] g = Inr g"
| "sum_unit_dims ((i, d) # rest) g =
     (if d = 1
      then (case np_sum g (Some (int i)) True of
              Inl e \<Rightarrow> Inl e
            | Inr g' \<Rightarrow> sum_unit_dims rest g')
      else sum_unit_dims rest g)"

text \<open>
  The reduction as the spec words it: sum the incoming gradient over its leading extra
  dimensions until its rank is the operand's, then sum, keeping the dimension, over every
  dimension where the operand's shape is 1 and the incoming gradient's is not.
\<close>

definition reduce_spec :: "nat list \<Rightarrow> ndarray \<Rightarrow> ndarray" where
  "reduce_spec s g =
     fold (\<lambda>i g'. if s ! i = 1 \<and> shape g' ! i \<noteq> 1 then reduce_axis sum_list i True g' else g')
          [0..<length s]
          (((reduce_axis sum_list 0 False) ^^ (ndim g - length s)) g)"

subsection \<open>The closures\<close>

text \<open>\<^verbatim>\<open>t.grad += v\<close>, in place.\<close>

definition grad_iadd :: "world \<Rightarrow> ref \<Rightarrow> ndarray \<Rightarrow> (error + unit) \<times> world" where
  "grad_iadd w r v =
     (case grad (get w r) of
        None \<Rightarrow> (Inl TypeError, w)
      | Some g \<Rightarrow>
          (case np_iadd g v of
             Inl e \<Rightarrow> (Inl e, w)
           | Inr g' \<Rightarrow> (Inr (), set_grad w r g')))"

text \<open>
  One of the two blocks of the closure of \<^verbatim>\<open>__mul__\<close>: \<open>tgt\<close> is the operand that receives
  the gradient and \<open>fac\<close> the other one. The block ends with
  \<^verbatim>\<open>self.grad = self.grad + grad_self\<close>, which binds a new array and is not in place.
\<close>

definition mul_grad_into :: "world \<Rightarrow> ref \<Rightarrow> ref \<Rightarrow> ref \<Rightarrow> (error + unit) \<times> world" where
  "mul_grad_into w tgt fac out =
     (if requires_grad (get w tgt) then
        (case grad (get w out) of
           None \<Rightarrow> (Inl TypeError, w)
         | Some og \<Rightarrow>
             (case np_mul (data (get w fac)) og of
                Inl e \<Rightarrow> (Inl e, w)
              | Inr g0 \<Rightarrow>
                  (case grad (get w tgt) of
                     None \<Rightarrow> (Inl AttributeError, w)
                   | Some tg \<Rightarrow>
                       (case sum_leading (ndim tg) g0 of
                          Inl e \<Rightarrow> (Inl e, w)
                        | Inr g1 \<Rightarrow>
                            (case sum_unit_dims (enumerate 0 (shape tg)) g1 of
                               Inl e \<Rightarrow> (Inl e, w)
                             | Inr g2 \<Rightarrow>
                                 (case np_add tg g2 of
                                    Inl e \<Rightarrow> (Inl e, w)
                                  | Inr g3 \<Rightarrow> (Inr (), set_grad w tgt g3)))))))
      else (Inr (), w))"

definition backward_mul :: "world \<Rightarrow> ref \<Rightarrow> ref \<Rightarrow> ref \<Rightarrow> (error + unit) \<times> world" where
  "backward_mul w self other out =
     (case mul_grad_into w self other out of
        (Inl e, w1) \<Rightarrow> (Inl e, w1)
      | (Inr u, w1) \<Rightarrow> mul_grad_into w1 other self out)"

definition backward_matmul :: "world \<Rightarrow> ref \<Rightarrow> ref \<Rightarrow> ref \<Rightarrow> (error + unit) \<times> world" where
  "backward_matmul w self other out =
     (case (if requires_grad (get w self) then
              (case grad (get w out) of
                 None \<Rightarrow> (Inl TypeError, w)
               | Some og \<Rightarrow>
                   (case np_matmul og (np_T (data (get w other))) of
                      Inl e \<Rightarrow> (Inl e, w)
                    | Inr v \<Rightarrow> grad_iadd w self v))
            else (Inr (), w)) of
        (Inl e, w1) \<Rightarrow> (Inl e, w1)
      | (Inr u, w1) \<Rightarrow>
          (if requires_grad (get w1 other) then
             (case grad (get w1 out) of
                None \<Rightarrow> (Inl TypeError, w1)
              | Some og \<Rightarrow>
                  (case np_matmul (np_T (data (get w1 self))) og of
                     Inl e \<Rightarrow> (Inl e, w1)
                   | Inr v \<Rightarrow> grad_iadd w1 other v))
           else (Inr (), w1)))"

definition backward_pow :: "world \<Rightarrow> ref \<Rightarrow> real \<Rightarrow> ref \<Rightarrow> (error + unit) \<times> world" where
  "backward_pow w self c out =
     (if requires_grad (get w self) then
        (case grad (get w out) of
           None \<Rightarrow> (Inl TypeError, w)
         | Some og \<Rightarrow>
             (case np_mul (np_scale og c) (np_pow (data (get w self)) (c - 1)) of
                Inl e \<Rightarrow> (Inl e, w)
              | Inr v \<Rightarrow> grad_iadd w self v))
      else (Inr (), w))"

text \<open>
  The closure of \<^verbatim>\<open>max\<close>: \<^verbatim>\<open>self.grad += out.grad * (self.data == out.data)\<close>. The comparison
  is evaluated before the product.
\<close>

definition backward_max :: "world \<Rightarrow> ref \<Rightarrow> ref \<Rightarrow> (error + unit) \<times> world" where
  "backward_max w self out =
     (if requires_grad (get w self) then
        (case np_eq (data (get w self)) (data (get w out)) of
           Inl e \<Rightarrow> (Inl e, w)
         | Inr tied \<Rightarrow>
             (case grad (get w out) of
                None \<Rightarrow> (Inl TypeError, w)
              | Some og \<Rightarrow>
                  (case np_mul og tied of
                     Inl e \<Rightarrow> (Inl e, w)
                   | Inr v \<Rightarrow> grad_iadd w self v)))
      else (Inr (), w))"

definition backward_sum :: "world \<Rightarrow> ref \<Rightarrow> int option \<Rightarrow> bool \<Rightarrow> ref \<Rightarrow> (error + unit) \<times> world" where
  "backward_sum w self axis keepdims out =
     (if requires_grad (get w self) then
        (case grad (get w out) of
           None \<Rightarrow> (Inl TypeError, w)
         | Some og \<Rightarrow>
             (case (case axis of
                      None \<Rightarrow> np_mul (ones_like (data (get w self))) og
                    | Some ax \<Rightarrow>
                        (case (if \<not> keepdims then expand_dims og ax else Inr og) of
                           Inl e \<Rightarrow> Inl e
                         | Inr g \<Rightarrow> broadcast_to g (shape (data (get w self))))) of
                Inl e \<Rightarrow> (Inl e, w)
              | Inr v \<Rightarrow> grad_iadd w self v))
      else (Inr (), w))"

text \<open>
  Modelled from the spec: the local gradient of \<^verbatim>\<open>deeplib.add\<close>, which is not among the
  source files. The spec's rule is \<open>dA += dOut\<close> reduced to the shape of \<open>A\<close> and
  \<open>dB += dOut\<close> reduced to the shape of \<open>B\<close>, with the reduction \<open>reduce_spec\<close>.
\<close>

definition add_grad_into :: "world \<Rightarrow> ref \<Rightarrow> ref \<Rightarrow> (error + unit) \<times> world" where
  "add_grad_into w tgt out =
     (if requires_grad (get w tgt) then
        (case grad (get w out) of
           None \<Rightarrow> (Inl TypeError, w)
         | Some og \<Rightarrow> grad_iadd w tgt (reduce_spec (shape (data (get w tgt))) og))
      else (Inr (), w))"

definition backward_add :: "world \<Rightarrow> ref \<Rightarrow> ref \<Rightarrow> ref \<Rightarrow> (error + unit) \<times> world" where
  "backward_add w self other out =
     (case add_grad_into w self out of
        (Inl e, w1) \<Rightarrow> (Inl e, w1)
      | (Inr u, w1) \<Rightarrow> add_grad_into w1 other out)"

text \<open>
  The closures of \<^verbatim>\<open>__getitem__\<close>, \<^verbatim>\<open>gather\<close>, \<^verbatim>\<open>exp\<close> and \<^verbatim>\<open>log\<close>. Where \<^verbatim>\<open>out.grad\<close> is
  \<^verbatim>\<open>None\<close>, the arithmetic of the last three raises \<open>TypeError\<close>, while the assignment
  \<^verbatim>\<open>grad[key] = out.grad\<close> of the first stores NaN.
\<close>

definition backward_getitem :: "world \<Rightarrow> ref \<Rightarrow> selection \<Rightarrow> ref \<Rightarrow> (error + unit) \<times> world" where
  "backward_getitem w self sel out =
     (if requires_grad (get w self) then
        (case grad (get w out) of
           None \<Rightarrow> (Inl NotANumber, w)
         | Some og \<Rightarrow>
             (case np_setitem (zeros_like (data (get w self))) sel og of
                Inl e \<Rightarrow> (Inl e, w)
              | Inr g \<Rightarrow> grad_iadd w self g))
      else (Inr (), w))"

definition backward_gather ::
  "world \<Rightarrow> ref \<Rightarrow> nat \<Rightarrow> ndarray \<Rightarrow> ref \<Rightarrow> (error + unit) \<times> world" where
  "backward_gather w self k idx out =
     (if requires_grad (get w self) then
        (case grad (get w out) of
           None \<Rightarrow> (Inl TypeError, w)
         | Some og \<Rightarrow>
             (case np_add_at (zeros_like (data (get w self))) k idx og of
                Inl e \<Rightarrow> (Inl e, w)
              | Inr g \<Rightarrow> grad_iadd w self g))
      else (Inr (), w))"

definition backward_exp :: "world \<Rightarrow> ref \<Rightarrow> ref \<Rightarrow> (error + unit) \<times> world" where
  "backward_exp w self out =
     (if requires_grad (get w self) then
        (case grad (get w out) of
           None \<Rightarrow> (Inl TypeError, w)
         | Some og \<Rightarrow>
             (case np_mul og (data (get w out)) of
                Inl e \<Rightarrow> (Inl e, w)
              | Inr v \<Rightarrow> grad_iadd w self v))
      else (Inr (), w))"

definition backward_log :: "world \<Rightarrow> ref \<Rightarrow> ref \<Rightarrow> (error + unit) \<times> world" where
  "backward_log w self out =
     (if requires_grad (get w self) then
        (case grad (get w out) of
           None \<Rightarrow> (Inl TypeError, w)
         | Some og \<Rightarrow>
             (case np_div og (data (get w self)) of
                Inl e \<Rightarrow> (Inl e, w)
              | Inr v \<Rightarrow> grad_iadd w self v))
      else (Inr (), w))"

text \<open>Calling \<^verbatim>\<open>node._backward()\<close>.\<close>

definition local_backward :: "world \<Rightarrow> ref \<Rightarrow> (error + unit) \<times> world" where
  "local_backward w out =
     (case backward_closure (get w out) of
        NoOp \<Rightarrow> (Inr (), w)
      | MulBackward self other \<Rightarrow> backward_mul w self other out
      | MatmulBackward self other \<Rightarrow> backward_matmul w self other out
      | PowBackward self c \<Rightarrow> backward_pow w self c out
      | MaxBackward self \<Rightarrow> backward_max w self out
      | SumBackward self axis keepdims \<Rightarrow> backward_sum w self axis keepdims out
      | AddBackward self other \<Rightarrow> backward_add w self other out
      | GetitemBackward self sel \<Rightarrow> backward_getitem w self sel out
      | GatherBackward self k idx \<Rightarrow> backward_gather w self k idx out
      | ExpBackward self \<Rightarrow> backward_exp w self out
      | LogBackward self \<Rightarrow> backward_log w self out)"

section \<open>The backward pass (Tensor.backward)\<close>

text \<open>
  \<^verbatim>\<open>build_topo\<close> is recursive, and its loop over \<^verbatim>\<open>v._children\<close> calls it again. The first
  argument is the depth of recursion that is left: where it is used up the result is
  \<open>None\<close>. The state is the pair of the set \<^verbatim>\<open>visited\<close> and the list \<^verbatim>\<open>topo\<close>.
\<close>

fun build_topo :: "nat \<Rightarrow> Tensor list \<Rightarrow> ref \<Rightarrow> ref set \<times> ref list \<Rightarrow> (ref set \<times> ref list) option"
and build_topo_children :: "nat \<Rightarrow> Tensor list \<Rightarrow> ref list \<Rightarrow> ref set \<times> ref list \<Rightarrow> (ref set \<times> ref list) option"
where
  "build_topo 0 hp v st = None"
| "build_topo (Suc n) hp v (visited, topo) =
     (if v \<notin> visited
      then (case build_topo_children n hp (children (hp ! v)) (insert v visited, topo) of
              None \<Rightarrow> None
            | Some (visited', topo') \<Rightarrow> Some (visited', topo' @ [v]))
      else Some (visited, topo))"
| "build_topo_children n hp [] st = Some st"
| "build_topo_children n hp (child # rest) st =
     (case build_topo n hp child st of
        None \<Rightarrow> None
      | Some st' \<Rightarrow> build_topo_children n hp rest st')"

text \<open>\<^verbatim>\<open>for node in reversed(topo): node._backward()\<close>, given the reversed list.\<close>

fun run_backward :: "ref list \<Rightarrow> world \<Rightarrow> (error + unit) \<times> world" where
  "run_backward [] w = (Inr (), w)"
| "run_backward (node # rest) w =
     (case local_backward w node of
        (Inl e, w') \<Rightarrow> (Inl e, w')
      | (Inr u, w') \<Rightarrow> run_backward rest w')"

definition Tensor_backward :: "nat \<Rightarrow> world \<Rightarrow> ref \<Rightarrow> (error + unit) \<times> world" where
  "Tensor_backward limit w self =
     (if \<not> requires_grad (get w self) then (Inl RuntimeError, w)
      else
        let w1 = set_grad w self (ones_like (data (get w self)))
        in case build_topo limit (heap w1) self ({}, []) of
             None \<Rightarrow> (Inl RecursionError, w1)
           | Some (visited, topo) \<Rightarrow> run_backward (rev topo) w1)"

section \<open>Auxiliary notions for the proofs\<close>

text \<open>
  \<open>fresh_node\<close> is the record the constructor builds, \<open>push\<close> appends a tensor to the
  heap, and \<open>extends w w'\<close> says that \<open>w'\<close> has the same switch as \<open>w\<close> and that every
  tensor of \<open>w\<close> is in \<open>w'\<close> at the same reference with the same fields.
\<close>

definition fresh_node :: "world \<Rightarrow> ndarray \<Rightarrow> ref list \<Rightarrow> bool \<Rightarrow> backward_closure \<Rightarrow> Tensor" where
  "fresh_node w d cs rg c =
     \<lparr>data = d, requires_grad = (rg \<and> \<not> nograd w),
      grad = (if rg \<and> \<not> nograd w then Some (zeros_like d) else None),
      children = remdups cs, backward_closure = c\<rparr>"

definition push :: "world \<Rightarrow> Tensor \<Rightarrow> world" where
  "push w t = w\<lparr>heap := heap w @ [t]\<rparr>"

definition extends :: "world \<Rightarrow> world \<Rightarrow> bool" where
  "extends w w' \<longleftrightarrow> nograd w' = nograd w \<and> take (length (heap w)) (heap w') = heap w"

text \<open>
  The graph of a heap. A heap is well formed when every child of a tensor was constructed
  before the tensor, which the constructor guarantees: its \<^verbatim>\<open>_children\<close> are tensors that
  exist already. \<open>reachable hp r\<close> is the set of the nodes reached from \<open>r\<close> through
  children. A list is post-ordered when every child of each of its nodes stands before
  the node. \<open>dfs_ok\<close> relates the state \<open>(visited, topo)\<close> before and after a call of
  \<^verbatim>\<open>build_topo\<close>, and \<open>called\<close> lists the nodes whose closure \<open>run_backward\<close> calls: the
  closures run one after the other until one raises.
\<close>

definition wf_heap :: "Tensor list \<Rightarrow> bool" where
  "wf_heap hp \<longleftrightarrow> (\<forall>i < length hp. \<forall>c \<in> set (children (hp ! i)). c < i)"


definition post_ordered :: "Tensor list \<Rightarrow> ref list \<Rightarrow> bool" where
  "post_ordered hp topo \<longleftrightarrow>
     (\<forall>i < length topo. \<forall>c \<in> set (children (hp ! (topo ! i))). \<exists>j < i. topo ! j = c)"

definition dfs_ok :: "Tensor list \<Rightarrow> ref set \<Rightarrow> ref set \<times> ref list \<Rightarrow> ref set \<times> ref list \<Rightarrow> bool" where
  "dfs_ok hp R st st' \<longleftrightarrow>
     distinct (snd st') \<and> post_ordered hp (snd st')
     \<and> set (snd st) \<subseteq> set (snd st') \<and> set (snd st') \<subseteq> fst st'
     \<and> fst st' - set (snd st') = fst st - set (snd st)
     \<and> set (snd st') \<subseteq> set (snd st) \<union> R"


text \<open>An array is well formed when it has as many elements as its shape says.\<close>

definition wf_array :: "ndarray \<Rightarrow> bool" where
  "wf_array a \<longleftrightarrow> length (elems a) = prod_list (shape a)"

text \<open>
  \<open>accumulate w r c\<close> is the world in which the contribution \<open>c\<close> has been added, element
  by element, to the grad of the tensor \<open>r\<close>; the grad keeps its shape.
\<close>

definition accumulate :: "world \<Rightarrow> ref \<Rightarrow> ndarray \<Rightarrow> world" where
  "accumulate w r c =
     (case grad (get w r) of
        None \<Rightarrow> w
      | Some g \<Rightarrow> set_grad w r (tabulate (shape g) (\<lambda>idx. elem_at g idx + elem_at c idx)))"

text \<open>The array an operand stands for: the data of a tensor, or the array made from a number or raw data.\<close>

definition operand_data :: "world \<Rightarrow> operand \<Rightarrow> ndarray" where
  "operand_data w x = (case x of Ten r \<Rightarrow> data (get w r) | Num c \<Rightarrow> np_scalar c | Raw d \<Rightarrow> d)"

section \<open>Concrete worlds\<close>

text \<open>
  Small heaps on which the theorems below are instantiated. \<open>w_empty\<close> is the world before
  any tensor is constructed, with tracking on.
\<close>

definition w_empty :: world where
  "w_empty = \<lparr>heap = [], nograd = False\<rparr>"

definition arr23 :: ndarray where
  "arr23 = \<lparr>shape = [2, 3], elems = [1, 2, 3, 4, 5, 6]\<rparr>"

text \<open>One leaf of shape (2,3) that requires no gradient, and one that does.\<close>

definition w_plain :: world where
  "w_plain = snd (Tensor_init w_empty arr23 [] False)"

definition w_leaf :: world where
  "w_leaf = snd (Tensor_init w_empty arr23 [] True)"

text \<open>
  Two leaves: \<open>w_pair\<close> holds one of shape (2,3) that requires a gradient and one of shape
  (3,) that does not, shapes that broadcast; \<open>w_mismatch\<close> holds leaves of shapes (2,3)
  and (2,), which do not.
\<close>

definition w_pair :: world where
  "w_pair = snd (Tensor_init w_leaf \<lparr>shape = [3], elems = [10, 20, 30]\<rparr> [] False)"

definition w_mismatch :: world where
  "w_mismatch = snd (Tensor_init w_leaf \<lparr>shape = [2], elems = [1, 2]\<rparr> [] True)"

text \<open>
  The leaf of shape (2,3) reduced along its last axis without \<^verbatim>\<open>keepdims\<close>:
  \<open>w_max_rows\<close> after \<^verbatim>\<open>a.max(dim=1)\<close> and \<open>w_sum_cols\<close> after \<^verbatim>\<open>a.sum(dim=0)\<close>; the new node
  is at reference 1. \<open>w_square\<close> holds the square leaf [[1,2],[4,3]], and
  \<open>w_square_max\<close> is that world after \<^verbatim>\<open>a.max(dim=1)\<close>.
\<close>

definition w_max_rows :: world where
  "w_max_rows = snd (Tensor_max w_leaf 0 (Some 1) False)"

definition w_sum_cols :: world where
  "w_sum_cols = snd (Tensor_sum w_leaf 0 (Some 0) False)"

definition w_square :: world where
  "w_square = snd (Tensor_init w_empty \<lparr>shape = [2, 2], elems = [1, 2, 4, 3]\<rparr> [] True)"

definition w_square_max :: world where
  "w_square_max = snd (Tensor_max w_square 0 (Some 1) False)"


text \<open>
  A product that broadcasts: \<open>a\<close> of shape (3,1) and \<open>b\<close> of shape (4,), both requiring a
  gradient, and \<open>c = a * b\<close> of shape (3,4) at reference 2, whose grad has been seeded with
  ones.
\<close>

definition w_bcast :: world where
  "w_bcast =
     (let w1 = snd (Tensor_init w_empty \<lparr>shape = [3, 1], elems = [1, 2, 3]\<rparr> [] True);
          w2 = snd (Tensor_init w1 \<lparr>shape = [4], elems = [1, 1, 1, 1]\<rparr> [] True);
          w3 = snd (Tensor_mul w2 0 (Ten 1))
      in set_grad w3 2 (ones_like (data (get w3 2))))"

text \<open>
  A leaf without elements, of shape (0,).
\<close>

definition w_void :: world where
  "w_void = snd (Tensor_init w_empty \<lparr>shape = [0], elems = []\<rparr> [] True)"

text \<open>
  A reading of keys for the examples of \<^verbatim>\<open>__getitem__\<close>, as the array library reads an
  integer and an index array: either selects along the first axis, an integer \<open>i\<close> the
  sub-array at position \<open>i\<close> (negative positions counting from the end), an index array
  the sub-arrays at its values. A zero-dimensional array and a position or value outside
  the axis raise \<open>IndexError\<close>.
\<close>

definition resolve_first_axis :: "nat list \<Rightarrow> ndarray + int \<Rightarrow> error + selection" where
  "resolve_first_axis sh key =
     (case sh of
        [] \<Rightarrow> Inl IndexError
      | n # rest \<Rightarrow>
          (case key of
             Inr i \<Rightarrow>
               (case py_index i n of
                  Inl e \<Rightarrow> Inl e
                | Inr k \<Rightarrow> Inr \<lparr>sel_shape = rest, sel_sources = map ((#) k) (indices rest)\<rparr>)
           | Inl idx \<Rightarrow>
               (if valid_index_values idx n
                then Inr \<lparr>sel_shape = shape idx @ rest,
                          sel_sources = map (take_source n 0 idx) (indices (shape idx @ rest))\<rparr>
                else Inl IndexError)))"

section \<open>Facts about arrays\<close>

lemma length_indices: "length (indices sh) = prod_list sh"
proof (induction sh)
  case Nil
  show ?case by simp
next
  case (Cons n ns)
  have "length (concat (map (\<lambda>i. map ((#) i) (indices ns)) [0..<n])) = n * prod_list ns"
    by (simp add: length_concat comp_def Cons.IH sum_list_triv)
  then show ?case by simp
qed

lemma shape_tabulate: "shape (tabulate sh f) = sh"
  by (simp add: tabulate_def)

lemma elems_tabulate_const: "x \<in> set (elems (tabulate sh (\<lambda>idx. c))) \<Longrightarrow> x = c"
  by (auto simp: tabulate_def)

lemma length_elems_tabulate: "length (elems (tabulate sh f)) = prod_list sh"
  by (simp add: tabulate_def length_indices)

section \<open>Facts about the constructor and the operators\<close>

lemma Tensor_init_eq:
  "Tensor_init w d cs rg = (length (heap w), push w (fresh_node w d cs rg NoOp))"
  by (simp add: Tensor_init_def Let_def fresh_node_def push_def)

lemma set_backward_push:
  "set_backward (push w (fresh_node w d cs rg NoOp)) (length (heap w)) c
     = push w (fresh_node w d cs rg c)"
  by (simp add: set_backward_def push_def fresh_node_def)

lemma get_push_new: "get (push w t) (length (heap w)) = t"
  by (simp add: get_def push_def)

lemma get_push_old: "r < length (heap w) \<Longrightarrow> get (push w t) r = get w r"
  by (simp add: get_def push_def nth_append)

lemma push_simps: "nograd (push w t) = nograd w" "heap (push w t) = heap w @ [t]"
  by (simp_all add: push_def)

lemma fresh_node_simps:
  "requires_grad (fresh_node w d cs rg c) = (rg \<and> \<not> nograd w)"
  "grad (fresh_node w d cs rg c) = (if rg \<and> \<not> nograd w then Some (zeros_like d) else None)"
  "data (fresh_node w d cs rg c) = d"
  "children (fresh_node w d cs rg c) = remdups cs"
  "backward_closure (fresh_node w d cs rg c) = c"
  by (simp_all add: fresh_node_def)

lemma Tensor_mul_Ten:
  "Tensor_mul w self (Ten other) =
     (case np_mul (data (get w self)) (data (get w other)) of
        Inl e \<Rightarrow> (Inl e, w)
      | Inr d \<Rightarrow> (Inr (length (heap w)),
                  push w (fresh_node w d [self, other]
                            (requires_grad (get w self) \<or> requires_grad (get w other))
                            (MulBackward self other))))"
  by (simp add: Tensor_mul_def Tensor_init_eq set_backward_push split: sum.split)

lemma Tensor_mul_wrap:
  assumes "self < length (heap w)" and "other = Num c \<and> d0 = np_scalar c \<or> other = Raw d0"
  shows "Tensor_mul w self other =
     (let w1 = push w (fresh_node w d0 [] False NoOp) in
      case np_mul (data (get w self)) d0 of
        Inl e \<Rightarrow> (Inl e, w1)
      | Inr d \<Rightarrow> (Inr (Suc (length (heap w))),
                  push w1 (fresh_node w1 d [self, length (heap w)]
                            (requires_grad (get w self)) (MulBackward self (length (heap w))))))"
  using assms
  by (auto simp: Tensor_mul_def Tensor_init_eq set_backward_push get_push_old get_push_new
        push_simps fresh_node_simps Let_def
        set_backward_push [of "push w t" for t, simplified push_simps, simplified]
      split: sum.split)

section \<open>Facts about worlds that extend one another\<close>

lemma extends_refl: "extends w w"
  by (simp add: extends_def)

lemma extends_push: "extends w (push w t)"
  by (simp add: extends_def push_def)

lemma extends_length: "extends w w' \<Longrightarrow> length (heap w) \<le> length (heap w')"
proof -
  assume "extends w w'"
  then have "length (take (length (heap w)) (heap w')) = length (heap w)"
    by (simp only: extends_def)
  then show ?thesis by simp
qed

lemma extends_get: "extends w w' \<Longrightarrow> r < length (heap w) \<Longrightarrow> get w' r = get w r"
proof -
  assume e: "extends w w'" and r: "r < length (heap w)"
  have "heap w' ! r = take (length (heap w)) (heap w') ! r"
    using r by simp
  also have "\<dots> = heap w ! r"
    using e by (simp only: extends_def)
  finally show ?thesis by (simp add: get_def)
qed

lemma extends_trans: "extends w w1 \<Longrightarrow> extends w1 w2 \<Longrightarrow> extends w w2"
proof -
  assume a: "extends w w1" and b: "extends w1 w2"
  have l: "length (heap w) \<le> length (heap w1)"
    using a by (rule extends_length)
  have "take (length (heap w)) (heap w2) = take (length (heap w)) (take (length (heap w1)) (heap w2))"
    using l by (simp add: min_def)
  also have "\<dots> = take (length (heap w)) (heap w1)"
    using b by (simp only: extends_def)
  also have "\<dots> = heap w"
    using a by (simp only: extends_def)
  finally show ?thesis using a b by (simp add: extends_def)
qed

section \<open>Facts about what each operator returns\<close>

lemma Tensor_matmul_Ten:
  "Tensor_matmul w self (Ten other) =
     (case np_matmul (data (get w self)) (data (get w other)) of
        Inl e \<Rightarrow> (Inl e, w)
      | Inr d \<Rightarrow> (Inr (length (heap w)),
                  push w (fresh_node w d [self, other]
                            (requires_grad (get w self) \<or> requires_grad (get w other))
                            (MatmulBackward self other))))"
  by (simp add: Tensor_matmul_def Tensor_init_eq set_backward_push split: sum.split)

lemma Tensor_matmul_other:
  "Tensor_matmul w self (Num c) = (Inl AttributeError, w)"
  "snd (Tensor_matmul w self (Raw d)) = w"
  "Tensor_matmul w self (Raw d) \<noteq> (Inr out, w')"
  by (simp_all add: Tensor_matmul_def split: sum.split)

lemma Tensor_pow_Num:
  "Tensor_pow w self (Num c) =
     (Inr (length (heap w)),
      push w (fresh_node w (np_pow (data (get w self)) c) [self] (requires_grad (get w self))
                (PowBackward self c)))"
  by (simp add: Tensor_pow_def Tensor_init_eq set_backward_push)

lemma Tensor_pow_other:
  "Tensor_pow w self (Ten r) = (Inl AssertionError, w)"
  "Tensor_pow w self (Raw d) = (Inl AssertionError, w)"
  by (simp_all add: Tensor_pow_def)

lemma Tensor_max_eq:
  "Tensor_max w self axis keepdims =
     (case np_max (data (get w self)) axis keepdims of
        Inl e \<Rightarrow> (Inl e, w)
      | Inr d \<Rightarrow> (Inr (length (heap w)),
                  push w (fresh_node w d [self] (requires_grad (get w self)) (MaxBackward self))))"
  by (simp add: Tensor_max_def Tensor_init_eq set_backward_push split: sum.split)

lemma Tensor_sum_eq:
  "Tensor_sum w self axis keepdims =
     (case np_sum (data (get w self)) axis keepdims of
        Inl e \<Rightarrow> (Inl e, w)
      | Inr d \<Rightarrow> (Inr (length (heap w)),
                  push w (fresh_node w d [self] (requires_grad (get w self))
                            (SumBackward self axis keepdims))))"
  by (simp add: Tensor_sum_def Tensor_init_eq set_backward_push split: sum.split)

lemma Tensor_add_Ten:
  "Tensor_add w self (Ten other) =
     (case np_add (data (get w self)) (data (get w other)) of
        Inl e \<Rightarrow> (Inl e, w)
      | Inr d \<Rightarrow> (Inr (length (heap w)),
                  push w (fresh_node w d [self, other]
                            (requires_grad (get w self) \<or> requires_grad (get w other))
                            (AddBackward self other))))"
  by (simp add: Tensor_add_def deeplib_add_def Tensor_init_eq set_backward_push split: sum.split)

lemma extends_mul: "extends w (snd (Tensor_mul w self other))"
proof (cases other)
  case (Ten r)
  then show ?thesis
    by (simp add: Tensor_mul_Ten extends_refl extends_push split: sum.split)
next
  case (Num c)
  have "extends w (snd (Tensor_mul w self (Num c)))"
    by (auto simp: Tensor_mul_def Tensor_init_eq Let_def set_backward_push
          set_backward_push [of "push w t" for t, simplified push_simps, simplified]
          extends_push intro: extends_trans [OF extends_push extends_push] split: sum.split)
  with Num show ?thesis by simp
next
  case (Raw d)
  have "extends w (snd (Tensor_mul w self (Raw d)))"
    by (auto simp: Tensor_mul_def Tensor_init_eq Let_def set_backward_push
          set_backward_push [of "push w t" for t, simplified push_simps, simplified]
          extends_push intro: extends_trans [OF extends_push extends_push] split: sum.split)
  with Raw show ?thesis by simp
qed

lemma extends_add: "extends w (snd (Tensor_add w self other))"
proof (cases other)
  case (Ten r)
  then show ?thesis
    by (simp add: Tensor_add_Ten extends_refl extends_push split: sum.split)
next
  case (Num c)
  have "extends w (snd (Tensor_add w self (Num c)))"
    by (auto simp: Tensor_add_def deeplib_add_def Tensor_init_eq Let_def set_backward_push
          set_backward_push [of "push w t" for t, simplified push_simps, simplified]
          extends_push intro: extends_trans [OF extends_push extends_push] split: sum.split)
  with Num show ?thesis by simp
next
  case (Raw d)
  have "extends w (snd (Tensor_add w self (Raw d)))"
    by (auto simp: Tensor_add_def deeplib_add_def Tensor_init_eq Let_def set_backward_push
          set_backward_push [of "push w t" for t, simplified push_simps, simplified]
          extends_push intro: extends_trans [OF extends_push extends_push] split: sum.split)
  with Raw show ?thesis by simp
qed

lemma extends_matmul: "extends w (snd (Tensor_matmul w self other))"
  by (cases other)
     (simp_all add: Tensor_matmul_Ten Tensor_matmul_other extends_refl extends_push split: sum.split)

lemma extends_pow: "extends w (snd (Tensor_pow w self other))"
  by (cases other) (simp_all add: Tensor_pow_Num Tensor_pow_other extends_refl extends_push)

lemma extends_max: "extends w (snd (Tensor_max w self axis keepdims))"
  by (simp add: Tensor_max_eq extends_refl extends_push split: sum.split)

lemma extends_sum: "extends w (snd (Tensor_sum w self axis keepdims))"
  by (simp add: Tensor_sum_eq extends_refl extends_push split: sum.split)

lemma extends_truediv: "extends w (snd (Tensor_truediv w self other))"
proof (cases other)
  case (Ten o')
  obtain r w1 where p: "Tensor_pow w o' (Num (- 1)) = (r, w1)"
    by (cases "Tensor_pow w o' (Num (- 1))")
  have e1: "extends w w1" using extends_pow [of w o' "Num (- 1)"] p by simp
  show ?thesis
  proof (cases r)
    case (Inl e)
    with p e1 Ten show ?thesis by (simp add: Tensor_truediv_def)
  next
    case (Inr q)
    with p Ten have "Tensor_truediv w self other = Tensor_mul w1 self (Ten q)"
      by (simp add: Tensor_truediv_def)
    with e1 extends_mul [of w1 self "Ten q"] show ?thesis
      by (auto intro: extends_trans)
  qed
next
  case (Num c)
  then show ?thesis by (simp add: Tensor_truediv_def extends_refl extends_mul)
next
  case (Raw d)
  then show ?thesis by (simp add: Tensor_truediv_def extends_mul)
qed

section \<open>Facts about requires_grad and grad of new nodes\<close>

lemma init_grad:
  "Tensor_init w d cs rg = (r, w') \<Longrightarrow>
     requires_grad (get w' r) = (rg \<and> \<not> nograd w)
     \<and> (grad (get w' r) = None \<longleftrightarrow> \<not> requires_grad (get w' r))
     \<and> (requires_grad (get w' r) \<longrightarrow> grad (get w' r) = Some (zeros_like d))"
  by (auto simp: Tensor_init_eq get_push_new fresh_node_simps)

lemma zeros_like_zero:
  "shape (zeros_like d) = shape d \<and> length (elems (zeros_like d)) = prod_list (shape d)
   \<and> (\<forall>x \<in> set (elems (zeros_like d)). x = 0)"
  by (auto simp: zeros_like_def shape_tabulate length_elems_tabulate dest: elems_tabulate_const)

lemma mul_requires_grad:
  assumes "Tensor_mul w self (Ten other) = (Inr out, w')"
  shows "requires_grad (get w' out)
           = ((requires_grad (get w self) \<or> requires_grad (get w other)) \<and> \<not> nograd w)
         \<and> (grad (get w' out) = None \<longleftrightarrow> \<not> requires_grad (get w' out))"
  using assms
  by (auto simp: Tensor_mul_Ten get_push_new fresh_node_simps split: sum.splits)

lemma mul_raw_requires_grad:
  assumes "Tensor_mul w self other = (Inr out, w')" and "self < length (heap w)"
    and "other = Num c \<or> other = Raw d"
  shows "requires_grad (get w' out) = (requires_grad (get w self) \<and> \<not> nograd w)
         \<and> (grad (get w' out) = None \<longleftrightarrow> \<not> requires_grad (get w' out))"
proof -
  obtain d0 where "other = Num c \<and> d0 = np_scalar c \<or> other = Raw d0"
    using assms(3) by blast
  from Tensor_mul_wrap [OF assms(2) this] assms(1) show ?thesis
    by (auto simp: Let_def get_push_new [of "push w t" for t, simplified push_simps, simplified]
          fresh_node_simps push_simps split: sum.splits)
qed

lemma matmul_requires_grad:
  assumes "Tensor_matmul w self (Ten other) = (Inr out, w')"
  shows "requires_grad (get w' out)
           = ((requires_grad (get w self) \<or> requires_grad (get w other)) \<and> \<not> nograd w)
         \<and> (grad (get w' out) = None \<longleftrightarrow> \<not> requires_grad (get w' out))"
  using assms
  by (auto simp: Tensor_matmul_Ten get_push_new fresh_node_simps split: sum.splits)

lemma truediv_requires_grad:
  assumes "Tensor_truediv w self (Ten other) = (Inr out, w')" and "self < length (heap w)"
  shows "requires_grad (get w' out)
           = ((requires_grad (get w self) \<or> requires_grad (get w other)) \<and> \<not> nograd w)
         \<and> (grad (get w' out) = None \<longleftrightarrow> \<not> requires_grad (get w' out))"
proof -
  let ?w1 = "push w (fresh_node w (np_pow (data (get w other)) (- 1)) [other]
                (requires_grad (get w other)) (PowBackward other (- 1)))"
  have m: "Tensor_mul ?w1 self (Ten (length (heap w))) = (Inr out, w')"
    using assms(1) by (simp add: Tensor_truediv_def Tensor_pow_Num)
  from mul_requires_grad [OF m] assms(2) show ?thesis
    by (auto simp: get_push_old get_push_new fresh_node_simps push_simps)
qed

lemma extends_neg: "extends w (snd (Tensor_neg w self))"
  by (simp add: Tensor_neg_def extends_mul)

lemma failed_primitive_unchanged:
  assumes "Tensor_matmul w self x = (Inl e, w')
           \<or> Tensor_pow w self x = (Inl e, w')
           \<or> Tensor_mul w self (Ten other) = (Inl e, w')
           \<or> Tensor_max w self axis keepdims = (Inl e, w')
           \<or> Tensor_sum w self axis keepdims = (Inl e, w')"
  shows "w' = w"
  using assms
proof (elim disjE)
  assume "Tensor_matmul w self x = (Inl e, w')"
  then show ?thesis
  proof (cases x)
    case (Ten r)
    with \<open>Tensor_matmul w self x = (Inl e, w')\<close> show ?thesis
      by (auto simp: Tensor_matmul_Ten split: sum.splits)
  next
    case (Num c)
    with \<open>Tensor_matmul w self x = (Inl e, w')\<close> show ?thesis
      by (simp add: Tensor_matmul_other)
  next
    case (Raw d)
    with \<open>Tensor_matmul w self x = (Inl e, w')\<close> Tensor_matmul_other(2) [of w self d]
    show ?thesis by simp
  qed
next
  assume "Tensor_pow w self x = (Inl e, w')"
  then show ?thesis
    by (cases x) (auto simp: Tensor_pow_Num Tensor_pow_other)
next
  assume "Tensor_mul w self (Ten other) = (Inl e, w')"
  then show ?thesis by (auto simp: Tensor_mul_Ten split: sum.splits)
next
  assume "Tensor_max w self axis keepdims = (Inl e, w')"
  then show ?thesis by (auto simp: Tensor_max_eq split: sum.splits)
next
  assume "Tensor_sum w self axis keepdims = (Inl e, w')"
  then show ?thesis by (auto simp: Tensor_sum_eq split: sum.splits)
qed

lemma Tensor_add_wrap:
  assumes "self < length (heap w)" and "other = Num c \<and> d0 = np_scalar c \<or> other = Raw d0"
  shows "Tensor_add w self other =
     (let w1 = push w (fresh_node w d0 [] False NoOp) in
      case np_add (data (get w self)) d0 of
        Inl e \<Rightarrow> (Inl e, w1)
      | Inr d \<Rightarrow> (Inr (Suc (length (heap w))),
                  push w1 (fresh_node w1 d [self, length (heap w)]
                            (requires_grad (get w self)) (AddBackward self (length (heap w))))))"
  using assms
  by (auto simp: Tensor_add_def deeplib_add_def Tensor_init_eq set_backward_push get_push_old
        get_push_new push_simps fresh_node_simps Let_def
        set_backward_push [of "push w t" for t, simplified push_simps, simplified]
      split: sum.split)

lemma add_out_fresh:
  assumes "Tensor_add w self other = (Inr out, w')" and "self < length (heap w)"
  shows "length (heap w) \<le> out \<and> out < length (heap w') \<and> out \<noteq> self
         \<and> self \<in> set (children (get w' out))
         \<and> requires_grad (get w' out)
             = ((requires_grad (get w self)
                 \<or> (case other of Ten r \<Rightarrow> requires_grad (get w r) | _ \<Rightarrow> False))
                \<and> \<not> nograd w)
         \<and> np_add (data (get w self)) (operand_data w other) = Inr (data (get w' out))"
proof (cases other)
  case (Ten b)
  with assms show ?thesis
    by (auto simp: Tensor_add_Ten operand_data_def get_push_new push_simps fresh_node_simps
          split: sum.splits)
next
  case (Num c)
  from Tensor_add_wrap [OF assms(2), of other c "np_scalar c"] Num assms show ?thesis
    by (auto simp: Let_def operand_data_def push_simps fresh_node_simps
          get_push_new [of "push w t" for t, simplified push_simps, simplified]
          split: sum.splits)
next
  case (Raw d)
  from Tensor_add_wrap [OF assms(2), of other _ d] Raw assms show ?thesis
    by (auto simp: Let_def operand_data_def push_simps fresh_node_simps
          get_push_new [of "push w t" for t, simplified push_simps, simplified]
          split: sum.splits)
qed

section \<open>Facts about broadcasting and the closure of sum\<close>

lemma elem_at_tabulate:
  "idx \<in> set (indices sh) \<Longrightarrow> elem_at (tabulate sh f) idx = f idx"
  by (simp add: elem_at_def tabulate_def map_of_zip_map)

lemma broadcast_rev_stretch:
  "list_all2 (\<lambda>x y. x = y \<or> x = 1) t s \<Longrightarrow>
     broadcast_rev t s = Some s \<and> broadcast_rev s t = Some s"
  by (induction t s rule: list_all2_induct) auto

lemma broadcast_shapes_stretch:
  assumes "list_all2 (\<lambda>x y. x = y \<or> x = 1) t s"
  shows "broadcast_shapes t s = Some s" and "broadcast_shapes s t = Some s"
proof -
  from assms have "list_all2 (\<lambda>x y. x = y \<or> x = 1) (rev t) (rev s)"
    by (simp add: list_all2_rev)
  from broadcast_rev_stretch [OF this]
  show "broadcast_shapes t s = Some s" and "broadcast_shapes s t = Some s"
    by (simp_all add: broadcast_shapes_def)
qed

lemma broadcast_shapes_same: "broadcast_shapes s s = Some s"
  by (rule broadcast_shapes_stretch) (simp add: list_all2_same)

lemma broadcast_rev_Nil2: "broadcast_rev xs [] = Some xs"
  by (cases xs) simp_all

lemma broadcast_shapes_Nil: "broadcast_shapes [] s = Some s" "broadcast_shapes s [] = Some s"
  by (simp_all add: broadcast_shapes_def broadcast_rev_Nil2)

lemma list_all2_update_one:
  "list_all2 (\<lambda>x y. x = y \<or> x = (1::nat)) (s[k := 1]) s"
proof (cases "k < length s")
  case True
  then show ?thesis by (auto simp: list_all2_conv_all_nth nth_list_update)
next
  case False
  then have "s[k := 1] = s" by (simp add: list_update_beyond)
  then show ?thesis by (simp add: list_all2_same)
qed

lemma list_all2_replicate_one:
  "list_all2 (\<lambda>x y. x = y \<or> x = (1::nat)) (replicate (length s) 1) s"
  by (simp add: list_all2_conv_all_nth)

lemma np_binop_shape:
  "broadcast_shapes (shape a) (shape b) = Some sh \<Longrightarrow>
     np_binop f a b = Inr (tabulate sh (\<lambda>idx. f (elem_at a (bidx (shape a) idx))
                                              (elem_at b (bidx (shape b) idx))))"
  by (simp add: np_binop_def)

lemma in_indices: "idx \<in> set (indices s) \<longleftrightarrow> list_all2 (<) idx s"
proof (induction s arbitrary: idx)
  case Nil
  show ?case by auto
next
  case (Cons n ns)
  show ?case by (auto simp: list_all2_Cons2 Cons.IH image_iff)
qed

lemma bidx_same:
  assumes "idx \<in> set (indices s)"
  shows "bidx s idx = idx"
proof -
  from assms have a: "list_all2 (<) idx s" by (simp add: in_indices)
  then have l: "length idx = length s" by (rule list_all2_lengthD)
  have "map2 (\<lambda>n i. if n = 1 then 0 else i) s idx = idx"
    using a by (induction idx s rule: list_all2_induct) auto
  with l show ?thesis by (simp add: bidx_def)
qed

lemma np_iadd_same_shape:
  assumes "shape v = shape g"
  shows "np_iadd g v = Inr (tabulate (shape g) (\<lambda>idx. elem_at g idx + elem_at v idx))"
proof -
  have "tabulate (shape g) (\<lambda>idx. elem_at g (bidx (shape g) idx) + elem_at v (bidx (shape g) idx))
        = tabulate (shape g) (\<lambda>idx. elem_at g idx + elem_at v idx)"
    by (simp add: tabulate_def bidx_same)
  moreover have "broadcast_shapes (shape g) (shape v) = Some (shape g)"
    using assms by (simp add: broadcast_shapes_same)
  ultimately show ?thesis
    using assms by (simp add: np_iadd_def np_add_def np_binop_shape shape_tabulate)
qed

lemma broadcast_to_stretch:
  assumes "broadcast_shapes (shape e) sh = Some sh"
  shows "broadcast_to e sh = Inr (tabulate sh (\<lambda>idx. elem_at e (bidx (shape e) idx)))"
  using assms by (simp add: broadcast_to_def)

lemma grad_iadd_same_shape:
  assumes "grad (get w r) = Some g" and "shape v = shape g"
  shows "grad_iadd w r v
           = (Inr (), set_grad w r (tabulate (shape g) (\<lambda>idx. elem_at g idx + elem_at v idx)))"
  using assms by (simp add: grad_iadd_def np_iadd_same_shape)

lemma normalize_axis_less: "normalize_axis ax n = Inr k \<Longrightarrow> k < n"
  by (auto simp: normalize_axis_def split: if_splits)

lemma np_sum_axis_shape:
  assumes "np_sum a (Some ax) kd = Inr d"
  shows "\<exists>k < length (shape a). normalize_axis ax (length (shape a)) = Inr k
           \<and> shape d = (if kd then (shape a)[k := 1]
                        else take k (shape a) @ drop (Suc k) (shape a))"
  using assms
  by (auto simp: np_sum_def ndim_def reduce_axis_def shape_tabulate
        dest: normalize_axis_less split: sum.splits)

lemma np_sum_all_shape:
  assumes "np_sum a None kd = Inr d"
  shows "shape d = (if kd then replicate (length (shape a)) 1 else [])"
  using assms by (auto simp: np_sum_def reduce_all_def ndim_def)

lemma expand_dims_removed:
  assumes "k < length sh" and "normalize_axis ax (length sh) = Inr k"
    and "shape og = take k sh @ drop (Suc k) sh"
  shows "expand_dims og ax = Inr (og\<lparr>shape := sh[k := 1]\<rparr>)"
proof -
  have n: "Suc (ndim og) = length sh"
    using assms(1,3) by (simp add: ndim_def min_def)
  have "take k (shape og) @ 1 # drop k (shape og) = take k sh @ 1 # drop (Suc k) sh"
    using assms(1,3) by (simp add: min_def)
  also have "\<dots> = sh[k := 1]"
    using assms(1) by (simp add: upd_conv_take_nth_drop)
  finally show ?thesis
    using n assms(2) by (simp add: expand_dims_def)
qed

lemma broadcast_shapes_ones:
  "broadcast_shapes (replicate (length s) (Suc 0)) s = Some s"
  "broadcast_shapes s (replicate (length s) (Suc 0)) = Some s"
  using broadcast_shapes_stretch [OF list_all2_replicate_one, of s] by simp_all

lemma broadcast_shapes_update:
  "broadcast_shapes (s[k := Suc 0]) s = Some s"
  "broadcast_shapes s (s[k := Suc 0]) = Some s"
  using broadcast_shapes_stretch [OF list_all2_update_one, of s k] by simp_all

lemma sum_backward_adds_broadcast:
  assumes rg: "requires_grad (get w self)"
    and gs: "grad (get w self) = Some g" "shape g = shape (data (get w self))"
    and go: "grad (get w out) = Some og" "shape og = shape (data (get w out))"
    and fw: "np_sum (data (get w self)) axis keepdims = Inr (data (get w out))"
  shows "\<exists>e g'. (case axis of
                   None \<Rightarrow> e = og
                 | Some ax \<Rightarrow> if keepdims then e = og else expand_dims og ax = Inr e)
           \<and> broadcast_shapes (shape e) (shape g) = Some (shape g)
           \<and> backward_sum w self axis keepdims out = (Inr (), set_grad w self g')
           \<and> shape g' = shape g
           \<and> (\<forall>idx \<in> set (indices (shape g)).
                 elem_at g' idx = elem_at g idx + elem_at e (bidx (shape e) idx))"
proof -
  let ?sh = "shape g"
  define upd where "upd e = tabulate ?sh (\<lambda>idx. elem_at g idx + elem_at e (bidx (shape e) idx))" for e
  have upd_ok: "shape (upd e) = ?sh
      \<and> (\<forall>idx \<in> set (indices ?sh). elem_at (upd e) idx = elem_at g idx + elem_at e (bidx (shape e) idx))" for e
    by (simp add: upd_def shape_tabulate elem_at_tabulate)
  have via_bc: "backward_sum w self axis keepdims out = (Inr (), set_grad w self (upd e))"
    if s: "broadcast_shapes (shape e) ?sh = Some ?sh"
      and v: "(case axis of
                 None \<Rightarrow> np_mul (ones_like (data (get w self))) og
               | Some ax \<Rightarrow> (case (if \<not> keepdims then expand_dims og ax else Inr og) of
                               Inl e \<Rightarrow> Inl e
                             | Inr g \<Rightarrow> broadcast_to g (shape (data (get w self)))))
              = Inr (tabulate ?sh (\<lambda>idx. elem_at e (bidx (shape e) idx)))" for e
  proof -
    let ?v = "tabulate ?sh (\<lambda>idx. elem_at e (bidx (shape e) idx))"
    have "grad_iadd w self ?v
           = (Inr (), set_grad w self (tabulate ?sh (\<lambda>idx. elem_at g idx + elem_at ?v idx)))"
      by (rule grad_iadd_same_shape [OF gs(1)]) (simp add: shape_tabulate)
    also have "tabulate ?sh (\<lambda>idx. elem_at g idx + elem_at ?v idx) = upd e"
      by (simp add: upd_def tabulate_def elem_at_tabulate
            elem_at_tabulate [unfolded tabulate_def])
    finally show ?thesis
      using rg go(1) v by (simp add: backward_sum_def)
  qed
  show ?thesis
  proof (cases axis)
    case None
    from fw None go(2) have so: "shape og = (if keepdims then replicate (length ?sh) 1 else [])"
      using np_sum_all_shape [of "data (get w self)" keepdims] gs(2) by simp
    then have bc: "broadcast_shapes (shape og) ?sh = Some ?sh"
      and bc': "broadcast_shapes ?sh (shape og) = Some ?sh"
      by (simp_all add: broadcast_shapes_Nil broadcast_shapes_ones)
    have "np_mul (ones_like (data (get w self))) og
            = Inr (tabulate ?sh (\<lambda>idx. elem_at (ones_like (data (get w self))) (bidx ?sh idx)
                                       * elem_at og (bidx (shape og) idx)))"
      using bc' gs(2)
      by (simp add: np_mul_def np_binop_shape ones_like_def shape_tabulate)
    also have "\<dots> = Inr (tabulate ?sh (\<lambda>idx. elem_at og (bidx (shape og) idx)))"
      using gs(2) by (simp add: tabulate_def bidx_same ones_like_def
            elem_at_tabulate [unfolded tabulate_def])
    finally have "backward_sum w self axis keepdims out = (Inr (), set_grad w self (upd og))"
      using via_bc [OF bc] None by simp
    with None bc upd_ok [of og] show ?thesis by auto
  next
    case (Some ax)
    from np_sum_axis_shape [OF fw [unfolded Some]] gs(2) go(2)
    obtain k where k: "k < length ?sh" "normalize_axis ax (length ?sh) = Inr k"
      "shape og = (if keepdims then ?sh[k := 1] else take k ?sh @ drop (Suc k) ?sh)"
      by auto
    show ?thesis
    proof (cases keepdims)
      case True
      with k have bc: "broadcast_shapes (shape og) ?sh = Some ?sh"
        by (simp add: broadcast_shapes_update)
      then have "backward_sum w self axis keepdims out = (Inr (), set_grad w self (upd og))"
        using via_bc [OF bc] Some True gs(2) by (simp add: broadcast_to_stretch)
      with Some True bc upd_ok [of og] show ?thesis by auto
    next
      case False
      let ?e = "og\<lparr>shape := ?sh[k := 1]\<rparr>"
      from False k have ex: "expand_dims og ax = Inr ?e"
        by (simp add: expand_dims_removed)
      have bc: "broadcast_shapes (shape ?e) ?sh = Some ?sh"
        by (simp add: broadcast_shapes_update)
      then have "backward_sum w self axis keepdims out = (Inr (), set_grad w self (upd ?e))"
        using via_bc [OF bc] Some False gs(2) ex by (simp add: broadcast_to_stretch)
      with Some False bc ex upd_ok [of ?e] show ?thesis by auto
    qed
  qed
qed

section \<open>Facts about the traversal\<close>










lemma dfs_ok_mono: "dfs_ok hp R st st' \<Longrightarrow> R \<subseteq> R' \<Longrightarrow> dfs_ok hp R' st st'"
  unfolding dfs_ok_def by blast




section \<open>Facts about the heap under the backward pass\<close>


lemma length_heap_set_grad: "length (heap (set_grad w r g)) = length (heap w)"
  by (simp add: set_grad_def)




lemma wf_heap_push:
  assumes "wf_heap (heap w)" and "\<forall>c \<in> set cs. c < length (heap w)"
  shows "wf_heap (heap (push w (fresh_node w d cs rg cl)))"
  unfolding wf_heap_def
proof (intro allI impI ballI)
  fix i c
  assume i: "i < length (heap (push w (fresh_node w d cs rg cl)))"
    and c: "c \<in> set (children (heap (push w (fresh_node w d cs rg cl)) ! i))"
  show "c < i"
  proof (cases "i < length (heap w)")
    case True
    with c have "c \<in> set (children (heap w ! i))" by (simp add: push_simps nth_append)
    with assms(1) True show ?thesis by (simp add: wf_heap_def)
  next
    case False
    with i have "i = length (heap w)" by (simp add: push_simps)
    with c assms(2) show ?thesis by (simp add: push_simps fresh_node_simps)
  qed
qed






lemma wf_heap_operators:
  assumes "wf_heap (heap w)" and "self < length (heap w)" and "other < length (heap w)"
  shows "wf_heap (heap (snd (Tensor_init w d [] rg)))"
    and "wf_heap (heap (snd (Tensor_mul w self (Ten other))))"
    and "wf_heap (heap (snd (Tensor_matmul w self (Ten other))))"
    and "wf_heap (heap (snd (Tensor_pow w self x)))"
    and "wf_heap (heap (snd (Tensor_max w self axis keepdims)))"
    and "wf_heap (heap (snd (Tensor_sum w self axis keepdims)))"
proof -
  show "wf_heap (heap (snd (Tensor_init w d [] rg)))"
    using assms(1) by (simp add: Tensor_init_eq wf_heap_push)
  show "wf_heap (heap (snd (Tensor_mul w self (Ten other))))"
    using assms by (simp add: Tensor_mul_Ten wf_heap_push split: sum.split)
  show "wf_heap (heap (snd (Tensor_matmul w self (Ten other))))"
    using assms by (simp add: Tensor_matmul_Ten wf_heap_push split: sum.split)
  show "wf_heap (heap (snd (Tensor_pow w self x)))"
    using assms by (cases x) (simp_all add: Tensor_pow_Num Tensor_pow_other wf_heap_push)
  show "wf_heap (heap (snd (Tensor_max w self axis keepdims)))"
    using assms by (simp add: Tensor_max_eq wf_heap_push split: sum.split)
  show "wf_heap (heap (snd (Tensor_sum w self axis keepdims)))"
    using assms by (simp add: Tensor_sum_eq wf_heap_push split: sum.split)
qed

section \<open>Facts about reductions and broadcasting\<close>

lemma distinct_blocks:
  "distinct rs \<Longrightarrow> distinct (concat (map (\<lambda>i. map ((#) i) rs) [0..<n]))"
proof (induction n)
  case 0
  show ?case by simp
next
  case (Suc n)
  then show ?case by (auto simp: distinct_map)
qed

lemma distinct_indices: "distinct (indices sh)"
proof (induction sh)
  case Nil
  show ?case by simp
next
  case (Cons n ns)
  then show ?case by (simp add: distinct_blocks)
qed

lemma wf_array_tabulate: "wf_array (tabulate sh f)"
  by (simp add: wf_array_def length_elems_tabulate shape_tabulate)

lemma tabulate_elem_at:
  assumes "wf_array a"
  shows "tabulate (shape a) (elem_at a) = a"
proof -
  let ?I = "indices (shape a)"
  have l: "length ?I = length (elems a)"
    using assms by (simp add: wf_array_def length_indices)
  have "map (elem_at a) ?I = elems a"
  proof (rule nth_equalityI)
    show "length (map (elem_at a) ?I) = length (elems a)" using l by simp
  next
    fix i assume "i < length (map (elem_at a) ?I)"
    then have i: "i < length (elems a)" using l by simp
    from map_of_zip_nth [OF l distinct_indices i]
    have "elem_at a (?I ! i) = elems a ! i" by (simp add: elem_at_def)
    with i l show "map (elem_at a) ?I ! i = elems a ! i" by simp
  qed
  then show ?thesis by (simp add: tabulate_def)
qed

lemma tabulate_cong:
  "(\<And>idx. idx \<in> set (indices sh) \<Longrightarrow> f idx = g idx) \<Longrightarrow> tabulate sh f = tabulate sh g"
  by (simp add: tabulate_def)

lemma reduce_axis_unit:
  assumes "wf_array g" and "k < length (shape g)" and "shape g ! k = 1"
  shows "reduce_axis sum_list k True g = g"
proof -
  have s: "(shape g)[k := 1] = shape g"
    using assms(3) by (metis list_update_id)
  have "tabulate (shape g) (\<lambda>idx. sum_list (map (\<lambda>j. elem_at g (idx[k := j])) [0..<shape g ! k]))
        = tabulate (shape g) (elem_at g)"
  proof (rule tabulate_cong)
    fix idx assume "idx \<in> set (indices (shape g))"
    then have "list_all2 (<) idx (shape g)" by (simp add: in_indices)
    with assms(2,3) have "idx ! k < 1" by (auto simp: list_all2_conv_all_nth)
    then have "idx[k := 0] = idx" by (metis less_one list_update_id)
    with assms(3) show "sum_list (map (\<lambda>j. elem_at g (idx[k := j])) [0..<shape g ! k])
                        = elem_at g idx"
      by simp
  qed
  with s assms(1) show ?thesis
    by (simp add: reduce_axis_def tabulate_elem_at)
qed

lemma broadcast_rev_result:
  "broadcast_rev xs ys = Some us \<Longrightarrow>
     length xs \<le> length us \<and> length ys \<le> length us
     \<and> list_all2 (\<lambda>x u. x = u \<or> x = 1) xs (take (length xs) us)
     \<and> list_all2 (\<lambda>x u. x = u \<or> x = 1) ys (take (length ys) us)"
proof (induction xs ys arbitrary: us rule: broadcast_rev.induct)
  case (1 ys)
  then show ?case by (simp add: list_all2_same)
next
  case (2 x xs)
  then show ?case by (simp add: list_all2_same)
next
  case (3 x xs y ys)
  then show ?case by (auto split: if_splits)
qed

lemma broadcast_rev_prefix:
  "length xs \<le> length us \<Longrightarrow> list_all2 (\<lambda>x u. x = u \<or> x = 1) xs (take (length xs) us) \<Longrightarrow>
     broadcast_rev xs us = Some us"
proof (induction xs us rule: broadcast_rev.induct)
  case (1 ys)
  show ?case by simp
next
  case (2 x xs)
  then show ?case by simp
next
  case (3 x xs y ys)
  then show ?case by auto
qed

lemma broadcast_shapes_result:
  assumes "broadcast_shapes a b = Some u"
  shows "length a \<le> length u" and "length b \<le> length u"
    and "list_all2 (\<lambda>x y. x = y \<or> x = 1) a (drop (length u - length a) u)"
    and "list_all2 (\<lambda>x y. x = y \<or> x = 1) b (drop (length u - length b) u)"
    and "broadcast_shapes a u = Some u" and "broadcast_shapes b u = Some u"
proof -
  from assms obtain us where us: "broadcast_rev (rev a) (rev b) = Some us" "u = rev us"
    by (auto simp: broadcast_shapes_def)
  from broadcast_rev_result [OF us(1)]
  have r: "length a \<le> length us" "length b \<le> length us"
    "list_all2 (\<lambda>x u. x = u \<or> x = 1) (rev a) (take (length a) us)"
    "list_all2 (\<lambda>x u. x = u \<or> x = 1) (rev b) (take (length b) us)"
    by simp_all
  show "length a \<le> length u" and "length b \<le> length u" using r(1,2) us(2) by simp_all
  have t: "take n us = rev (drop (length u - n) u)" if "n \<le> length us" for n
    using us(2) that by (simp add: drop_rev)
  from r(3) have "list_all2 (\<lambda>x u. x = u \<or> x = 1) (rev a) (rev (drop (length u - length a) u))"
    by (simp only: t [OF r(1)])
  then show "list_all2 (\<lambda>x y. x = y \<or> x = 1) a (drop (length u - length a) u)"
    by (simp only: list_all2_rev)
  from r(4) have "list_all2 (\<lambda>x u. x = u \<or> x = 1) (rev b) (rev (drop (length u - length b) u))"
    by (simp only: t [OF r(2)])
  then show "list_all2 (\<lambda>x y. x = y \<or> x = 1) b (drop (length u - length b) u)"
    by (simp only: list_all2_rev)
  from broadcast_rev_prefix [of "rev a" us] r(1,3)
  show "broadcast_shapes a u = Some u" by (simp add: broadcast_shapes_def us(2))
  from broadcast_rev_prefix [of "rev b" us] r(2,4)
  show "broadcast_shapes b u = Some u" by (simp add: broadcast_shapes_def us(2))
qed

section \<open>Facts about the two loops of the closure of multiply\<close>

text \<open>
  The while loop computes the iterated sum over the first axis, and the for loop
  computes the fold of the spec's reduction step, because the sum over an axis of size 1
  of a well-formed array is the array itself.
\<close>

lemma np_sum_axis0:
  assumes "0 < ndim g"
  shows "np_sum g (Some 0) False = Inr (reduce_axis sum_list 0 False g)"
  using assms by (simp add: np_sum_def normalize_axis_def)

lemma shape_reduce_axis0: "shape (reduce_axis r 0 False g) = drop 1 (shape g)"
  by (simp add: reduce_axis_def shape_tabulate)

lemma shape_funpow_reduce:
  "k \<le> ndim g \<Longrightarrow> shape (((reduce_axis sum_list 0 False) ^^ k) g) = drop k (shape g)"
proof (induction k)
  case 0
  show ?case by simp
next
  case (Suc k)
  then show ?case by (simp add: shape_reduce_axis0)
qed

lemma wf_funpow_reduce:
  "wf_array g \<Longrightarrow> wf_array (((reduce_axis sum_list 0 False) ^^ k) g)"
  by (cases k) (simp_all add: reduce_axis_def wf_array_tabulate)

lemma sum_leading_eq:
  "n \<le> ndim g \<Longrightarrow> k = ndim g - n \<Longrightarrow>
     sum_leading n g = Inr (((reduce_axis sum_list 0 False) ^^ k) g)"
proof (induction k arbitrary: g)
  case 0
  then show ?case by (subst sum_leading.simps) simp
next
  case (Suc k)
  let ?g' = "reduce_axis sum_list 0 False g"
  from Suc.prems have lt: "n < ndim g" by simp
  then have s: "np_sum g (Some 0) False = Inr ?g'" by (simp add: np_sum_axis0)
  have nd: "ndim ?g' = ndim g - 1" by (simp add: ndim_def shape_reduce_axis0)
  with Suc.prems have "n \<le> ndim ?g'" "k = ndim ?g' - n" by simp_all
  from Suc.IH [OF this] have "sum_leading n ?g' = Inr (((reduce_axis sum_list 0 False) ^^ k) ?g')" .
  with lt s show ?case by (subst sum_leading.simps) (simp add: funpow_swap1)
qed

lemma np_sum_keep:
  assumes "k < ndim g"
  shows "np_sum g (Some (int k)) True = Inr (reduce_axis sum_list k True g)"
  using assms by (simp add: np_sum_def normalize_axis_def)

lemma shape_reduce_keep: "shape (reduce_axis r k True g) = (shape g)[k := 1]"
  by (simp add: reduce_axis_def shape_tabulate)

lemma wf_reduce_axis: "wf_array (reduce_axis r k kd g)"
  by (simp add: reduce_axis_def wf_array_tabulate)

lemma sum_unit_dims_eq:
  fixes s :: "nat list"
  defines "F \<equiv> (\<lambda>i g'. if s ! i = 1 \<and> shape g' ! i \<noteq> 1 then reduce_axis sum_list i True g' else g')"
  shows "wf_array g \<Longrightarrow> length (shape g) = length s \<Longrightarrow> k \<le> length s \<Longrightarrow> m = length s - k \<Longrightarrow>
         sum_unit_dims (enumerate k (drop k s)) g = Inr (fold F [k..<length s] g)"
proof (induction m arbitrary: k g)
  case 0
  then show ?case by simp
next
  case (Suc m)
  from Suc.prems have k: "k < length s" by simp
  then have d: "drop k s = s ! k # drop (Suc k) s" by (simp add: Cons_nth_drop_Suc)
  have u: "[k..<length s] = k # [Suc k..<length s]" using k by (simp add: upt_conv_Cons)
  have kg: "k < ndim g" using k Suc.prems(2) by (simp add: ndim_def)
  have wfF: "wf_array (F k g)" using Suc.prems(1) by (simp add: F_def wf_reduce_axis)
  have lF: "length (shape (F k g)) = length s"
    using Suc.prems(2) by (simp add: F_def shape_reduce_keep)
  from Suc.prems(3,4) have "Suc k \<le> length s" "m = length s - Suc k" by simp_all
  from Suc.IH [OF wfF lF this]
  have ih: "sum_unit_dims (enumerate (Suc k) (drop (Suc k) s)) (F k g)
              = Inr (fold F [Suc k..<length s] (F k g))" .
  show ?case
  proof (cases "s ! k = 1")
    case True
    have "reduce_axis sum_list k True g = F k g"
    proof (cases "shape g ! k = 1")
      case True
      with Suc.prems(1,2) k have "reduce_axis sum_list k True g = g"
        by (simp add: reduce_axis_unit)
      with True show ?thesis by (simp add: F_def)
    next
      case False
      with \<open>s ! k = 1\<close> show ?thesis by (simp add: F_def)
    qed
    with True ih kg show ?thesis
      by (simp add: d u np_sum_keep)
  next
    case False
    then have "F k g = g" by (simp add: F_def)
    with False ih show ?thesis by (simp add: d u)
  qed
qed

lemma shape_fold_unit_dims:
  fixes s :: "nat list"
  defines "F \<equiv> (\<lambda>i g'. if s ! i = 1 \<and> shape g' ! i \<noteq> 1 then reduce_axis sum_list i True g' else g')"
  shows "list_all2 (\<lambda>x y. x = y \<or> x = 1) s (shape g) \<Longrightarrow> k \<le> length s \<Longrightarrow>
         take k (shape g) = take k s \<Longrightarrow> m = length s - k \<Longrightarrow>
         shape (fold F [k..<length s] g) = s"
proof (induction m arbitrary: k g)
  case 0
  from 0(1) have "length (shape g) = length s" by (simp add: list_all2_lengthD)
  with 0 show ?case by simp
next
  case (Suc m)
  from Suc.prems have k: "k < length s" by simp
  from Suc.prems(1) have len: "length (shape g) = length s" by (simp add: list_all2_lengthD)
  have u: "[k..<length s] = k # [Suc k..<length s]" using k by (simp add: upt_conv_Cons)
  from Suc.prems(1) k have pk: "s ! k = shape g ! k \<or> s ! k = 1"
    by (simp add: list_all2_conv_all_nth)
  have sF: "shape (F k g) = (if s ! k = 1 then (shape g)[k := 1] else shape g)"
  proof (cases "s ! k = 1 \<and> shape g ! k \<noteq> 1")
    case True
    then show ?thesis by (simp add: F_def shape_reduce_keep)
  next
    case False
    then have "F k g = g" by (auto simp: F_def)
    moreover from False have "s ! k = 1 \<Longrightarrow> (shape g)[k := 1] = shape g"
      by (metis list_update_id)
    ultimately show ?thesis by auto
  qed
  have nk: "shape (F k g) ! k = s ! k"
    using sF pk k len by (auto simp: nth_list_update)
  have p': "list_all2 (\<lambda>x y. x = y \<or> x = 1) s (shape (F k g))"
    using Suc.prems(1) sF k len
    by (auto simp: list_all2_conv_all_nth nth_list_update)
  have tk: "take k (shape (F k g)) = take k s"
    using sF Suc.prems(3) by auto
  have "take (Suc k) (shape (F k g)) = take (Suc k) s"
    using tk nk k len sF by (simp add: take_Suc_conv_app_nth)
  moreover from Suc.prems(2,4) have "Suc k \<le> length s" "m = length s - Suc k" by simp_all
  ultimately have "shape (fold F [Suc k..<length s] (F k g)) = s"
    using Suc.IH [OF p'] by blast
  then show ?case by (simp add: u)
qed

section \<open>Facts about the closure of multiply\<close>

lemma np_add_same_shape:
  assumes "shape v = shape g"
  shows "np_add g v = Inr (tabulate (shape g) (\<lambda>idx. elem_at g idx + elem_at v idx))"
proof -
  have "tabulate (shape g) (\<lambda>idx. elem_at g (bidx (shape g) idx) + elem_at v (bidx (shape g) idx))
        = tabulate (shape g) (\<lambda>idx. elem_at g idx + elem_at v idx)"
    by (rule tabulate_cong) (simp add: bidx_same)
  moreover have "broadcast_shapes (shape g) (shape v) = Some (shape g)"
    using assms by (simp add: broadcast_shapes_same)
  ultimately show ?thesis
    using assms by (simp add: np_add_def np_binop_shape)
qed

lemma get_set_grad_same:
  "r < length (heap w) \<Longrightarrow> get (set_grad w r g) r = (get w r)\<lparr>grad := Some g\<rparr>"
  by (simp add: get_def set_grad_def)

lemma get_set_grad_other: "r' \<noteq> r \<Longrightarrow> get (set_grad w r g) r' = get w r'"
  by (simp add: get_def set_grad_def)

lemma data_set_grad: "data (get (set_grad w r g) r') = data (get w r')"
proof (cases "r' = r \<and> r < length (heap w)")
  case True
  then show ?thesis by (simp add: get_set_grad_same)
next
  case False
  then show ?thesis
    by (cases "r' = r") (simp_all add: get_set_grad_other get_def set_grad_def list_update_beyond)
qed

lemma requires_grad_set_grad: "requires_grad (get (set_grad w r g) r') = requires_grad (get w r')"
proof (cases "r' = r \<and> r < length (heap w)")
  case True
  then show ?thesis by (simp add: get_set_grad_same)
next
  case False
  then show ?thesis
    by (cases "r' = r") (simp_all add: get_set_grad_other get_def set_grad_def list_update_beyond)
qed

lemma mul_grad_into_reduce:
  assumes rg: "requires_grad (get w tgt)"
    and tg: "grad (get w tgt) = Some tg"
    and og: "grad (get w out) = Some og"
    and len: "length (shape tg) \<le> length (shape og)"
    and st: "list_all2 (\<lambda>x y. x = y \<or> x = 1) (shape tg)
               (drop (length (shape og) - length (shape tg)) (shape og))"
    and bf: "broadcast_shapes (shape (data (get w fac))) (shape og) = Some (shape og)"
  shows "\<exists>g0. np_mul (data (get w fac)) og = Inr g0
           \<and> shape (reduce_spec (shape tg) g0) = shape tg
           \<and> mul_grad_into w tgt fac out
               = (Inr (), accumulate w tgt (reduce_spec (shape tg) g0))"
proof -
  let ?s = "shape tg" and ?u = "shape og"
  let ?f = "reduce_axis sum_list 0 False"
  let ?F = "\<lambda>i g'. if ?s ! i = 1 \<and> shape g' ! i \<noteq> 1 then reduce_axis sum_list i True g' else g'"
  let ?g0 = "tabulate ?u (\<lambda>idx. elem_at (data (get w fac)) (bidx (shape (data (get w fac))) idx)
                              * elem_at og (bidx ?u idx))"
  have m: "np_mul (data (get w fac)) og = Inr ?g0"
    using bf by (simp add: np_mul_def np_binop_shape)
  have s0: "shape ?g0 = ?u" by (simp add: shape_tabulate)
  have w0: "wf_array ?g0" by (rule wf_array_tabulate)
  let ?k = "length ?u - length ?s"
  let ?g1 = "(?f ^^ ?k) ?g0"
  have nd: "ndim tg \<le> ndim ?g0" "?k = ndim ?g0 - ndim tg"
    using len by (simp_all add: ndim_def s0)
  have l1: "sum_leading (ndim tg) ?g0 = Inr ?g1"
    by (rule sum_leading_eq [OF nd])
  have s1: "shape ?g1 = drop ?k ?u"
    using shape_funpow_reduce [of ?k ?g0 ] by (simp add: ndim_def s0)
  have w1: "wf_array ?g1" using w0 by (rule wf_funpow_reduce)
  have len1: "length (shape ?g1) = length ?s" using len by (simp add: s1)
  let ?g2 = "fold ?F [0..<length ?s] ?g1"
  have l2: "sum_unit_dims (enumerate 0 ?s) ?g1 = Inr ?g2"
    using sum_unit_dims_eq [OF w1 len1, of 0 "length ?s"] by simp
  have s2: "shape ?g2 = ?s"
    using shape_fold_unit_dims [of ?s ?g1 0 "length ?s"] st by (simp add: s1)
  have rs: "reduce_spec ?s ?g0 = ?g2"
    by (simp add: reduce_spec_def ndim_def s0)
  have a: "np_add tg ?g2 = Inr (tabulate ?s (\<lambda>idx. elem_at tg idx + elem_at ?g2 idx))"
    using s2 by (rule np_add_same_shape)
  have "mul_grad_into w tgt fac out
          = (Inr (), set_grad w tgt (tabulate ?s (\<lambda>idx. elem_at tg idx + elem_at ?g2 idx)))"
    using rg og m tg l1 l2 a by (simp add: mul_grad_into_def)
  then have "mul_grad_into w tgt fac out = (Inr (), accumulate w tgt (reduce_spec ?s ?g0))"
    using tg by (simp add: accumulate_def rs)
  with m s2 rs show ?thesis by simp
qed


lemma shape_reduce_spec:
  assumes "length s \<le> length (shape g0)"
    and "list_all2 (\<lambda>x y. x = y \<or> x = 1) s (drop (length (shape g0) - length s) (shape g0))"
  shows "shape (reduce_spec s g0) = s"
proof -
  let ?k = "length (shape g0) - length s"
  let ?g1 = "((reduce_axis sum_list 0 False) ^^ ?k) g0"
  have s1: "shape ?g1 = drop ?k (shape g0)"
    using shape_funpow_reduce [of ?k g0] by (simp add: ndim_def)
  show ?thesis
    using shape_fold_unit_dims [of s ?g1 0 "length s"] assms(2)
    by (simp add: s1 reduce_spec_def ndim_def)
qed

lemma np_mul_shape:
  "np_mul a b = Inr c \<Longrightarrow> broadcast_shapes (shape a) (shape b) = Some (shape c)"
  by (auto simp: np_mul_def np_binop_def shape_tabulate split: option.splits)

lemma grad_accumulate:
  assumes "r < length (heap w)" and "grad (get w r) = Some g"
  shows "grad (get (accumulate w r c) r)
           = Some (tabulate (shape g) (\<lambda>idx. elem_at g idx + elem_at c idx))"
  using assms by (simp add: accumulate_def get_set_grad_same)

lemma get_accumulate_other: "r' \<noteq> r \<Longrightarrow> get (accumulate w r c) r' = get w r'"
  by (simp add: accumulate_def get_set_grad_other split: option.split)

lemma data_accumulate: "data (get (accumulate w r c) r') = data (get w r')"
  by (simp add: accumulate_def data_set_grad split: option.split)

lemma requires_grad_accumulate:
  "requires_grad (get (accumulate w r c) r') = requires_grad (get w r')"
  by (simp add: accumulate_def requires_grad_set_grad split: option.split)

lemma length_heap_accumulate: "length (heap (accumulate w r c)) = length (heap w)"
  by (simp add: accumulate_def length_heap_set_grad split: option.split)

lemma grad_shape_accumulate:
  assumes "r < length (heap w)"
    and "\<exists>g. grad (get w r') = Some g \<and> shape g = s"
  shows "\<exists>g. grad (get (accumulate w r c) r') = Some g \<and> shape g = s"
proof (cases "r' = r")
  case True
  with assms show ?thesis by (auto simp: grad_accumulate shape_tabulate)
next
  case False
  with assms(2) show ?thesis by (simp add: get_accumulate_other)
qed

section \<open>Facts about the other operators\<close>

lemma Tensor_exp_eq:
  "Tensor_exp w self =
     (Inr (length (heap w)),
      push w (fresh_node w (np_exp (data (get w self))) [self] (requires_grad (get w self))
                (ExpBackward self)))"
  by (simp add: Tensor_exp_def Tensor_init_eq set_backward_push)

lemma Tensor_log_eq:
  "Tensor_log w self =
     (Inr (length (heap w)),
      push w (fresh_node w (np_log (data (get w self))) [self] (requires_grad (get w self))
                (LogBackward self)))"
  by (simp add: Tensor_log_def Tensor_init_eq set_backward_push)

lemma Tensor_getitem_eq:
  "Tensor_getitem resolve w self key =
     (case resolve (shape (data (get w self)))
             (case key of KeyTen r \<Rightarrow> Inl (data (get w r)) | KeyPy k \<Rightarrow> Inr k) of
        Inl e \<Rightarrow> (Inl e, w)
      | Inr sel \<Rightarrow>
          (Inr (length (heap w)),
           push w (fresh_node w (np_getitem (data (get w self)) sel) [self]
                     (requires_grad (get w self)) (GetitemBackward self sel))))"
  by (simp add: Tensor_getitem_def Tensor_init_eq set_backward_push Let_def split: sum.split)

lemma Tensor_gt_Ten:
  "Tensor_gt w self (Ten other) =
     (case np_gt (data (get w self)) (data (get w other)) of
        Inl e \<Rightarrow> (Inl e, w)
      | Inr d \<Rightarrow> (Inr (length (heap w)), push w (fresh_node w d [] False NoOp)))"
  by (simp add: Tensor_gt_def Tensor_init_eq split: sum.split)

lemma Tensor_gt_Raw: "Tensor_gt w self (Raw d) = (Inl AssertionError, w)"
  by (simp add: Tensor_gt_def)

lemma Tensor_gt_Num:
  "\<exists>d. Tensor_gt w self (Num c)
         = (Inr (Suc (length (heap w))),
            push (push w (fresh_node w (np_scalar c) [] False NoOp))
              (fresh_node (push w (fresh_node w (np_scalar c) [] False NoOp)) d [] False NoOp))"
proof -
  let ?w1 = "push w (fresh_node w (np_scalar c) [] False NoOp)"
  have o: "data (get ?w1 (length (heap w))) = np_scalar c"
    by (simp add: get_push_new fresh_node_simps)
  have "broadcast_shapes (shape (data (get ?w1 self))) (shape (np_scalar c))
          = Some (shape (data (get ?w1 self)))"
    by (simp add: np_scalar_def broadcast_shapes_Nil)
  from np_binop_shape [OF this]
  obtain d where "np_gt (data (get ?w1 self)) (np_scalar c) = Inr d"
    by (simp add: np_gt_def)
  then have "Tensor_gt w self (Num c)
         = (Inr (Suc (length (heap w))),
            push ?w1 (fresh_node ?w1 d [] False NoOp))"
    by (simp add: Tensor_gt_def Tensor_init_eq o push_simps)
  then show ?thesis by (rule exI)
qed

lemma Tensor_gather_Ten:
  "Tensor_gather w self axis (Ten index) =
     (case py_index axis (ndim (data (get w self))) of
        Inl e \<Rightarrow> (Inl e, w)
      | Inr k \<Rightarrow>
          (case np_take (data (get w self)) k (data (get w index)) of
             Inl e \<Rightarrow> (Inl e, w)
           | Inr d \<Rightarrow>
               (Inr (length (heap w)),
                push w (fresh_node w d [self] (requires_grad (get w self))
                          (GatherBackward self k (data (get w index)))))))"
  by (simp add: Tensor_gather_def Tensor_init_eq set_backward_push split: sum.split)

lemma Tensor_gather_wrap_failed:
  assumes "index = Num c \<and> d0 = np_scalar c \<or> index = Raw d0"
    and "Tensor_gather w self axis index = (Inl e, w')"
  shows "w' = push w (fresh_node w d0 [] False NoOp)"
  using assms
  by (auto simp: Tensor_gather_def Tensor_init_eq Let_def split: sum.splits)

lemma Tensor_mul_wrap_failed:
  assumes "other = Num c \<and> d0 = np_scalar c \<or> other = Raw d0"
    and "Tensor_mul w self other = (Inl e, w')"
  shows "w' = push w (fresh_node w d0 [] False NoOp)"
  using assms
  by (auto simp: Tensor_mul_def Tensor_init_eq Let_def split: sum.splits)

lemma Tensor_add_wrap_failed:
  assumes "other = Num c \<and> d0 = np_scalar c \<or> other = Raw d0"
    and "Tensor_add w self other = (Inl e, w')"
  shows "w' = push w (fresh_node w d0 [] False NoOp)"
  using assms
  by (auto simp: Tensor_add_def deeplib_add_def Tensor_init_eq Let_def split: sum.splits)


lemma extends_bind:
  assumes "extends w (snd (f w))"
    and "\<And>r w1. f w = (Inr r, w1) \<Longrightarrow> extends w1 (snd (g r w1))"
  shows "extends w (snd (case f w of (Inl e, w1) \<Rightarrow> (Inl e, w1) | (Inr r, w1) \<Rightarrow> g r w1))"
proof -
  obtain x w1 where p: "f w = (x, w1)" by (cases "f w")
  with assms(1) have e1: "extends w w1" by simp
  show ?thesis
  proof (cases x)
    case (Inl e)
    with p e1 show ?thesis by simp
  next
    case (Inr r)
    with p assms(2) have "extends w1 (snd (g r w1))" by simp
    with e1 have "extends w (snd (g r w1))" by (rule extends_trans)
    with p Inr show ?thesis by simp
  qed
qed

lemma extends_exp: "extends w (snd (Tensor_exp w self))"
  by (simp add: Tensor_exp_eq extends_push)

lemma extends_log: "extends w (snd (Tensor_log w self))"
  by (simp add: Tensor_log_eq extends_push)

lemma extends_sqrt: "extends w (snd (Tensor_sqrt w self))"
  by (simp add: Tensor_sqrt_def extends_pow)

lemma extends_rmul: "extends w (snd (Tensor_rmul w self other))"
  by (simp add: Tensor_rmul_def extends_mul)

lemma extends_radd: "extends w (snd (Tensor_radd w self other))"
  by (simp add: Tensor_radd_def extends_add)

lemma extends_iadd: "extends w (snd (Tensor_iadd w self other))"
  by (simp add: Tensor_iadd_def extends_add)

lemma extends_getitem: "extends w (snd (Tensor_getitem resolve w self key))"
  by (simp add: Tensor_getitem_eq extends_refl extends_push split: sum.split)

lemma extends_gt: "extends w (snd (Tensor_gt w self other))"
proof (cases other)
  case (Ten r)
  then show ?thesis by (simp add: Tensor_gt_Ten extends_refl extends_push split: sum.split)
next
  case (Raw d)
  then show ?thesis by (simp add: Tensor_gt_Raw extends_refl)
next
  case (Num c)
  from Tensor_gt_Num [of w self c] obtain d where
    "snd (Tensor_gt w self (Num c))
       = push (push w (fresh_node w (np_scalar c) [] False NoOp))
           (fresh_node (push w (fresh_node w (np_scalar c) [] False NoOp)) d [] False NoOp)"
    by auto
  with Num show ?thesis
    by (simp add: extends_trans [OF extends_push extends_push])
qed

lemma extends_gather: "extends w (snd (Tensor_gather w self axis index))"
proof (cases index)
  case (Ten r)
  then show ?thesis
    by (simp add: Tensor_gather_Ten extends_refl extends_push split: sum.split)
next
  case (Num c)
  have "extends w (snd (Tensor_gather w self axis (Num c)))"
    by (auto simp: Tensor_gather_def Tensor_init_eq Let_def extends_push split: sum.split)
  with Num show ?thesis by simp
next
  case (Raw d)
  have "extends w (snd (Tensor_gather w self axis (Raw d)))"
    by (auto simp: Tensor_gather_def Tensor_init_eq Let_def set_backward_push extends_push
          set_backward_push [of "push w t" for t, simplified push_simps, simplified]
          intro: extends_trans [OF extends_push extends_push] split: sum.split)
  with Raw show ?thesis by simp
qed

lemma extends_sub: "extends w (snd (Tensor_sub w self other))"
proof (cases other)
  case (Ten r)
  have "extends w (snd (case Tensor_neg w r of
                          (Inl e, w1) \<Rightarrow> (Inl e, w1)
                        | (Inr negated, w1) \<Rightarrow> Tensor_add w1 self (Ten negated)))"
    by (rule extends_bind) (simp_all add: extends_neg extends_add)
  with Ten show ?thesis by (simp add: Tensor_sub_def)
next
  case (Num c)
  then show ?thesis by (simp add: Tensor_sub_def extends_add)
next
  case (Raw d)
  then show ?thesis by (simp add: Tensor_sub_def extends_add)
qed

lemma extends_mean: "extends w (snd (Tensor_mean w self axis keepdims))"
  unfolding Tensor_mean_def
  by (rule extends_bind) (simp_all add: extends_sum extends_truediv)

lemma extends_var: "extends w (snd (Tensor_var w self axis keepdims unbiased))"
proof -
  have tail: "extends w3
      (snd (case (case axis of
                    None \<Rightarrow> Inr (prod_list (shape (data (get w3 self))))
                  | Some ax \<Rightarrow>
                      (case py_index ax (ndim (data (get w3 self))) of
                         Inl e \<Rightarrow> Inl e
                       | Inr k \<Rightarrow> Inr (shape (data (get w3 self)) ! k))) of
              Inl e \<Rightarrow> (Inl e, w3)
            | Inr n \<Rightarrow>
                (let count = (if unbiased then int n - 1 else int n)
                 in case Tensor_sum w3 sq axis keepdims of
                      (Inl e, w4) \<Rightarrow> (Inl e, w4)
                    | (Inr summed, w4) \<Rightarrow> Tensor_truediv w4 summed (Num (of_int count)))))"
    for w3 sq
  proof -
    have "extends w3 (snd (case Tensor_sum w3 sq axis keepdims of
                             (Inl e, w4) \<Rightarrow> (Inl e, w4)
                           | (Inr summed, w4) \<Rightarrow> Tensor_truediv w4 summed (Num c)))" for c
      by (rule extends_bind) (simp_all add: extends_sum extends_truediv)
    then show ?thesis
      by (simp add: Let_def extends_refl split: sum.split)
  qed
  have t3: "extends w2
      (snd (case Tensor_pow w2 df (Num 2) of
              (Inl e, w3) \<Rightarrow> (Inl e, w3)
            | (Inr sq, w3) \<Rightarrow>
                (case (case axis of
                    None \<Rightarrow> Inr (prod_list (shape (data (get w3 self))))
                  | Some ax \<Rightarrow>
                      (case py_index ax (ndim (data (get w3 self))) of
                         Inl e \<Rightarrow> Inl e
                       | Inr k \<Rightarrow> Inr (shape (data (get w3 self)) ! k))) of
              Inl e \<Rightarrow> (Inl e, w3)
            | Inr n \<Rightarrow>
                (let count = (if unbiased then int n - 1 else int n)
                 in case Tensor_sum w3 sq axis keepdims of
                      (Inl e, w4) \<Rightarrow> (Inl e, w4)
                    | (Inr summed, w4) \<Rightarrow> Tensor_truediv w4 summed (Num (of_int count))))))"
    for w2 df
    by (rule extends_bind) (simp_all add: extends_pow tail)
  have t2: "extends w1
      (snd (case Tensor_sub w1 self (Ten m) of
              (Inl e, w2) \<Rightarrow> (Inl e, w2)
            | (Inr df, w2) \<Rightarrow>
               (case Tensor_pow w2 df (Num 2) of
              (Inl e, w3) \<Rightarrow> (Inl e, w3)
            | (Inr sq, w3) \<Rightarrow>
                (case (case axis of
                    None \<Rightarrow> Inr (prod_list (shape (data (get w3 self))))
                  | Some ax \<Rightarrow>
                      (case py_index ax (ndim (data (get w3 self))) of
                         Inl e \<Rightarrow> Inl e
                       | Inr k \<Rightarrow> Inr (shape (data (get w3 self)) ! k))) of
              Inl e \<Rightarrow> (Inl e, w3)
            | Inr n \<Rightarrow>
                (let count = (if unbiased then int n - 1 else int n)
                 in case Tensor_sum w3 sq axis keepdims of
                      (Inl e, w4) \<Rightarrow> (Inl e, w4)
                    | (Inr summed, w4) \<Rightarrow> Tensor_truediv w4 summed (Num (of_int count)))))))"
    for w1 m
    by (rule extends_bind) (simp_all add: extends_sub t3)
  show ?thesis
    unfolding Tensor_var_def
    by (rule extends_bind) (simp_all add: extends_mean t2)
qed

lemma failed_single_node_unchanged:
  assumes "Tensor_getitem resolve w self key = (Inl e, w')
           \<or> Tensor_exp w self = (Inl e, w')
           \<or> Tensor_log w self = (Inl e, w')
           \<or> Tensor_sqrt w self = (Inl e, w')
           \<or> Tensor_gt w self x = (Inl e, w')
           \<or> Tensor_rmul w self (Ten other) = (Inl e, w')
           \<or> Tensor_gather w self ax (Ten other) = (Inl e, w')"
  shows "w' = w"
  using assms
proof (elim disjE)
  assume "Tensor_getitem resolve w self key = (Inl e, w')"
  then show ?thesis by (auto simp: Tensor_getitem_eq split: sum.splits)
next
  assume "Tensor_exp w self = (Inl e, w')"
  then show ?thesis by (simp add: Tensor_exp_eq)
next
  assume "Tensor_log w self = (Inl e, w')"
  then show ?thesis by (simp add: Tensor_log_eq)
next
  assume "Tensor_sqrt w self = (Inl e, w')"
  then show ?thesis by (simp add: Tensor_sqrt_def Tensor_pow_Num)
next
  assume a: "Tensor_gt w self x = (Inl e, w')"
  show ?thesis
  proof (cases x)
    case (Ten r)
    with a show ?thesis by (auto simp: Tensor_gt_Ten split: sum.splits)
  next
    case (Raw d)
    with a show ?thesis by (simp add: Tensor_gt_Raw)
  next
    case (Num c)
    with a Tensor_gt_Num [of w self c] show ?thesis by auto
  qed
next
  assume "Tensor_rmul w self (Ten other) = (Inl e, w')"
  then show ?thesis by (auto simp: Tensor_rmul_def Tensor_mul_Ten split: sum.splits)
next
  assume "Tensor_gather w self ax (Ten other) = (Inl e, w')"
  then show ?thesis by (auto simp: Tensor_gather_Ten split: sum.splits)
qed

lemma np_binop_scalar: "\<exists>d. np_binop f a (np_scalar c) = Inr d"
proof -
  have "broadcast_shapes (shape a) (shape (np_scalar c)) = Some (shape a)"
    by (simp add: np_scalar_def broadcast_shapes_Nil)
  from np_binop_shape [OF this] show ?thesis by blast
qed

lemma Tensor_mul_Num_returns: "Tensor_mul w self (Num c) \<noteq> (Inl e, w')"
proof -
  let ?w1 = "push w (fresh_node w (np_scalar c) [] False NoOp)"
  have o: "data (get ?w1 (length (heap w))) = np_scalar c"
    by (simp add: get_push_new fresh_node_simps)
  from np_binop_scalar [of "(*)" "data (get ?w1 self)" c]
  obtain d where "np_mul (data (get ?w1 self)) (np_scalar c) = Inr d"
    by (auto simp: np_mul_def)
  then show ?thesis
    by (simp add: Tensor_mul_def Tensor_init_eq o split: prod.splits)
qed

lemma Tensor_add_Num_returns: "Tensor_add w self (Num c) \<noteq> (Inl e, w')"
proof -
  let ?w1 = "push w (fresh_node w (np_scalar c) [] False NoOp)"
  have o: "data (get ?w1 (length (heap w))) = np_scalar c"
    by (simp add: get_push_new fresh_node_simps)
  from np_binop_scalar [of "(+)" "data (get ?w1 self)" c]
  obtain d where "np_add (data (get ?w1 self)) (np_scalar c) = Inr d"
    by (auto simp: np_add_def)
  then show ?thesis
    by (simp add: Tensor_add_def deeplib_add_def Tensor_init_eq o split: prod.splits)
qed

lemma failed_after_wrapping:
  assumes "Tensor_mul w self (Raw d) = (Inl e, w')
           \<or> Tensor_rmul w self (Raw d) = (Inl e, w')
           \<or> Tensor_gather w self ax (Raw d) = (Inl e, w')
           \<or> Tensor_add w self (Raw d) = (Inl e, w')
           \<or> Tensor_iadd w self (Raw d) = (Inl e, w')
           \<or> Tensor_radd w self (Raw d) = (Inl e, w')"
  shows "w' = push w (fresh_node w d [] False NoOp)"
  using assms
proof (elim disjE)
  assume "Tensor_mul w self (Raw d) = (Inl e, w')"
  then show ?thesis by (rule Tensor_mul_wrap_failed [rotated]) simp
next
  assume "Tensor_rmul w self (Raw d) = (Inl e, w')"
  then have "Tensor_mul w self (Raw d) = (Inl e, w')" by (simp add: Tensor_rmul_def)
  then show ?thesis by (rule Tensor_mul_wrap_failed [rotated]) simp
next
  assume "Tensor_gather w self ax (Raw d) = (Inl e, w')"
  then show ?thesis by (rule Tensor_gather_wrap_failed [rotated]) simp
next
  assume "Tensor_add w self (Raw d) = (Inl e, w')"
  then show ?thesis by (rule Tensor_add_wrap_failed [rotated]) simp
next
  assume "Tensor_iadd w self (Raw d) = (Inl e, w')"
  then have "Tensor_add w self (Raw d) = (Inl e, w')" by (simp add: Tensor_iadd_def)
  then show ?thesis by (rule Tensor_add_wrap_failed [rotated]) simp
next
  assume "Tensor_radd w self (Raw d) = (Inl e, w')"
  then have "Tensor_add w self (Raw d) = (Inl e, w')" by (simp add: Tensor_radd_def)
  then show ?thesis by (rule Tensor_add_wrap_failed [rotated]) simp
qed

lemma failed_gather_number:
  "Tensor_gather w self ax (Num c) = (Inl IndexError, push w (fresh_node w (np_scalar c) [] False NoOp))"
  by (auto simp: Tensor_gather_def Tensor_init_eq py_index_def split: sum.splits if_splits)

lemma failed_truediv_raw:
  assumes "Tensor_truediv w self (Raw d) = (Inl e, w')"
  shows "w' = push w (fresh_node w (np_pow d (- 1)) [] False NoOp)"
proof -
  from assms have "Tensor_mul w self (Raw (np_pow d (- 1))) = (Inl e, w')"
    by (simp add: Tensor_truediv_def)
  then show ?thesis by (rule Tensor_mul_wrap_failed [rotated]) simp
qed

lemma Tensor_mul_Num_length:
  "length (heap (snd (Tensor_mul w self (Num c)))) = Suc (Suc (length (heap w)))
   \<and> fst (Tensor_mul w self (Num c)) = Inr (Suc (length (heap w)))"
proof -
  let ?w1 = "push w (fresh_node w (np_scalar c) [] False NoOp)"
  have o: "data (get ?w1 (length (heap w))) = np_scalar c"
    by (simp add: get_push_new fresh_node_simps)
  from np_binop_scalar [of "(*)" "data (get ?w1 self)" c]
  obtain d where "np_mul (data (get ?w1 self)) (np_scalar c) = Inr d"
    by (auto simp: np_mul_def)
  then show ?thesis
    by (simp add: Tensor_mul_def Tensor_init_eq o push_simps set_backward_def
          split: prod.splits)
qed

lemma failed_composite:
  "(Tensor_truediv w self (Ten other) = (Inl e, w')
      \<longrightarrow> length (heap w') = Suc (length (heap w)))
   \<and> (Tensor_sub w self (Ten other) = (Inl e, w')
      \<longrightarrow> length (heap w') = Suc (Suc (length (heap w))))
   \<and> (Tensor_mean w self axis keepdims = (Inl e, w')
      \<longrightarrow> w' = w \<or> e = ZeroDivisionError \<and> length (heap w') = Suc (length (heap w)))"
proof (intro conjI impI)
  assume a: "Tensor_truediv w self (Ten other) = (Inl e, w')"
  let ?w1 = "push w (fresh_node w (np_pow (data (get w other)) (- 1)) [other]
                (requires_grad (get w other)) (PowBackward other (- 1)))"
  from a have "Tensor_mul ?w1 self (Ten (length (heap w))) = (Inl e, w')"
    by (simp add: Tensor_truediv_def Tensor_pow_Num)
  then have "w' = ?w1" by (auto simp: Tensor_mul_Ten split: sum.splits)
  then show "length (heap w') = Suc (length (heap w))" by (simp add: push_simps)
next
  assume a: "Tensor_sub w self (Ten other) = (Inl e, w')"
  obtain r w1 where n: "Tensor_mul w other (Num (- 1)) = (r, w1)" by (cases "Tensor_mul w other (Num (- 1))")
  from Tensor_mul_Num_length [of w other "- 1"] n
  have l: "length (heap w1) = Suc (Suc (length (heap w)))" and r: "r = Inr (Suc (length (heap w)))"
    by simp_all
  from a n r have "Tensor_add w1 self (Ten (Suc (length (heap w)))) = (Inl e, w')"
    by (simp add: Tensor_sub_def Tensor_neg_def)
  then have "w' = w1" by (auto simp: Tensor_add_Ten split: sum.splits)
  with l show "length (heap w') = Suc (Suc (length (heap w)))" by simp
next
  assume a: "Tensor_mean w self axis keepdims = (Inl e, w')"
  show "w' = w \<or> e = ZeroDivisionError \<and> length (heap w') = Suc (length (heap w))"
  proof (cases "np_sum (data (get w self)) axis keepdims")
    case (Inl e')
    with a show ?thesis by (simp add: Tensor_mean_def Tensor_sum_eq)
  next
    case (Inr d)
    let ?w1 = "push w (fresh_node w d [self] (requires_grad (get w self))
                            (SumBackward self axis keepdims))"
    from a Inr have t: "Tensor_truediv ?w1 (length (heap w))
                       (Num (real (prod_list (shape (data (get ?w1 self)))))) = (Inl e, w')"
      by (simp add: Tensor_mean_def Tensor_sum_eq)
    then have "w' = ?w1 \<and> e = ZeroDivisionError"
      by (auto simp: Tensor_truediv_def Tensor_mul_Num_returns split: if_splits)
    then show ?thesis by (simp add: push_simps)
  qed
qed

section \<open>The no-grad guard\<close>

text \<open>
  Claim C7. Entering a guard stores the current value of the process-wide switch in the
  guard instance and switches tracking off; leaving it puts back exactly the stored value,
  whatever the switch says at that moment. Each instance has its own stored value: with
  two nested guards, after the inner one is left the switch still says that tracking is
  off (the value the inner guard saw on entry), and after the outer one is left the switch
  has the value it had before both.
\<close>

theorem NoGrad_nested_restore:
  "snd (NoGrad_enter g e) = True
   \<and> prev (fst (NoGrad_enter g e)) = Some e
   \<and> NoGrad_exit (fst (NoGrad_enter g e)) e' = Inr e
   \<and> (let (g1, e1) = NoGrad_enter outer e0;
           (g2, e2) = NoGrad_enter inner e1
       in e1 = True \<and> e2 = True
          \<and> prev g1 = Some e0 \<and> prev g2 = Some True
          \<and> NoGrad_exit g2 e2 = Inr True
          \<and> NoGrad_exit g1 True = Inr e0)"
  by (simp add: NoGrad_enter_def NoGrad_exit_def)

section \<open>The entry of the backward pass\<close>

text \<open>
  Claim C2. On a tensor whose \<open>requires_grad\<close> is false, \<open>backward\<close> raises
  \<open>RuntimeError\<close> and leaves the whole world as it was: no \<open>grad\<close> is written. The
  result does not depend on the depth of recursion that is available, not even when none
  is, so the traversal has not started; and the result is an error, never a normal return.
\<close>

theorem backward_requires_grad:
  "\<not> requires_grad (get w self) \<Longrightarrow>
     Tensor_backward limit w self = (Inl RuntimeError, w)"
  by (simp add: Tensor_backward_def)

theorem backward_requires_grad_witness:
  "\<not> requires_grad (get w_plain 0)
   \<and> Tensor_backward 0 w_plain 0 = (Inl RuntimeError, w_plain)"
  using backward_requires_grad [of w_plain 0 0]
  by (simp add: w_plain_def w_empty_def Tensor_init_def get_def)

text \<open>
  Claim C8. On a tensor whose \<open>requires_grad\<close> is true, of any shape, \<open>backward\<close> first
  binds the tensor's \<open>grad\<close> to an array of ones of the shape of its data; the traversal
  and every closure run on the world with that seed. Where the traversal returns, the
  root is the last node of \<open>topo\<close>, so its own closure is the first to run. Nothing
  in this step looks at the shape: a root that is not a scalar is seeded like any other.
\<close>

theorem backward_seed:
  assumes "requires_grad (get w self)" and "self < length (heap w)"
  shows "let seed = ones_like (data (get w self)); w1 = set_grad w self seed
         in shape seed = shape (data (get w self))
            \<and> length (elems seed) = prod_list (shape seed)
            \<and> (\<forall>x \<in> set (elems seed). x = 1)
            \<and> grad (get w1 self) = Some seed
            \<and> Tensor_backward limit w self =
                (case build_topo limit (heap w1) self ({}, []) of
                   None \<Rightarrow> (Inl RecursionError, w1)
                 | Some (visited, topo) \<Rightarrow> run_backward (rev topo) w1)
            \<and> (\<forall>visited topo. build_topo limit (heap w1) self ({}, []) = Some (visited, topo)
                  \<longrightarrow> topo \<noteq> [] \<and> last topo = self)"
proof -
  have "topo \<noteq> [] \<and> last topo = self"
    if "build_topo limit hp self ({}, []) = Some (visited, topo)" for hp visited topo
    using that by (cases limit) (auto split: option.splits)
  with assms show ?thesis
    by (auto simp: Let_def Tensor_backward_def ones_like_def shape_tabulate
          length_elems_tabulate get_def set_grad_def dest: elems_tabulate_const)
qed

theorem backward_seed_witness:
  "requires_grad (get w_leaf 0) \<and> 0 < length (heap w_leaf)
   \<and> shape (data (get w_leaf 0)) = [2, 3]
   \<and> grad (get (set_grad w_leaf 0 (ones_like (data (get w_leaf 0)))) 0)
       = Some \<lparr>shape = [2, 3], elems = [1, 1, 1, 1, 1, 1]\<rparr>
   \<and> Tensor_backward 1 w_leaf 0
       = (Inr (), set_grad w_leaf 0 \<lparr>shape = [2, 3], elems = [1, 1, 1, 1, 1, 1]\<rparr>)"
proof -
  have h: "requires_grad (get w_leaf 0) \<and> 0 < length (heap w_leaf)"
    by (simp add: w_leaf_def w_empty_def Tensor_init_def get_def)
  have e: "Tensor_backward 1 w_leaf 0
       = (Inr (), set_grad w_leaf 0 \<lparr>shape = [2, 3], elems = [1, 1, 1, 1, 1, 1]\<rparr>)"
    by code_simp
  have s: "shape (data (get w_leaf 0)) = [2, 3]"
    by code_simp
  have o: "ones_like (data (get w_leaf 0)) = \<lparr>shape = [2, 3], elems = [1, 1, 1, 1, 1, 1]\<rparr>"
    by code_simp
  from backward_seed [of w_leaf 0 1] h
  have "grad (get (set_grad w_leaf 0 (ones_like (data (get w_leaf 0)))) 0)
          = Some (ones_like (data (get w_leaf 0)))"
    by (simp add: Let_def)
  with h e s o show ?thesis by simp
qed

section \<open>Construction of nodes\<close>

text \<open>
  Claim C3. The constructor sets \<open>requires_grad\<close> to the argument masked by the no-grad
  switch; the new tensor's \<open>grad\<close> is \<open>None\<close> exactly when its \<open>requires_grad\<close> is false,
  and otherwise it is \<open>zeros_like\<close> of the data: an array of the shape of the data, with
  as many elements as that shape has, all of them 0. The node built by a binary operator
  (\<open>*\<close>, \<open>@\<close> and \<open>/\<close> on two tensors) has as \<open>requires_grad\<close> the OR of the operands'
  \<open>requires_grad\<close>, masked to false while the no-grad switch is set, and its \<open>grad\<close> obeys
  the same rule. Where the second operand of \<open>*\<close> is a number or raw data, it is wrapped in
  a leaf that requires no gradient, so the OR is the first operand's \<open>requires_grad\<close>.
\<close>

theorem construction_requires_grad:
  "(\<forall>r w'. Tensor_init w d cs rg = (r, w') \<longrightarrow>
       requires_grad (get w' r) = (rg \<and> \<not> nograd w)
       \<and> (grad (get w' r) = None \<longleftrightarrow> \<not> requires_grad (get w' r))
       \<and> (requires_grad (get w' r) \<longrightarrow> grad (get w' r) = Some (zeros_like d)))
   \<and> shape (zeros_like d) = shape d
   \<and> length (elems (zeros_like d)) = prod_list (shape d)
   \<and> (\<forall>x \<in> set (elems (zeros_like d)). x = 0)
   \<and> (\<forall>out w'. Tensor_mul w self (Ten other) = (Inr out, w')
                 \<or> Tensor_matmul w self (Ten other) = (Inr out, w')
                 \<or> (self < length (heap w) \<and> Tensor_truediv w self (Ten other) = (Inr out, w')) \<longrightarrow>
        requires_grad (get w' out)
          = ((requires_grad (get w self) \<or> requires_grad (get w other)) \<and> \<not> nograd w)
        \<and> (grad (get w' out) = None \<longleftrightarrow> \<not> requires_grad (get w' out)))
   \<and> (\<forall>out w' x. self < length (heap w) \<and> (x = Num c \<or> x = Raw raw)
                   \<and> Tensor_mul w self x = (Inr out, w') \<longrightarrow>
        requires_grad (get w' out) = (requires_grad (get w self) \<and> \<not> nograd w)
        \<and> (grad (get w' out) = None \<longleftrightarrow> \<not> requires_grad (get w' out)))"
proof (intro conjI allI impI)
  fix r w' assume "Tensor_init w d cs rg = (r, w')"
  from init_grad [OF this]
  show "requires_grad (get w' r) = (rg \<and> \<not> nograd w)"
    and "(grad (get w' r) = None) = (\<not> requires_grad (get w' r))"
    by simp_all
next
  fix r w' assume "Tensor_init w d cs rg = (r, w')" and "requires_grad (get w' r)"
  with init_grad [of w d cs rg r w'] show "grad (get w' r) = Some (zeros_like d)"
    by simp
next
  show "shape (zeros_like d) = shape d"
    and "length (elems (zeros_like d)) = prod_list (shape d)"
    and "\<forall>x \<in> set (elems (zeros_like d)). x = 0"
    using zeros_like_zero [of d] by simp_all
next
  fix out w'
  assume h: "Tensor_mul w self (Ten other) = (Inr out, w')
             \<or> Tensor_matmul w self (Ten other) = (Inr out, w')
             \<or> (self < length (heap w) \<and> Tensor_truediv w self (Ten other) = (Inr out, w'))"
  have "requires_grad (get w' out)
          = ((requires_grad (get w self) \<or> requires_grad (get w other)) \<and> \<not> nograd w)
        \<and> (grad (get w' out) = None \<longleftrightarrow> \<not> requires_grad (get w' out))"
    using h
  proof (elim disjE conjE)
    assume "Tensor_mul w self (Ten other) = (Inr out, w')"
    then show ?thesis by (rule mul_requires_grad)
  next
    assume "Tensor_matmul w self (Ten other) = (Inr out, w')"
    then show ?thesis by (rule matmul_requires_grad)
  next
    assume "self < length (heap w)" and "Tensor_truediv w self (Ten other) = (Inr out, w')"
    then show ?thesis by (rule truediv_requires_grad [rotated])
  qed
  then show "requires_grad (get w' out)
          = ((requires_grad (get w self) \<or> requires_grad (get w other)) \<and> \<not> nograd w)"
    and "(grad (get w' out) = None) = (\<not> requires_grad (get w' out))"
    by simp_all
next
  fix out w' x
  assume h: "self < length (heap w) \<and> (x = Num c \<or> x = Raw raw)
             \<and> Tensor_mul w self x = (Inr out, w')"
  then have "requires_grad (get w' out) = (requires_grad (get w self) \<and> \<not> nograd w)
        \<and> (grad (get w' out) = None \<longleftrightarrow> \<not> requires_grad (get w' out))"
    using mul_raw_requires_grad [of w self x out w' c raw] by simp
  then show "requires_grad (get w' out) = (requires_grad (get w self) \<and> \<not> nograd w)"
    and "(grad (get w' out) = None) = (\<not> requires_grad (get w' out))"
    by simp_all
qed


theorem construction_requires_grad_witness:
  "Tensor_init w_empty arr23 [] True = (0, w_leaf)
   \<and> requires_grad (get w_leaf 0)
   \<and> grad (get w_leaf 0) = Some \<lparr>shape = [2, 3], elems = [0, 0, 0, 0, 0, 0]\<rparr>
   \<and> fst (Tensor_mul w_pair 0 (Ten 1)) = Inr 2
   \<and> requires_grad (get w_pair 0) \<and> \<not> requires_grad (get w_pair 1) \<and> \<not> nograd w_pair
   \<and> requires_grad (get (snd (Tensor_mul w_pair 0 (Ten 1))) 2)
   \<and> grad (get (snd (Tensor_mul w_pair 0 (Ten 1))) 2) \<noteq> None"
proof -
  have i: "Tensor_init w_empty arr23 [] True = (0, w_leaf)"
    by (simp add: w_leaf_def Tensor_init_def Let_def w_empty_def)
  have f: "fst (Tensor_mul w_pair 0 (Ten 1)) = Inr 2"
    by code_simp
  then have m: "Tensor_mul w_pair 0 (Ten 1) = (Inr 2, snd (Tensor_mul w_pair 0 (Ten 1)))"
    by (simp add: prod_eq_iff)
  have v: "requires_grad (get w_pair 0)" "\<not> requires_grad (get w_pair 1)" "\<not> nograd w_pair"
    by code_simp+
  have z: "zeros_like arr23 = \<lparr>shape = [2, 3], elems = [0, 0, 0, 0, 0, 0]\<rparr>"
    by code_simp
  note t = construction_requires_grad [where w = w_empty and d = arr23 and cs = "[]" and rg = True]
  note u = construction_requires_grad [where w = w_pair and self = 0 and other = 1]
  from t i have "requires_grad (get w_leaf 0)" "grad (get w_leaf 0) = Some (zeros_like arr23)"
    by (simp_all add: w_empty_def)
  moreover
  from u m v have "requires_grad (get (snd (Tensor_mul w_pair 0 (Ten 1))) 2)"
    "grad (get (snd (Tensor_mul w_pair 0 (Ten 1))) 2) \<noteq> None"
    by (metis (no_types, lifting))+
  ultimately show ?thesis using i f v z by simp
qed

section \<open>Operators and the nodes that exist already\<close>

text \<open>
  The claim that a failing operator call raises before any node is created does not hold
  for the operators that are compositions, nor for an operator that wraps an operand
  which is not a tensor. \<open>a / b\<close> is \<open>a * b**-1\<close>: with \<open>a\<close> of shape (2,3) and \<open>b\<close> of
  shape (2,), \<open>b**-1\<close> constructs a node whose child is \<open>b\<close>, and only then the product
  raises \<open>ValueError\<close>: the heap has grown from two tensors to three. \<open>a * d\<close> with an
  array \<open>d\<close> of shape (2,) wraps \<open>d\<close> in a leaf before the product raises, and
  \<open>a.gather(0, 0)\<close> wraps the number in a leaf before the library refuses it as an index.
  \<open>mean\<close> is \<open>sum\<close> divided by the size: on a tensor without elements the node of the sum
  exists when the division raises \<open>ZeroDivisionError\<close>, and \<open>var\<close>, which starts with the
  mean, raises there too.
\<close>

theorem failed_truediv_created_node:
  "fst (Tensor_truediv w_mismatch 0 (Ten 1)) = Inl ValueError
   \<and> snd (Tensor_truediv w_mismatch 0 (Ten 1)) \<noteq> w_mismatch
   \<and> length (heap w_mismatch) = 2
   \<and> length (heap (snd (Tensor_truediv w_mismatch 0 (Ten 1)))) = 3
   \<and> children (get (snd (Tensor_truediv w_mismatch 0 (Ten 1))) 2) = [1]
   \<and> fst (Tensor_mul w_leaf 0 (Raw \<lparr>shape = [2], elems = [1, 2]\<rparr>)) = Inl ValueError
   \<and> length (heap w_leaf) = 1
   \<and> length (heap (snd (Tensor_mul w_leaf 0 (Raw \<lparr>shape = [2], elems = [1, 2]\<rparr>)))) = 2
   \<and> fst (Tensor_gather w_leaf 0 0 (Num 0)) = Inl IndexError
   \<and> length (heap (snd (Tensor_gather w_leaf 0 0 (Num 0)))) = 2
   \<and> fst (Tensor_mean w_void 0 None False) = Inl ZeroDivisionError
   \<and> length (heap w_void) = 1
   \<and> length (heap (snd (Tensor_mean w_void 0 None False))) = 2
   \<and> fst (Tensor_var w_void 0 None False False) = Inl ZeroDivisionError
   \<and> length (heap (snd (Tensor_var w_void 0 None False False))) = 2"
proof -
  have a: "fst (Tensor_truediv w_mismatch 0 (Ten 1)) = Inl ValueError" by code_simp
  have b: "length (heap w_mismatch) = 2" by code_simp
  have c: "length (heap (snd (Tensor_truediv w_mismatch 0 (Ten 1)))) = 3" by code_simp
  have d: "children (get (snd (Tensor_truediv w_mismatch 0 (Ten 1))) 2) = [1]" by code_simp
  have e: "fst (Tensor_mul w_leaf 0 (Raw \<lparr>shape = [2], elems = [1, 2]\<rparr>)) = Inl ValueError"
    by code_simp
  have f: "length (heap w_leaf) = 1" by code_simp
  have g: "length (heap (snd (Tensor_mul w_leaf 0 (Raw \<lparr>shape = [2], elems = [1, 2]\<rparr>)))) = 2"
    by code_simp
  have h: "fst (Tensor_gather w_leaf 0 0 (Num 0)) = Inl IndexError" by code_simp
  have i: "length (heap (snd (Tensor_gather w_leaf 0 0 (Num 0)))) = 2" by code_simp
  have j: "fst (Tensor_mean w_void 0 None False) = Inl ZeroDivisionError" by code_simp
  have k: "length (heap w_void) = 1" by code_simp
  have l: "length (heap (snd (Tensor_mean w_void 0 None False))) = 2" by code_simp
  have m: "fst (Tensor_var w_void 0 None False False) = Inl ZeroDivisionError" by code_simp
  have n: "length (heap (snd (Tensor_var w_void 0 None False False))) = 2" by code_simp
  from b c have "snd (Tensor_truediv w_mismatch 0 (Ten 1)) \<noteq> w_mismatch" by auto
  with a b c d e f g h i j k l m n show ?thesis by simp
qed

text \<open>
  Claim C9, as amended. The operators are the methods of a tensor that construct a node:
  subscript, \<open>+\<close>, \<open>+=\<close>, reflected \<open>+\<close>, negation, \<open>-\<close>, \<open>*\<close>, reflected \<open>*\<close>, \<open>/\<close>, \<open>@\<close>,
  \<open>**\<close>, \<open>gather\<close>, \<open>>\<close>, \<open>max\<close>, \<open>exp\<close>, \<open>log\<close>, \<open>sum\<close>, \<open>mean\<close>, \<open>var\<close> and \<open>sqrt\<close>, with
  any operand, any key and any reading of keys. (\<open>+\<close> is the \<open>deeplib_add\<close> modelled above,
  and \<open>-\<close> and \<open>var\<close> go through it.)

  \<^item> No operator call changes a tensor that exists already: whether the call returns or
    raises, the world after it extends the world before it, which means that the switch
    is the same and every reference of the old heap holds the same tensor, with the same
    data, grad, children and requires_grad.
  \<^item> Where subscript, \<open>@\<close>, \<open>**\<close>, \<open>sqrt\<close>, \<open>exp\<close>, \<open>log\<close>, \<open>max\<close>, \<open>sum\<close>, \<open>>\<close> or negation
    raises, where \<open>*\<close>, \<open>+\<close> (also reflected or augmented) or \<open>gather\<close> raises with a tensor
    operand, and where \<open>*\<close>, \<open>+\<close>, \<open>-\<close> or \<open>/\<close> raises with a number, the whole world is the one
    before the call: no node has been created.
  \<^item> Where \<open>*\<close>, \<open>+\<close> or \<open>gather\<close> raises with an array that no tensor wraps, the world
    before the call has grown by the leaf that wraps the array, and by nothing else; for
    \<open>/\<close> the leaf wraps the reciprocal of the array. \<open>gather\<close> with a number as index
    always raises \<open>IndexError\<close>, the leaf of the number being the one new node.
  \<^item> Where \<open>a / b\<close> raises with a tensor \<open>b\<close>, one node has been created, \<open>b**-1\<close>; where
    \<open>a - b\<close> raises with a tensor \<open>b\<close>, two have, the leaf of \<open>-1\<close> and \<open>-b\<close>; where \<open>mean\<close>
    raises, either nothing has been created or the error is \<open>ZeroDivisionError\<close> and the
    node of the sum has.
\<close>

theorem operators_leave_nodes_unchanged:
  "(extends w (snd (Tensor_getitem resolve w self key))
    \<and> extends w (snd (Tensor_add w self x))
    \<and> extends w (snd (Tensor_iadd w self x))
    \<and> extends w (snd (Tensor_radd w self x))
    \<and> extends w (snd (Tensor_neg w self))
    \<and> extends w (snd (Tensor_sub w self x))
    \<and> extends w (snd (Tensor_mul w self x))
    \<and> extends w (snd (Tensor_rmul w self x))
    \<and> extends w (snd (Tensor_truediv w self x))
    \<and> extends w (snd (Tensor_matmul w self x))
    \<and> extends w (snd (Tensor_pow w self x))
    \<and> extends w (snd (Tensor_gather w self ax x))
    \<and> extends w (snd (Tensor_gt w self x))
    \<and> extends w (snd (Tensor_max w self axis keepdims))
    \<and> extends w (snd (Tensor_exp w self))
    \<and> extends w (snd (Tensor_log w self))
    \<and> extends w (snd (Tensor_sum w self axis keepdims))
    \<and> extends w (snd (Tensor_mean w self axis keepdims))
    \<and> extends w (snd (Tensor_var w self axis keepdims unbiased))
    \<and> extends w (snd (Tensor_sqrt w self)))
   \<and> (\<forall>w'. extends w w' \<longrightarrow>
          nograd w' = nograd w \<and> (\<forall>r < length (heap w). get w' r = get w r))
   \<and> (\<forall>e w'. Tensor_matmul w self x = (Inl e, w')
              \<or> Tensor_pow w self x = (Inl e, w')
              \<or> Tensor_getitem resolve w self key = (Inl e, w')
              \<or> Tensor_sqrt w self = (Inl e, w')
              \<or> Tensor_exp w self = (Inl e, w')
              \<or> Tensor_log w self = (Inl e, w')
              \<or> Tensor_max w self axis keepdims = (Inl e, w')
              \<or> Tensor_sum w self axis keepdims = (Inl e, w')
              \<or> Tensor_gt w self x = (Inl e, w')
              \<or> Tensor_neg w self = (Inl e, w')
              \<or> Tensor_mul w self (Ten other) = (Inl e, w')
              \<or> Tensor_rmul w self (Ten other) = (Inl e, w')
              \<or> Tensor_add w self (Ten other) = (Inl e, w')
              \<or> Tensor_iadd w self (Ten other) = (Inl e, w')
              \<or> Tensor_radd w self (Ten other) = (Inl e, w')
              \<or> Tensor_gather w self ax (Ten other) = (Inl e, w')
              \<or> Tensor_mul w self (Num c) = (Inl e, w')
              \<or> Tensor_rmul w self (Num c) = (Inl e, w')
              \<or> Tensor_add w self (Num c) = (Inl e, w')
              \<or> Tensor_iadd w self (Num c) = (Inl e, w')
              \<or> Tensor_radd w self (Num c) = (Inl e, w')
              \<or> Tensor_sub w self (Num c) = (Inl e, w')
              \<or> Tensor_truediv w self (Num c) = (Inl e, w') \<longrightarrow> w' = w)
   \<and> (\<forall>e w'. Tensor_mul w self (Raw d) = (Inl e, w')
              \<or> Tensor_rmul w self (Raw d) = (Inl e, w')
              \<or> Tensor_gather w self ax (Raw d) = (Inl e, w')
              \<or> Tensor_add w self (Raw d) = (Inl e, w')
              \<or> Tensor_iadd w self (Raw d) = (Inl e, w')
              \<or> Tensor_radd w self (Raw d) = (Inl e, w')
                \<longrightarrow> w' = push w (fresh_node w d [] False NoOp))
   \<and> (\<forall>e w'. Tensor_truediv w self (Raw d) = (Inl e, w')
                \<longrightarrow> w' = push w (fresh_node w (np_pow d (- 1)) [] False NoOp))
   \<and> Tensor_gather w self ax (Num c)
       = (Inl IndexError, push w (fresh_node w (np_scalar c) [] False NoOp))
   \<and> (\<forall>e w'. (Tensor_truediv w self (Ten other) = (Inl e, w')
                 \<longrightarrow> length (heap w') = Suc (length (heap w)))
              \<and> (Tensor_sub w self (Ten other) = (Inl e, w')
                 \<longrightarrow> length (heap w') = Suc (Suc (length (heap w))))
              \<and> (Tensor_mean w self axis keepdims = (Inl e, w')
                 \<longrightarrow> w' = w \<or> e = ZeroDivisionError
                              \<and> length (heap w') = Suc (length (heap w))))"
proof -
  have frame: "extends w (snd (Tensor_getitem resolve w self key))
    \<and> extends w (snd (Tensor_add w self x))
    \<and> extends w (snd (Tensor_iadd w self x))
    \<and> extends w (snd (Tensor_radd w self x))
    \<and> extends w (snd (Tensor_neg w self))
    \<and> extends w (snd (Tensor_sub w self x))
    \<and> extends w (snd (Tensor_mul w self x))
    \<and> extends w (snd (Tensor_rmul w self x))
    \<and> extends w (snd (Tensor_truediv w self x))
    \<and> extends w (snd (Tensor_matmul w self x))
    \<and> extends w (snd (Tensor_pow w self x))
    \<and> extends w (snd (Tensor_gather w self ax x))
    \<and> extends w (snd (Tensor_gt w self x))
    \<and> extends w (snd (Tensor_max w self axis keepdims))
    \<and> extends w (snd (Tensor_exp w self))
    \<and> extends w (snd (Tensor_log w self))
    \<and> extends w (snd (Tensor_sum w self axis keepdims))
    \<and> extends w (snd (Tensor_mean w self axis keepdims))
    \<and> extends w (snd (Tensor_var w self axis keepdims unbiased))
    \<and> extends w (snd (Tensor_sqrt w self))"
    by (intro conjI extends_getitem extends_add extends_iadd extends_radd extends_neg
          extends_sub extends_mul extends_rmul extends_truediv extends_matmul extends_pow
          extends_gather extends_gt extends_max extends_exp extends_log extends_sum
          extends_mean extends_var extends_sqrt)
  have meaning: "\<forall>w'. extends w w' \<longrightarrow>
          nograd w' = nograd w \<and> (\<forall>r < length (heap w). get w' r = get w r)"
  proof (intro allI impI conjI)
    fix w' r
    assume e: "extends w w'"
    then show "nograd w' = nograd w" by (simp add: extends_def)
    assume "r < length (heap w)"
    with e show "get w' r = get w r" by (rule extends_get)
  qed
  have single: "w' = w"
    if "Tensor_matmul w self x = (Inl e, w')
              \<or> Tensor_pow w self x = (Inl e, w')
              \<or> Tensor_getitem resolve w self key = (Inl e, w')
              \<or> Tensor_sqrt w self = (Inl e, w')
              \<or> Tensor_exp w self = (Inl e, w')
              \<or> Tensor_log w self = (Inl e, w')
              \<or> Tensor_max w self axis keepdims = (Inl e, w')
              \<or> Tensor_sum w self axis keepdims = (Inl e, w')
              \<or> Tensor_gt w self x = (Inl e, w')
              \<or> Tensor_neg w self = (Inl e, w')
              \<or> Tensor_mul w self (Ten other) = (Inl e, w')
              \<or> Tensor_rmul w self (Ten other) = (Inl e, w')
              \<or> Tensor_add w self (Ten other) = (Inl e, w')
              \<or> Tensor_iadd w self (Ten other) = (Inl e, w')
              \<or> Tensor_radd w self (Ten other) = (Inl e, w')
              \<or> Tensor_gather w self ax (Ten other) = (Inl e, w')
              \<or> Tensor_mul w self (Num c) = (Inl e, w')
              \<or> Tensor_rmul w self (Num c) = (Inl e, w')
              \<or> Tensor_add w self (Num c) = (Inl e, w')
              \<or> Tensor_iadd w self (Num c) = (Inl e, w')
              \<or> Tensor_radd w self (Num c) = (Inl e, w')
              \<or> Tensor_sub w self (Num c) = (Inl e, w')
              \<or> Tensor_truediv w self (Num c) = (Inl e, w')" for e w'
    using that
  proof (elim disjE)
    assume "Tensor_matmul w self x = (Inl e, w')"
    then show ?thesis by (rule failed_primitive_unchanged [OF disjI1])
  next
    assume "Tensor_pow w self x = (Inl e, w')"
    then show ?thesis by (rule failed_primitive_unchanged [OF disjI2, OF disjI1])
  next
    assume "Tensor_getitem resolve w self key = (Inl e, w')"
    then show ?thesis by (rule failed_single_node_unchanged [OF disjI1])
  next
    assume "Tensor_sqrt w self = (Inl e, w')"
    then show ?thesis by (simp add: Tensor_sqrt_def Tensor_pow_Num)
  next
    assume "Tensor_exp w self = (Inl e, w')"
    then show ?thesis by (simp add: Tensor_exp_eq)
  next
    assume "Tensor_log w self = (Inl e, w')"
    then show ?thesis by (simp add: Tensor_log_eq)
  next
    assume "Tensor_max w self axis keepdims = (Inl e, w')"
    then show ?thesis by (auto simp: Tensor_max_eq split: sum.splits)
  next
    assume "Tensor_sum w self axis keepdims = (Inl e, w')"
    then show ?thesis by (auto simp: Tensor_sum_eq split: sum.splits)
  next
    assume "Tensor_gt w self x = (Inl e, w')"
    then have "Tensor_getitem resolve w self key = (Inl e, w')
           \<or> Tensor_exp w self = (Inl e, w')
           \<or> Tensor_log w self = (Inl e, w')
           \<or> Tensor_sqrt w self = (Inl e, w')
           \<or> Tensor_gt w self x = (Inl e, w')
           \<or> Tensor_rmul w self (Ten other) = (Inl e, w')
           \<or> Tensor_gather w self ax (Ten other) = (Inl e, w')" by simp
    then show ?thesis by (rule failed_single_node_unchanged)
  next
    assume "Tensor_neg w self = (Inl e, w')"
    then show ?thesis by (simp add: Tensor_neg_def Tensor_mul_Num_returns)
  next
    assume "Tensor_mul w self (Ten other) = (Inl e, w')"
    then show ?thesis by (auto simp: Tensor_mul_Ten split: sum.splits)
  next
    assume "Tensor_rmul w self (Ten other) = (Inl e, w')"
    then show ?thesis by (auto simp: Tensor_rmul_def Tensor_mul_Ten split: sum.splits)
  next
    assume "Tensor_add w self (Ten other) = (Inl e, w')"
    then show ?thesis by (auto simp: Tensor_add_Ten split: sum.splits)
  next
    assume "Tensor_iadd w self (Ten other) = (Inl e, w')"
    then show ?thesis by (auto simp: Tensor_iadd_def Tensor_add_Ten split: sum.splits)
  next
    assume "Tensor_radd w self (Ten other) = (Inl e, w')"
    then show ?thesis by (auto simp: Tensor_radd_def Tensor_add_Ten split: sum.splits)
  next
    assume "Tensor_gather w self ax (Ten other) = (Inl e, w')"
    then show ?thesis by (auto simp: Tensor_gather_Ten split: sum.splits)
  next
    assume "Tensor_mul w self (Num c) = (Inl e, w')"
    then show ?thesis by (simp add: Tensor_mul_Num_returns)
  next
    assume "Tensor_rmul w self (Num c) = (Inl e, w')"
    then show ?thesis by (simp add: Tensor_rmul_def Tensor_mul_Num_returns)
  next
    assume "Tensor_add w self (Num c) = (Inl e, w')"
    then show ?thesis by (simp add: Tensor_add_Num_returns)
  next
    assume "Tensor_iadd w self (Num c) = (Inl e, w')"
    then show ?thesis by (simp add: Tensor_iadd_def Tensor_add_Num_returns)
  next
    assume "Tensor_radd w self (Num c) = (Inl e, w')"
    then show ?thesis by (simp add: Tensor_radd_def Tensor_add_Num_returns)
  next
    assume "Tensor_sub w self (Num c) = (Inl e, w')"
    then show ?thesis by (simp add: Tensor_sub_def Tensor_add_Num_returns)
  next
    assume "Tensor_truediv w self (Num c) = (Inl e, w')"
    then show ?thesis
      by (cases "c = 0") (simp_all add: Tensor_truediv_def Tensor_mul_Num_returns)
  qed
  have wrapped: "\<forall>e w'. Tensor_mul w self (Raw d) = (Inl e, w')
              \<or> Tensor_rmul w self (Raw d) = (Inl e, w')
              \<or> Tensor_gather w self ax (Raw d) = (Inl e, w')
              \<or> Tensor_add w self (Raw d) = (Inl e, w')
              \<or> Tensor_iadd w self (Raw d) = (Inl e, w')
              \<or> Tensor_radd w self (Raw d) = (Inl e, w')
                \<longrightarrow> w' = push w (fresh_node w d [] False NoOp)"
    by (intro allI impI) (rule failed_after_wrapping)
  have recip: "\<forall>e w'. Tensor_truediv w self (Raw d) = (Inl e, w')
                \<longrightarrow> w' = push w (fresh_node w (np_pow d (- 1)) [] False NoOp)"
    by (intro allI impI) (rule failed_truediv_raw)
  have composite: "\<forall>e w'. (Tensor_truediv w self (Ten other) = (Inl e, w')
                 \<longrightarrow> length (heap w') = Suc (length (heap w)))
              \<and> (Tensor_sub w self (Ten other) = (Inl e, w')
                 \<longrightarrow> length (heap w') = Suc (Suc (length (heap w))))
              \<and> (Tensor_mean w self axis keepdims = (Inl e, w')
                 \<longrightarrow> w' = w \<or> e = ZeroDivisionError
                              \<and> length (heap w') = Suc (length (heap w)))"
    by (intro allI) (rule failed_composite)
  from single have single': "\<forall>e w'. Tensor_matmul w self x = (Inl e, w')
              \<or> Tensor_pow w self x = (Inl e, w')
              \<or> Tensor_getitem resolve w self key = (Inl e, w')
              \<or> Tensor_sqrt w self = (Inl e, w')
              \<or> Tensor_exp w self = (Inl e, w')
              \<or> Tensor_log w self = (Inl e, w')
              \<or> Tensor_max w self axis keepdims = (Inl e, w')
              \<or> Tensor_sum w self axis keepdims = (Inl e, w')
              \<or> Tensor_gt w self x = (Inl e, w')
              \<or> Tensor_neg w self = (Inl e, w')
              \<or> Tensor_mul w self (Ten other) = (Inl e, w')
              \<or> Tensor_rmul w self (Ten other) = (Inl e, w')
              \<or> Tensor_add w self (Ten other) = (Inl e, w')
              \<or> Tensor_iadd w self (Ten other) = (Inl e, w')
              \<or> Tensor_radd w self (Ten other) = (Inl e, w')
              \<or> Tensor_gather w self ax (Ten other) = (Inl e, w')
              \<or> Tensor_mul w self (Num c) = (Inl e, w')
              \<or> Tensor_rmul w self (Num c) = (Inl e, w')
              \<or> Tensor_add w self (Num c) = (Inl e, w')
              \<or> Tensor_iadd w self (Num c) = (Inl e, w')
              \<or> Tensor_radd w self (Num c) = (Inl e, w')
              \<or> Tensor_sub w self (Num c) = (Inl e, w')
              \<or> Tensor_truediv w self (Num c) = (Inl e, w') \<longrightarrow> w' = w"
    by (intro allI impI)
  have number: "Tensor_gather w self ax (Num c)
       = (Inl IndexError, push w (fresh_node w (np_scalar c) [] False NoOp))"
    by (rule failed_gather_number)
  show ?thesis
    by (rule conjI [OF frame conjI [OF meaning conjI [OF single' conjI [OF wrapped
          conjI [OF recip conjI [OF number composite]]]]]])
qed

theorem operators_leave_nodes_unchanged_witness:
  "Tensor_matmul w_mismatch 0 (Ten 1) = (Inl ValueError, w_mismatch)
   \<and> Tensor_pow w_mismatch 0 (Raw arr23) = (Inl AssertionError, w_mismatch)
   \<and> Tensor_getitem resolve_first_axis w_mismatch 0 (KeyPy 2) = (Inl IndexError, w_mismatch)
   \<and> extends w_mismatch (snd (Tensor_truediv w_mismatch 0 (Ten 1)))
   \<and> get (snd (Tensor_truediv w_mismatch 0 (Ten 1))) 0 = get w_mismatch 0
   \<and> get (snd (Tensor_truediv w_mismatch 0 (Ten 1))) 1 = get w_mismatch 1
   \<and> length (heap (snd (Tensor_truediv w_mismatch 0 (Ten 1)))) = 3
   \<and> Tensor_mul w_mismatch 0 (Raw \<lparr>shape = [2], elems = [1, 2]\<rparr>)
       = (Inl ValueError,
          push w_mismatch (fresh_node w_mismatch \<lparr>shape = [2], elems = [1, 2]\<rparr> [] False NoOp))"
proof -
  have a: "fst (Tensor_matmul w_mismatch 0 (Ten 1)) = Inl ValueError" by code_simp
  have b: "fst (Tensor_pow w_mismatch 0 (Raw arr23)) = Inl AssertionError" by code_simp
  have c: "fst (Tensor_getitem resolve_first_axis w_mismatch 0 (KeyPy 2)) = Inl IndexError"
    by code_simp
  have d: "fst (Tensor_truediv w_mismatch 0 (Ten 1)) = Inl ValueError" by code_simp
  have e: "fst (Tensor_mul w_mismatch 0 (Raw \<lparr>shape = [2], elems = [1, 2]\<rparr>)) = Inl ValueError"
    by code_simp
  have l: "(0::nat) < length (heap w_mismatch)" "(1::nat) < length (heap w_mismatch)"
    "Suc (length (heap w_mismatch)) = 3"
    by code_simp+
  note t = operators_leave_nodes_unchanged
             [where w = w_mismatch and self = 0 and other = 1 and resolve = resolve_first_axis
                and key = "KeyPy 2" and d = "\<lparr>shape = [2], elems = [1, 2]\<rparr>"]
  note tt = t [where x = "Ten 1"]
  note tr = t [where x = "Raw arr23"]
  note frame = tt [THEN conjunct1]
  note meaning = tt [THEN conjunct2, THEN conjunct1, rule_format]
  note single = tt [THEN conjunct2, THEN conjunct2, THEN conjunct1, rule_format]
  note single_raw = tr [THEN conjunct2, THEN conjunct2, THEN conjunct1, rule_format]
  note wrapped = tt [THEN conjunct2, THEN conjunct2, THEN conjunct2, THEN conjunct1, rule_format]
  note composite = tt [THEN conjunct2, THEN conjunct2, THEN conjunct2, THEN conjunct2,
                       THEN conjunct2, THEN conjunct2, rule_format]
  have pa: "Tensor_matmul w_mismatch 0 (Ten 1)
              = (Inl ValueError, snd (Tensor_matmul w_mismatch 0 (Ten 1)))"
    using a by (simp add: prod_eq_iff)
  have pb: "Tensor_pow w_mismatch 0 (Raw arr23)
              = (Inl AssertionError, snd (Tensor_pow w_mismatch 0 (Raw arr23)))"
    using b by (simp add: prod_eq_iff)
  have pc: "Tensor_getitem resolve_first_axis w_mismatch 0 (KeyPy 2)
              = (Inl IndexError, snd (Tensor_getitem resolve_first_axis w_mismatch 0 (KeyPy 2)))"
    using c by (simp add: prod_eq_iff)
  have pd: "Tensor_truediv w_mismatch 0 (Ten 1)
              = (Inl ValueError, snd (Tensor_truediv w_mismatch 0 (Ten 1)))"
    using d by (simp add: prod_eq_iff)
  have pe: "Tensor_mul w_mismatch 0 (Raw \<lparr>shape = [2], elems = [1, 2]\<rparr>)
              = (Inl ValueError, snd (Tensor_mul w_mismatch 0 (Raw \<lparr>shape = [2], elems = [1, 2]\<rparr>)))"
    using e by (simp add: prod_eq_iff)
  have ra: "snd (Tensor_matmul w_mismatch 0 (Ten 1)) = w_mismatch"
    by (rule single, rule disjI1, rule pa)
  have rb: "snd (Tensor_pow w_mismatch 0 (Raw arr23)) = w_mismatch"
    by (rule single_raw, rule disjI2, rule disjI1, rule pb)
  have rc: "snd (Tensor_getitem resolve_first_axis w_mismatch 0 (KeyPy 2)) = w_mismatch"
    by (rule single, rule disjI2, rule disjI2, rule disjI1, rule pc)
  have rd: "extends w_mismatch (snd (Tensor_truediv w_mismatch 0 (Ten 1)))"
    by (rule frame [THEN conjunct2, THEN conjunct2, THEN conjunct2, THEN conjunct2,
                    THEN conjunct2, THEN conjunct2, THEN conjunct2, THEN conjunct2,
                    THEN conjunct1])
  have re: "snd (Tensor_mul w_mismatch 0 (Raw \<lparr>shape = [2], elems = [1, 2]\<rparr>))
              = push w_mismatch (fresh_node w_mismatch \<lparr>shape = [2], elems = [1, 2]\<rparr> [] False NoOp)"
    by (rule wrapped, rule disjI1, rule pe)
  have rf: "length (heap (snd (Tensor_truediv w_mismatch 0 (Ten 1)))) = 3"
    using composite [THEN conjunct1, rule_format, OF pd] l(3) by simp
  from meaning [OF rd]
  have rg: "get (snd (Tensor_truediv w_mismatch 0 (Ten 1))) 0 = get w_mismatch 0"
    "get (snd (Tensor_truediv w_mismatch 0 (Ten 1))) 1 = get w_mismatch 1"
    using l(1,2) by simp_all
  from pa ra have "Tensor_matmul w_mismatch 0 (Ten 1) = (Inl ValueError, w_mismatch)" by simp
  moreover from pb rb
  have "Tensor_pow w_mismatch 0 (Raw arr23) = (Inl AssertionError, w_mismatch)" by simp
  moreover from pc rc
  have "Tensor_getitem resolve_first_axis w_mismatch 0 (KeyPy 2) = (Inl IndexError, w_mismatch)"
    by simp
  moreover from pe re
  have "Tensor_mul w_mismatch 0 (Raw \<lparr>shape = [2], elems = [1, 2]\<rparr>)
       = (Inl ValueError,
          push w_mismatch (fresh_node w_mismatch \<lparr>shape = [2], elems = [1, 2]\<rparr> [] False NoOp))"
    by simp
  ultimately show ?thesis using rd rf rg by (intro conjI)
qed

section \<open>Augmented assignment\<close>

text \<open>
  Claim C10. \<open>a += b\<close> calls \<open>__iadd__\<close>, which returns \<open>self + other\<close>: the result of
  \<open>a + b\<close>, nothing else. The tensor \<open>a\<close> referred to before is not written: it is the
  same tensor afterwards (same data, grad and children), as is every other tensor of the
  heap. Where the call returns, the reference it returns, to which the name is bound, is a
  new one, different from \<open>a\<close>; the new node has \<open>a\<close> among its children and its data is
  the sum of the data of \<open>a\<close> and of \<open>b\<close>.
\<close>

theorem iadd_builds_new_node:
  assumes "self < length (heap w)"
  shows "Tensor_iadd w self other = Tensor_add w self other
         \<and> extends w (snd (Tensor_iadd w self other))
         \<and> get (snd (Tensor_iadd w self other)) self = get w self
         \<and> (\<forall>out w'. Tensor_iadd w self other = (Inr out, w') \<longrightarrow>
               length (heap w) \<le> out \<and> out < length (heap w') \<and> out \<noteq> self
               \<and> self \<in> set (children (get w' out))
               \<and> np_add (data (get w self)) (operand_data w other) = Inr (data (get w' out)))"
proof (intro conjI allI impI)
  show "Tensor_iadd w self other = Tensor_add w self other"
    by (simp add: Tensor_iadd_def)
  show "extends w (snd (Tensor_iadd w self other))"
    by (simp add: Tensor_iadd_def extends_add)
  then show "get (snd (Tensor_iadd w self other)) self = get w self"
    using assms by (rule extends_get)
next
  fix out w' assume "Tensor_iadd w self other = (Inr out, w')"
  then have a: "Tensor_add w self other = (Inr out, w')" by (simp add: Tensor_iadd_def)
  from add_out_fresh [OF a assms]
  show "length (heap w) \<le> out" and "out < length (heap w')" and "out \<noteq> self"
    and "self \<in> set (children (get w' out))"
    and "np_add (data (get w self)) (operand_data w other) = Inr (data (get w' out))"
    by simp_all
qed

theorem iadd_builds_new_node_witness:
  "(0::nat) < length (heap w_pair)
   \<and> fst (Tensor_iadd w_pair 0 (Ten 1)) = Inr 2
   \<and> get (snd (Tensor_iadd w_pair 0 (Ten 1))) 0 = get w_pair 0
   \<and> data (get w_pair 0) = \<lparr>shape = [2, 3], elems = [1, 2, 3, 4, 5, 6]\<rparr>
   \<and> data (get (snd (Tensor_iadd w_pair 0 (Ten 1))) 2)
       = \<lparr>shape = [2, 3], elems = [11, 22, 33, 14, 25, 36]\<rparr>"
proof -
  have l: "(0::nat) < length (heap w_pair)" by code_simp
  have f: "fst (Tensor_iadd w_pair 0 (Ten 1)) = Inr 2" by code_simp
  have d: "data (get w_pair 0) = \<lparr>shape = [2, 3], elems = [1, 2, 3, 4, 5, 6]\<rparr>" by code_simp
  have e: "data (get (snd (Tensor_iadd w_pair 0 (Ten 1))) 2)
       = \<lparr>shape = [2, 3], elems = [11, 22, 33, 14, 25, 36]\<rparr>" by code_simp
  have "get (snd (Tensor_iadd w_pair 0 (Ten 1))) 0 = get w_pair 0"
    by (rule iadd_builds_new_node [OF l, of "Ten 1", THEN conjunct2, THEN conjunct2,
          THEN conjunct1])
  with l f d e show ?thesis by simp
qed

section \<open>The closure of max\<close>

text \<open>
  Claim C5. The closure of \<open>max\<close> multiplies the incoming gradient by the comparison of
  the operand's data with the output's data and adds it in place. With a \<open>dim\<close> and
  without \<open>keepdims\<close> the output has lost the reduced axis, and the closure does not put
  it back (the closure of \<open>sum\<close> does, with \<open>expand_dims\<close>). For the leaf
  [[1,2,3],[4,5,6]] and \<open>max(dim=1)\<close> the output is [3,6] of shape (2,), the comparison
  of shapes (2,3) and (2,) raises \<open>ValueError\<close>, and the operand's grad stays zero. For
  the square leaf [[1,2],[4,3]] the shapes (2,2) and (2,) do broadcast, along the wrong
  axis: the output [2,4] is compared with every row, no element is equal, and
  \<open>backward\<close> returns with the operand's grad all zero, where the maxima are the elements
  2 and 4.
\<close>

theorem max_backward_without_keepdims:
  "fst (Tensor_max w_leaf 0 (Some 1) False) = Inr 1
   \<and> requires_grad (get w_max_rows 0)
   \<and> shape (data (get w_max_rows 0)) = [2, 3]
   \<and> data (get w_max_rows 1) = \<lparr>shape = [2], elems = [3, 6]\<rparr>
   \<and> fst (Tensor_backward 2 w_max_rows 1) = Inl ValueError
   \<and> grad (get (snd (Tensor_backward 2 w_max_rows 1)) 0)
       = Some \<lparr>shape = [2, 3], elems = [0, 0, 0, 0, 0, 0]\<rparr>
   \<and> fst (Tensor_max w_square 0 (Some 1) False) = Inr 1
   \<and> data (get w_square_max 0) = \<lparr>shape = [2, 2], elems = [1, 2, 4, 3]\<rparr>
   \<and> data (get w_square_max 1) = \<lparr>shape = [2], elems = [2, 4]\<rparr>
   \<and> fst (Tensor_backward 2 w_square_max 1) = Inr ()
   \<and> grad (get (snd (Tensor_backward 2 w_square_max 1)) 0)
       = Some \<lparr>shape = [2, 2], elems = [0, 0, 0, 0]\<rparr>"
  by (intro conjI; code_simp)

section \<open>The closure of sum\<close>

text \<open>
  Claim C6. Let the operand require a gradient, let its grad have the shape of its data,
  and let the grad of the output have the shape of the output's data, which is the sum of
  the operand's data over \<open>dim\<close>. Then the closure of \<open>sum\<close> does not raise. It takes the
  incoming gradient with the reduced axis put back as a dimension of size 1 (nothing to
  put back with \<open>keepdims\<close> or without \<open>dim\<close>), which broadcasts to the operand's shape, and
  adds it in place: the new grad has the operand's shape, and its element at every index
  is the old element plus the element of the incoming gradient at that index with the
  reduced coordinates set to 0. Concretely, for a leaf of shape (2,3) that requires a
  gradient, \<open>sum(dim=0)\<close> has shape (3,), and \<open>backward\<close> on it returns with the leaf's grad
  of shape (2,3) and every entry 1.
\<close>

theorem sum_backward_broadcasts:
  "(requires_grad (get w self)
      \<and> grad (get w self) = Some g \<and> shape g = shape (data (get w self))
      \<and> grad (get w out) = Some og \<and> shape og = shape (data (get w out))
      \<and> np_sum (data (get w self)) axis keepdims = Inr (data (get w out))
    \<longrightarrow>
      (\<exists>e g'. (case axis of
                   None \<Rightarrow> e = og
                 | Some ax \<Rightarrow> if keepdims then e = og else expand_dims og ax = Inr e)
           \<and> broadcast_shapes (shape e) (shape g) = Some (shape g)
           \<and> backward_sum w self axis keepdims out = (Inr (), set_grad w self g')
           \<and> shape g' = shape g
           \<and> (\<forall>idx \<in> set (indices (shape g)).
                 elem_at g' idx = elem_at g idx + elem_at e (bidx (shape e) idx))))
   \<and> fst (Tensor_sum w_leaf 0 (Some 0) False) = Inr 1
   \<and> shape (data (get w_sum_cols 0)) = [2, 3]
   \<and> requires_grad (get w_sum_cols 0)
   \<and> shape (data (get w_sum_cols 1)) = [3]
   \<and> fst (Tensor_backward 2 w_sum_cols 1) = Inr ()
   \<and> grad (get (snd (Tensor_backward 2 w_sum_cols 1)) 1)
       = Some \<lparr>shape = [3], elems = [1, 1, 1]\<rparr>
   \<and> grad (get (snd (Tensor_backward 2 w_sum_cols 1)) 0)
       = Some \<lparr>shape = [2, 3], elems = [1, 1, 1, 1, 1, 1]\<rparr>"
proof (intro conjI impI)
  assume "requires_grad (get w self)
      \<and> grad (get w self) = Some g \<and> shape g = shape (data (get w self))
      \<and> grad (get w out) = Some og \<and> shape og = shape (data (get w out))
      \<and> np_sum (data (get w self)) axis keepdims = Inr (data (get w out))"
  then show "\<exists>e g'. (case axis of
                   None \<Rightarrow> e = og
                 | Some ax \<Rightarrow> if keepdims then e = og else expand_dims og ax = Inr e)
           \<and> broadcast_shapes (shape e) (shape g) = Some (shape g)
           \<and> backward_sum w self axis keepdims out = (Inr (), set_grad w self g')
           \<and> shape g' = shape g
           \<and> (\<forall>idx \<in> set (indices (shape g)).
                 elem_at g' idx = elem_at g idx + elem_at e (bidx (shape e) idx))"
    using sum_backward_adds_broadcast [of w self g out og axis keepdims] by simp
qed code_simp+

theorem sum_backward_broadcasts_witness:
  "requires_grad (get w_sum_cols 0)
   \<and> grad (get w_sum_cols 0) = Some \<lparr>shape = [2, 3], elems = [0, 0, 0, 0, 0, 0]\<rparr>
   \<and> grad (get w_sum_cols 1) = Some \<lparr>shape = [3], elems = [0, 0, 0]\<rparr>
   \<and> np_sum (data (get w_sum_cols 0)) (Some 0) False = Inr (data (get w_sum_cols 1))
   \<and> (\<exists>g'. backward_sum w_sum_cols 0 (Some 0) False 1 = (Inr (), set_grad w_sum_cols 0 g')
            \<and> shape g' = [2, 3])"
proof -
  have h: "requires_grad (get w_sum_cols 0)"
    "grad (get w_sum_cols 0) = Some \<lparr>shape = [2, 3], elems = [0, 0, 0, 0, 0, 0]\<rparr>"
    "shape \<lparr>shape = [2, 3], elems = [0, 0, 0, 0, 0, 0::real]\<rparr> = shape (data (get w_sum_cols 0))"
    "grad (get w_sum_cols 1) = Some \<lparr>shape = [3], elems = [0, 0, 0]\<rparr>"
    "shape \<lparr>shape = [3], elems = [0, 0, 0::real]\<rparr> = shape (data (get w_sum_cols 1))"
    "np_sum (data (get w_sum_cols 0)) (Some 0) False = Inr (data (get w_sum_cols 1))"
    by code_simp+
  from sum_backward_broadcasts [where w = w_sum_cols and self = 0 and out = 1
      and g = "\<lparr>shape = [2, 3], elems = [0, 0, 0, 0, 0, 0]\<rparr>"
      and og = "\<lparr>shape = [3], elems = [0, 0, 0]\<rparr>" and axis = "Some 0" and keepdims = False,
      THEN conjunct1, THEN mp] h
  have "\<exists>g'. backward_sum w_sum_cols 0 (Some 0) False 1 = (Inr (), set_grad w_sum_cols 0 g')
            \<and> shape g' = [2, 3]"
    by auto
  with h show ?thesis by simp
qed

section \<open>The order of the backward pass\<close>




section \<open>The closure of multiply\<close>

text \<open>
  Claim C4. Let \<open>out = A * B\<close> with shapes that broadcast, let the grad of \<open>out\<close> have the
  shape of its data, and let the grad of each operand that requires a gradient have the
  shape of that operand's data. Then the closure of \<open>*\<close> does not raise. To the grad of
  \<open>A\<close> it adds, element by element, \<open>reduce_spec\<close> of \<open>B * dOut\<close>, and then to the grad of
  \<open>B\<close>, \<open>reduce_spec\<close> of \<open>A * dOut\<close>, each only where the operand requires a gradient
  (and both into the same grad when \<open>A\<close> and \<open>B\<close> are one tensor). \<open>reduce_spec\<close> is the
  reduction in the spec's words: the sum over the leading extra dimensions until the rank
  is the operand's, then the sum, keeping the dimension, over every dimension where the
  operand's shape is 1 and the incoming gradient's is not. The loops of the code sum over
  every dimension where the operand's shape is 1, which is the same array, since the sum
  over a dimension of size 1 changes nothing. The reduced contribution has exactly the
  operand's shape, and so has each operand's grad afterwards.
\<close>

theorem mul_backward_reduces:
  assumes refs: "self < length (heap w)" "other < length (heap w)" "out \<noteq> self" "out \<noteq> other"
    and fw: "np_mul (data (get w self)) (data (get w other)) = Inr (data (get w out))"
    and og: "grad (get w out) = Some og" "shape og = shape (data (get w out))"
    and ga: "requires_grad (get w self) \<longrightarrow>
               (\<exists>g. grad (get w self) = Some g \<and> shape g = shape (data (get w self)))"
    and gb: "requires_grad (get w other) \<longrightarrow>
               (\<exists>g. grad (get w other) = Some g \<and> shape g = shape (data (get w other)))"
  shows "\<exists>da db w1 w2.
           np_mul (data (get w other)) og = Inr da
         \<and> np_mul (data (get w self)) og = Inr db
         \<and> shape (reduce_spec (shape (data (get w self))) da) = shape (data (get w self))
         \<and> shape (reduce_spec (shape (data (get w other))) db) = shape (data (get w other))
         \<and> w1 = (if requires_grad (get w self)
                  then accumulate w self (reduce_spec (shape (data (get w self))) da) else w)
         \<and> w2 = (if requires_grad (get w other)
                  then accumulate w1 other (reduce_spec (shape (data (get w other))) db) else w1)
         \<and> backward_mul w self other out = (Inr (), w2)
         \<and> (\<forall>r \<in> {self, other}. requires_grad (get w r) \<longrightarrow>
               (\<exists>g. grad (get w2 r) = Some g \<and> shape g = shape (data (get w r))))"
proof -
  let ?sa = "shape (data (get w self))" and ?sb = "shape (data (get w other))"
  let ?u = "shape og"
  from np_mul_shape [OF fw] og(2) have bc: "broadcast_shapes ?sa ?sb = Some ?u" by simp
  note br = broadcast_shapes_result [OF bc]
  let ?da = "tabulate ?u (\<lambda>idx. elem_at (data (get w other)) (bidx ?sb idx)
                              * elem_at og (bidx ?u idx))"
  let ?db = "tabulate ?u (\<lambda>idx. elem_at (data (get w self)) (bidx ?sa idx)
                              * elem_at og (bidx ?u idx))"
  have ma: "np_mul (data (get w other)) og = Inr ?da"
    using br(6) by (simp add: np_mul_def np_binop_shape)
  have mb: "np_mul (data (get w self)) og = Inr ?db"
    using br(5) by (simp add: np_mul_def np_binop_shape)
  have sda: "shape ?da = ?u" and sdb: "shape ?db = ?u"
    by (simp_all add: shape_tabulate)
  have sha: "shape (reduce_spec ?sa ?da) = ?sa"
    by (rule shape_reduce_spec) (simp_all only: sda br(1,3))
  have shb: "shape (reduce_spec ?sb ?db) = ?sb"
    by (rule shape_reduce_spec) (simp_all only: sdb br(2,4))
  let ?w1 = "if requires_grad (get w self) then accumulate w self (reduce_spec ?sa ?da) else w"
  let ?w2 = "if requires_grad (get w other) then accumulate ?w1 other (reduce_spec ?sb ?db)
             else ?w1"
  have b1: "mul_grad_into w self other out = (Inr (), ?w1)"
  proof (cases "requires_grad (get w self)")
    case True
    with ga obtain g where g: "grad (get w self) = Some g" "shape g = ?sa" by blast
    from mul_grad_into_reduce [OF True g(1) og(1), of other] g(2) br(1,3,6) ma True
    show ?thesis by auto
  next
    case False
    then show ?thesis by (simp add: mul_grad_into_def)
  qed
  have d1: "data (get ?w1 r) = data (get w r)" for r
    by (simp add: data_accumulate)
  have r1: "requires_grad (get ?w1 r) = requires_grad (get w r)" for r
    by (simp add: requires_grad_accumulate)
  have o1: "grad (get ?w1 out) = Some og"
    using og(1) refs(3) by (simp add: get_accumulate_other)
  have gb1: "requires_grad (get w other) \<longrightarrow>
               (\<exists>g. grad (get ?w1 other) = Some g \<and> shape g = ?sb)"
    using gb refs(1) by (auto intro: grad_shape_accumulate)
  have ga1: "requires_grad (get w self) \<longrightarrow>
               (\<exists>g. grad (get ?w1 self) = Some g \<and> shape g = ?sa)"
    using ga refs(1) by (auto intro: grad_shape_accumulate)
  have b2: "mul_grad_into ?w1 other self out = (Inr (), ?w2)"
  proof (cases "requires_grad (get w other)")
    case True
    with gb1 obtain g where g: "grad (get ?w1 other) = Some g" "shape g = ?sb" by blast
    have rg: "requires_grad (get ?w1 other)" using True by (simp add: r1)
    have bf: "broadcast_shapes (shape (data (get ?w1 self))) ?u = Some ?u"
      using br(5) by (simp add: d1)
    have st: "list_all2 (\<lambda>x y. x = y \<or> x = 1) (shape g) (drop (length ?u - length (shape g)) ?u)"
      using br(4) g(2) by simp
    have ln: "length (shape g) \<le> length ?u" using br(2) g(2) by simp
    from mul_grad_into_reduce [OF rg g(1) o1 ln st bf]
    obtain g0 where g0: "np_mul (data (get ?w1 self)) og = Inr g0"
      "mul_grad_into ?w1 other self out = (Inr (), accumulate ?w1 other (reduce_spec (shape g) g0))"
      by blast
    from g0(1) mb have "g0 = ?db" by (simp add: d1)
    with g0(2) g(2) True show ?thesis by simp
  next
    case False
    then have "\<not> requires_grad (get ?w1 other)" by (simp add: r1)
    then have "mul_grad_into ?w1 other self out = (Inr (), ?w1)"
      by (simp only: mul_grad_into_def if_False)
    with False show ?thesis by simp
  qed
  have bm: "backward_mul w self other out = (Inr (), ?w2)"
    using b1 b2 by (simp add: backward_mul_def)
  have l1: "other < length (heap ?w1)"
    using refs(2) by (simp add: length_heap_accumulate)
  have fa: "requires_grad (get w self) \<longrightarrow>
              (\<exists>g. grad (get ?w2 self) = Some g \<and> shape g = ?sa)"
    using ga1 l1 by (auto intro: grad_shape_accumulate)
  have fb: "requires_grad (get w other) \<longrightarrow>
              (\<exists>g. grad (get ?w2 other) = Some g \<and> shape g = ?sb)"
    using gb1 l1 by (auto intro: grad_shape_accumulate)
  have fin: "\<forall>r \<in> {self, other}. requires_grad (get w r) \<longrightarrow>
               (\<exists>g. grad (get ?w2 r) = Some g \<and> shape g = shape (data (get w r)))"
    using fa fb by blast
  show ?thesis
    apply (rule exI [of _ ?da], rule exI [of _ ?db], rule exI [of _ ?w1], rule exI [of _ ?w2])
    apply (intro conjI)
           apply (rule ma)
          apply (rule mb)
         apply (rule sha)
        apply (rule shb)
       apply (rule refl)
      apply (rule refl)
     apply (rule bm)
    apply (rule fin)
    done
qed


theorem mul_backward_reduces_witness:
  "(0::nat) < length (heap w_bcast) \<and> (1::nat) < length (heap w_bcast)
   \<and> np_mul (data (get w_bcast 0)) (data (get w_bcast 1)) = Inr (data (get w_bcast 2))
   \<and> shape (data (get w_bcast 0)) = [3, 1] \<and> shape (data (get w_bcast 1)) = [4]
   \<and> grad (get w_bcast 2) = Some \<lparr>shape = [3, 4], elems = [1, 1, 1, 1, 1, 1, 1, 1, 1, 1, 1, 1]\<rparr>
   \<and> fst (backward_mul w_bcast 0 1 2) = Inr ()
   \<and> (\<exists>g. grad (get (snd (backward_mul w_bcast 0 1 2)) 0) = Some g \<and> shape g = [3, 1])
   \<and> (\<exists>g. grad (get (snd (backward_mul w_bcast 0 1 2)) 1) = Some g \<and> shape g = [4])
   \<and> grad (get (snd (backward_mul w_bcast 0 1 2)) 0) = Some \<lparr>shape = [3, 1], elems = [4, 4, 4]\<rparr>
   \<and> grad (get (snd (backward_mul w_bcast 0 1 2)) 1) = Some \<lparr>shape = [4], elems = [6, 6, 6, 6]\<rparr>"
proof -
  let ?og = "\<lparr>shape = [3, 4], elems = [1, 1, 1, 1, 1, 1, 1, 1, 1, 1, 1, 1::real]\<rparr>"
  have r: "(0::nat) < length (heap w_bcast)" "(1::nat) < length (heap w_bcast)"
    "(2::nat) \<noteq> 0" "(2::nat) \<noteq> 1"
    by code_simp+
  have fw: "np_mul (data (get w_bcast 0)) (data (get w_bcast 1)) = Inr (data (get w_bcast 2))"
    by code_simp
  have og: "grad (get w_bcast 2) = Some ?og" "shape ?og = shape (data (get w_bcast 2))"
    by code_simp+
  have sh: "shape (data (get w_bcast 0)) = [3, 1]" "shape (data (get w_bcast 1)) = [4]"
    by code_simp+
  have rg: "requires_grad (get w_bcast 0)" "requires_grad (get w_bcast 1)"
    by code_simp+
  have ga: "requires_grad (get w_bcast 0) \<longrightarrow>
              (\<exists>g. grad (get w_bcast 0) = Some g \<and> shape g = shape (data (get w_bcast 0)))"
  proof -
    have "grad (get w_bcast 0) = Some \<lparr>shape = [3, 1], elems = [0, 0, 0]\<rparr>" by code_simp
    with sh(1) show ?thesis by simp
  qed
  have gb: "requires_grad (get w_bcast 1) \<longrightarrow>
              (\<exists>g. grad (get w_bcast 1) = Some g \<and> shape g = shape (data (get w_bcast 1)))"
  proof -
    have "grad (get w_bcast 1) = Some \<lparr>shape = [4], elems = [0, 0, 0, 0]\<rparr>" by code_simp
    with sh(2) show ?thesis by simp
  qed
  have e: "fst (backward_mul w_bcast 0 1 2) = Inr ()"
    "grad (get (snd (backward_mul w_bcast 0 1 2)) 0) = Some \<lparr>shape = [3, 1], elems = [4, 4, 4]\<rparr>"
    "grad (get (snd (backward_mul w_bcast 0 1 2)) 1) = Some \<lparr>shape = [4], elems = [6, 6, 6, 6]\<rparr>"
    by code_simp+
  from mul_backward_reduces [OF r fw og ga gb]
  show ?thesis
  proof (elim exE conjE)
    fix da db w1 w2
    assume t: "backward_mul w_bcast 0 1 2 = (Inr (), w2)"
      "\<forall>r \<in> {0, 1}. requires_grad (get w_bcast r) \<longrightarrow>
          (\<exists>g. grad (get w2 r) = Some g \<and> shape g = shape (data (get w_bcast r)))"
    from t(1) have w2: "snd (backward_mul w_bcast 0 1 2) = w2" by simp
    from t(2) rg(1) sh(1) w2
    have a: "\<exists>g. grad (get (snd (backward_mul w_bcast 0 1 2)) 0) = Some g \<and> shape g = [3, 1]"
      by simp
    from t(2) rg(2) sh(2) w2
    have b: "\<exists>g. grad (get (snd (backward_mul w_bcast 0 1 2)) 1) = Some g \<and> shape g = [4]"
      by simp
    show ?thesis
      by (intro conjI) (fact r(1) r(2) fw sh og(1) e a b)+
  qed
qed

end
